theory Spec2Isabelle
  imports Complex_Main
begin

section \<open>quickAnalysis: values, world and exceptions\<close>

text \<open>
  The module \<^verbatim>\<open>quickAnalysis.py\<close> drives the Fermi science tools. Its state is what the
  Python code can see and change: the files of the working directory, the parameter
  dictionaries of the \<^verbatim>\<open>gt_apps\<close> objects, and what has been logged, printed and
  executed so far.
\<close>

text \<open>
  Python values that occur as configuration values and tool parameters. A float is
  represented by the real number it denotes. What Python computes with floats (the
  conversion of an int or of a string, the sum of two floats, the printed form) is left to
  the environment below, so that nothing is assumed about rounding or overflow.
\<close>

datatype pyval = PStr string | PInt int | PFloat real | PBool bool

type_synonym dict = "string \<rightharpoonup> pyval"

datatype exn =
    FileNotFound
  | KeyError string
  | AttributeError string
  | IndexError
  | TypeError
  | ValueError
  | BadUsage
  | GetoptError string
  | ToolError string
  | OverflowError

text \<open>
  The application objects imported from \<^verbatim>\<open>gt_apps\<close>, under the names the module uses
  for them: \<^verbatim>\<open>filter\<close> (gtselect), \<^verbatim>\<open>maketime\<close> (gtmktime), \<^verbatim>\<open>expCube\<close> (gtltcube),
  \<^verbatim>\<open>expMap\<close> (gtexpmap), \<^verbatim>\<open>evtbin\<close> (gtbin) and \<^verbatim>\<open>srcMaps\<close> (gtsrcmaps).
\<close>

datatype gtapp = filter_app | maketime | expCube | expMap | evtbin | srcMaps

datatype level = Info | Critical

text \<open>
  What the module does to the outside: a line handed to the logger, an application object
  run with its current parameters, a shell command given to \<^verbatim>\<open>os.system\<close>, a line
  printed, the command line of an application object printed instead of run.
\<close>

datatype event =
    Log level string
  | Run gtapp dict
  | System string
  | Print string
  | PrintCommand gtapp dict

record world =
  files :: "string set"
  pars :: "gtapp \<Rightarrow> dict"
  trace :: "event list"

text \<open>
  What the module imports and does not define: the helpers of \<^verbatim>\<open>quickUtils\<close>, the
  external tools behind \<^verbatim>\<open>gt_apps\<close> and \<^verbatim>\<open>os.system\<close>, and the Python built-ins
  that convert between strings and floats or enumerate a dictionary. They are parameters
  of the model. A helper or a tool may read and change the files of the working directory
  and may raise; the tools are black boxes.
\<close>

record env =
  NumberOfPixels :: "pyval \<Rightarrow> pyval \<Rightarrow> exn + pyval"
  readConfig :: "pyval \<Rightarrow> string set \<Rightarrow> exn + (dict \<times> dict)"
  checkConfig :: "dict \<Rightarrow> dict \<Rightarrow> exn + dict"
  writeConfig_quickUtils :: "dict \<Rightarrow> dict \<Rightarrow> string set \<Rightarrow> exn option \<times> string set"
  generateXMLmodel_quickUtils :: "pyval \<Rightarrow> string set \<Rightarrow> exn option \<times> string set"
  runModel_quickUtils :: "pyval \<Rightarrow> pyval \<Rightarrow> bool \<Rightarrow> string set \<Rightarrow> exn option \<times> string set"
  run_tool :: "gtapp \<Rightarrow> dict \<Rightarrow> string set \<Rightarrow> exn option \<times> string set"
  os_system :: "string \<Rightarrow> string set \<Rightarrow> string set"
  float_of_str :: "string \<Rightarrow> real option"
  float_of_int :: "int \<Rightarrow> exn + real"
  float_add :: "real \<Rightarrow> real \<Rightarrow> real"
  str_of_float :: "real \<Rightarrow> string"
  iteritems :: "dict \<Rightarrow> (string \<times> pyval) list"

subsection \<open>Statements that may raise\<close>

type_synonym 'a py = "world \<Rightarrow> (exn + 'a) \<times> world"

definition ret :: "'a \<Rightarrow> 'a py" where
  "ret v w = (Inr v, w)"

definition raise :: "exn \<Rightarrow> 'a py" where
  "raise e w = (Inl e, w)"

definition py_bind :: "'a py \<Rightarrow> ('a \<Rightarrow> 'b py) \<Rightarrow> 'b py" where
  "py_bind m f w = (case m w of (Inl e, w') \<Rightarrow> (Inl e, w') | (Inr v, w') \<Rightarrow> f v w')"

text \<open>A sequence of statements: the first exception ends it.\<close>

fun block :: "unit py list \<Rightarrow> unit py" where
  "block [] = ret ()"
| "block (s # ss) = py_bind s (\<lambda>_. block ss)"

text \<open>The value of an expression, or the exception its evaluation raises.\<close>

definition expr :: "exn + 'a \<Rightarrow> 'a py" where
  "expr r w = (r, w)"

subsection \<open>Expressions\<close>

definition getitem :: "dict \<Rightarrow> string \<Rightarrow> exn + pyval" where
  "getitem d k = (case d k of None \<Rightarrow> Inl (KeyError k) | Some v \<Rightarrow> Inr v)"

text \<open>Truth value of a Python value, as \<^verbatim>\<open>if(x)\<close> takes it.\<close>

fun truthy :: "pyval \<Rightarrow> bool" where
  "truthy (PStr s) = (s \<noteq> [])"
| "truthy (PInt i) = (i \<noteq> 0)"
| "truthy (PFloat r) = (r \<noteq> 0)"
| "truthy (PBool b) = b"

text \<open>
  Python's \<^verbatim>\<open>+\<close>: concatenation of two strings, addition of two numbers (a bool counts
  as 0 or 1), TypeError otherwise. Two ints are added exactly. An int meeting a float is
  converted first, as \<^verbatim>\<open>float\<close> converts it: to the nearest double, or not at all
  (OverflowError); the two floats are then added as doubles are, with the rounding of the
  machine. Conversion and addition are those of the environment.
\<close>

fun numeric :: "pyval \<Rightarrow> (int + real) option" where
  "numeric (PStr s) = None"
| "numeric (PInt i) = Some (Inl i)"
| "numeric (PFloat r) = Some (Inr r)"
| "numeric (PBool b) = Some (Inl (if b then 1 else 0))"

fun as_float :: "env \<Rightarrow> int + real \<Rightarrow> exn + real" where
  "as_float E (Inl i) = float_of_int E i"
| "as_float E (Inr r) = Inr r"

fun add_num :: "env \<Rightarrow> int + real \<Rightarrow> int + real \<Rightarrow> exn + pyval" where
  "add_num E (Inl i) (Inl j) = Inr (PInt (i + j))"
| "add_num E x y =
     (case as_float E x of
        Inl e \<Rightarrow> Inl e
      | Inr a \<Rightarrow>
          (case as_float E y of
             Inl e \<Rightarrow> Inl e
           | Inr b \<Rightarrow> Inr (PFloat (float_add E a b))))"

fun py_add :: "env \<Rightarrow> pyval \<Rightarrow> pyval \<Rightarrow> exn + pyval" where
  "py_add E (PStr a) (PStr b) = Inr (PStr (a @ b))"
| "py_add E x y =
     (case (numeric x, numeric y) of
        (Some a, Some b) \<Rightarrow> add_num E a b
      | _ \<Rightarrow> Inl TypeError)"

text \<open>\<^verbatim>\<open>a + b\<close> on expressions: left operand first, then the right one, then the sum.\<close>

definition py_plus :: "env \<Rightarrow> exn + pyval \<Rightarrow> exn + pyval \<Rightarrow> exn + pyval" where
  "py_plus E a b =
     (case a of Inl e \<Rightarrow> Inl e
      | Inr x \<Rightarrow> (case b of Inl e \<Rightarrow> Inl e | Inr y \<Rightarrow> py_add E x y))"

definition lit :: "string \<Rightarrow> exn + pyval" where
  "lit s = Inr (PStr s)"

text \<open>
  The built-in \<^verbatim>\<open>float\<close>. A string is parsed, an int is converted to the nearest
  double or refused with OverflowError (both by the environment), a float is returned as
  it is, and a bool gives 1.0 or 0.0.
\<close>

fun py_float :: "env \<Rightarrow> pyval \<Rightarrow> exn + pyval" where
  "py_float E (PStr s) =
     (case float_of_str E s of None \<Rightarrow> Inl ValueError | Some r \<Rightarrow> Inr (PFloat r))"
| "py_float E (PInt i) =
     (case float_of_int E i of Inl e \<Rightarrow> Inl e | Inr r \<Rightarrow> Inr (PFloat r))"
| "py_float E (PFloat r) = Inr (PFloat r)"
| "py_float E (PBool b) = Inr (PFloat (if b then 1 else 0))"

text \<open>A call \<^verbatim>\<open>f(a)\<close> or \<^verbatim>\<open>f(a, b)\<close>: the arguments first, from left to right.\<close>

definition call1 :: "(pyval \<Rightarrow> exn + pyval) \<Rightarrow> exn + pyval \<Rightarrow> exn + pyval" where
  "call1 f a = (case a of Inl e \<Rightarrow> Inl e | Inr x \<Rightarrow> f x)"

definition call2 ::
  "(pyval \<Rightarrow> pyval \<Rightarrow> exn + pyval) \<Rightarrow> exn + pyval \<Rightarrow> exn + pyval \<Rightarrow> exn + pyval" where
  "call2 f a b =
     (case a of Inl e \<Rightarrow> Inl e
      | Inr x \<Rightarrow> (case b of Inl e \<Rightarrow> Inl e | Inr y \<Rightarrow> f x y))"

text \<open>The built-in \<^verbatim>\<open>str\<close>.\<close>

fun dec :: "nat \<Rightarrow> string" where
  "dec n = (if n < 10 then [''0123456789'' ! n]
            else dec (n div 10) @ [''0123456789'' ! (n mod 10)])"

definition str_int :: "int \<Rightarrow> string" where
  "str_int i = (if i < 0 then ''-'' @ dec (nat (- i)) else dec (nat i))"

fun py_str :: "env \<Rightarrow> pyval \<Rightarrow> string" where
  "py_str E (PStr s) = s"
| "py_str E (PInt i) = str_int i"
| "py_str E (PFloat r) = str_of_float E r"
| "py_str E (PBool b) = (if b then ''True'' else ''False'')"

text \<open>An optional argument: the value passed, or the default of the signature.\<close>

definition arg_or :: "'a \<Rightarrow> 'a option \<Rightarrow> 'a" where
  "arg_or d a = (case a of None \<Rightarrow> d | Some v \<Rightarrow> v)"

subsection \<open>Statements\<close>

text \<open>\<^verbatim>\<open>app[key] = expr\<close>: the expression is evaluated, then the entry is assigned.\<close>

definition update_par :: "gtapp \<Rightarrow> string \<Rightarrow> pyval \<Rightarrow> (gtapp \<Rightarrow> dict) \<Rightarrow> (gtapp \<Rightarrow> dict)" where
  "update_par app k v P = P(app := (P app)(k \<mapsto> v))"

definition setitem :: "gtapp \<Rightarrow> string \<Rightarrow> exn + pyval \<Rightarrow> unit py" where
  "setitem app k e w =
     (case e of
        Inl x \<Rightarrow> (Inl x, w)
      | Inr v \<Rightarrow> (Inr (), w\<lparr>pars := update_par app k v (pars w)\<rparr>))"

definition emit :: "event \<Rightarrow> unit py" where
  "emit ev w = (Inr (), w\<lparr>trace := trace w @ [ev]\<rparr>)"

definition logger_info :: "string \<Rightarrow> unit py" where
  "logger_info msg = emit (Log Info msg)"

definition logger_critical :: "string \<Rightarrow> unit py" where
  "logger_critical msg = emit (Log Critical msg)"

text \<open>
  Modelled from the spec: \<^verbatim>\<open>quickUtils.checkForFiles\<close> is not part of the module. The
  spec makes it the ``required file missing'' check before an invocation; the module
  catches \<^verbatim>\<open>FileNotFound\<close> around every call of it. The check reads the working
  directory and changes nothing.
\<close>

fun path_exists :: "string set \<Rightarrow> pyval \<Rightarrow> bool" where
  "path_exists fs (PStr s) = (s \<in> fs)"
| "path_exists fs v = False"

definition checkForFiles :: "pyval list \<Rightarrow> unit py" where
  "checkForFiles fileList w =
     (if list_all (path_exists (files w)) fileList then (Inr (), w)
      else (Inl FileNotFound, w))"

text \<open>The elements of a list display, evaluated from left to right.\<close>

fun eval_list :: "(exn + 'a) list \<Rightarrow> exn + 'a list" where
  "eval_list [] = Inr []"
| "eval_list (x # xs) =
     (case x of Inl e \<Rightarrow> Inl e
      | Inr v \<Rightarrow> (case eval_list xs of Inl e \<Rightarrow> Inl e | Inr vs \<Rightarrow> Inr (v # vs)))"

text \<open>
  Modelled from the spec: \<^verbatim>\<open>quickUtils.runCommand\<close> is not part of the module. The spec
  makes it the single external-process invocation that ends a run-method. The flag
  \<^verbatim>\<open>run\<close> is taken as \<^verbatim>\<open>runExpCube\<close> of the module takes it: the command is executed
  when it is set and printed otherwise. The tool may change the working directory and
  may fail.
\<close>

definition runCommand :: "env \<Rightarrow> gtapp \<Rightarrow> bool \<Rightarrow> unit py" where
  "runCommand E app run w =
     (if run then
        (case run_tool E app (pars w app) (files w) of
           (None, fs) \<Rightarrow>
             (Inr (), w\<lparr>files := fs, trace := trace w @ [Run app (pars w app)]\<rparr>)
         | (Some e, fs) \<Rightarrow>
             (Inl e, w\<lparr>files := fs, trace := trace w @ [Run app (pars w app)]\<rparr>))
      else (Inr (), w\<lparr>trace := trace w @ [PrintCommand app (pars w app)]\<rparr>))"

text \<open>
  A helper of \<^verbatim>\<open>quickUtils\<close> called on the working directory: it may change the files
  and may raise.
\<close>

definition on_files :: "(string set \<Rightarrow> exn option \<times> string set) \<Rightarrow> unit py" where
  "on_files f w =
     (case f (files w) of
        (None, fs) \<Rightarrow> (Inr (), w\<lparr>files := fs\<rparr>)
      | (Some e, fs) \<Rightarrow> (Inl e, w\<lparr>files := fs\<rparr>))"

text \<open>\<^verbatim>\<open>os.system(cmd)\<close>: the shell runs the command; its exit status is dropped.\<close>

definition os_system_call :: "env \<Rightarrow> pyval \<Rightarrow> unit py" where
  "os_system_call E cmd w =
     (case cmd of
        PStr c \<Rightarrow> (Inr (), w\<lparr>files := os_system E c (files w), trace := trace w @ [System c]\<rparr>)
      | _ \<Rightarrow> (Inl TypeError, w))"

text \<open>
  \<^verbatim>\<open>try: body\<close>, \<^verbatim>\<open>except(x): handler; return\<close>, then the rest of the method. The
  handler ends the method; any other exception passes through.
\<close>

definition try_except :: "'a py \<Rightarrow> exn \<Rightarrow> unit py \<Rightarrow> ('a \<Rightarrow> unit py) \<Rightarrow> unit py" where
  "try_except body x handler rest w =
     (case body w of
        (Inl e, w') \<Rightarrow> (if e = x then handler w' else (Inl e, w'))
      | (Inr v, w') \<Rightarrow> rest v w')"

section \<open>The class quickAnalysis\<close>

text \<open>
  An object carries the two configuration dictionaries as attributes. An attribute that
  the constructor never assigned is \<open>None\<close>; reading it raises AttributeError.
\<close>

record quickAnalysis =
  commonConf :: "dict option"
  analysisConf :: "dict option"

definition attr_commonConf :: "quickAnalysis \<Rightarrow> exn + dict" where
  "attr_commonConf self =
     (case commonConf self of
        None \<Rightarrow> Inl (AttributeError ''commonConf'')
      | Some d \<Rightarrow> Inr d)"

definition attr_analysisConf :: "quickAnalysis \<Rightarrow> exn + dict" where
  "attr_analysisConf self =
     (case analysisConf self of
        None \<Rightarrow> Inl (AttributeError ''analysisConf'')
      | Some d \<Rightarrow> Inr d)"

text \<open>\<^verbatim>\<open>self.commonConf[k]\<close> and \<^verbatim>\<open>self.analysisConf[k]\<close>.\<close>

definition self_commonConf :: "quickAnalysis \<Rightarrow> string \<Rightarrow> exn + pyval" where
  "self_commonConf self k =
     (case attr_commonConf self of Inl e \<Rightarrow> Inl e | Inr d \<Rightarrow> getitem d k)"

definition self_analysisConf :: "quickAnalysis \<Rightarrow> string \<Rightarrow> exn + pyval" where
  "self_analysisConf self k =
     (case attr_analysisConf self of Inl e \<Rightarrow> Inl e | Inr d \<Rightarrow> getitem d k)"

definition runSelect :: "env \<Rightarrow> quickAnalysis \<Rightarrow> bool \<Rightarrow> pyval option \<Rightarrow> unit py" where
  "runSelect E self run convtype =
     block [
       setitem filter_app ''rad'' (self_analysisConf self ''rad''),
       setitem filter_app ''evclass'' (self_commonConf self ''eventclass''),
       setitem filter_app ''infile'' (py_plus E (py_plus E (lit ''@'') (self_commonConf self ''base'')) (lit ''.list'')),
       setitem filter_app ''outfile'' (py_plus E (self_commonConf self ''base'') (lit ''_filtered.fits'')),
       setitem filter_app ''ra'' (self_analysisConf self ''ra''),
       setitem filter_app ''dec'' (self_analysisConf self ''dec''),
       setitem filter_app ''tmin'' (self_analysisConf self ''tmin''),
       setitem filter_app ''tmax'' (self_analysisConf self ''tmax''),
       setitem filter_app ''emin'' (self_analysisConf self ''emin''),
       setitem filter_app ''emax'' (self_analysisConf self ''emax''),
       setitem filter_app ''zmax'' (self_analysisConf self ''zmax''),
       setitem filter_app ''convtype'' (Inr (arg_or (PInt (- 1)) convtype)),
       runCommand E filter_app run]"

definition runGTI :: "env \<Rightarrow> quickAnalysis \<Rightarrow> bool \<Rightarrow> pyval option \<Rightarrow> pyval option \<Rightarrow> unit py" where
  "runGTI E self run filterString roi =
     block [
       setitem maketime ''scfile'' (py_plus E (self_commonConf self ''base'') (lit ''_SC.fits'')),
       setitem maketime ''filter''
         (Inr (arg_or (PStr ''DATA_QUAL==1 && LAT_CONFIG==1 && ABS(ROCK_ANGLE)<52'') filterString)),
       setitem maketime ''roicut'' (Inr (arg_or (PStr ''yes'') roi)),
       setitem maketime ''evfile'' (py_plus E (self_commonConf self ''base'') (lit ''_filtered.fits'')),
       setitem maketime ''outfile'' (py_plus E (self_commonConf self ''base'') (lit ''_filtered_gti.fits'')),
       runCommand E maketime run]"

definition runLTCube :: "env \<Rightarrow> quickAnalysis \<Rightarrow> bool \<Rightarrow> pyval option \<Rightarrow> unit py" where
  "runLTCube E self run zmax =
     block [
       setitem expCube ''evfile'' (py_plus E (self_commonConf self ''base'') (lit ''_filtered_gti.fits'')),
       setitem expCube ''scfile'' (py_plus E (self_commonConf self ''base'') (lit ''_SC.fits'')),
       setitem expCube ''outfile'' (py_plus E (self_commonConf self ''base'') (lit ''_ltcube.fits'')),
       setitem expCube ''dcostheta'' (Inr (PFloat 0.025)),
       setitem expCube ''binsz'' (Inr (PInt 1)),
       setitem expCube ''zmax'' (Inr (arg_or (PInt 180) zmax)),
       runCommand E expCube run]"

definition runExpMap :: "env \<Rightarrow> quickAnalysis \<Rightarrow> bool \<Rightarrow> unit py" where
  "runExpMap E self run =
     block [
       setitem expMap ''evfile'' (py_plus E (self_commonConf self ''base'') (lit ''_filtered_gti.fits'')),
       setitem expMap ''scfile'' (py_plus E (self_commonConf self ''base'') (lit ''_SC.fits'')),
       setitem expMap ''expcube'' (py_plus E (self_commonConf self ''base'') (lit ''_ltcube.fits'')),
       setitem expMap ''outfile'' (py_plus E (self_commonConf self ''base'') (lit ''_expMap.fits'')),
       setitem expMap ''irfs'' (self_commonConf self ''irfs''),
       setitem expMap ''srcrad''
         (py_plus E (call1 (py_float E) (self_analysisConf self ''rad'')) (Inr (PFloat 10))),
       setitem expMap ''nlong'' (Inr (PInt 120)),
       setitem expMap ''nlat'' (Inr (PInt 120)),
       setitem expMap ''nenergies'' (Inr (PInt 20)),
       runCommand E expMap run]"

text \<open>\<^verbatim>\<open>NumberOfPixels(float(self.analysisConf['rad']), bin_size)\<close>.\<close>

definition npix_expr :: "env \<Rightarrow> quickAnalysis \<Rightarrow> pyval \<Rightarrow> exn + pyval" where
  "npix_expr E self bin_size =
     call2 (NumberOfPixels E) (call1 (py_float E) (self_analysisConf self ''rad'')) (Inr bin_size)"

definition runCCUBE :: "env \<Rightarrow> quickAnalysis \<Rightarrow> bool \<Rightarrow> pyval option \<Rightarrow> pyval option \<Rightarrow> unit py" where
  "runCCUBE E self run bin_size nbins =
     py_bind (expr (npix_expr E self (arg_or (PFloat 0.1) bin_size))) (\<lambda>npix.
     block [
       setitem evtbin ''evfile'' (py_plus E (self_commonConf self ''base'') (lit ''_filtered_gti.fits'')),
       setitem evtbin ''outfile'' (py_plus E (self_commonConf self ''base'') (lit ''_CCUBE.fits'')),
       setitem evtbin ''algorithm'' (lit ''CCUBE''),
       setitem evtbin ''nxpix'' (Inr npix),
       setitem evtbin ''nypix'' (Inr npix),
       setitem evtbin ''binsz'' (Inr (arg_or (PFloat 0.1) bin_size)),
       setitem evtbin ''coordsys'' (lit ''CEL''),
       setitem evtbin ''xref'' (self_analysisConf self ''ra''),
       setitem evtbin ''yref'' (self_analysisConf self ''dec''),
       setitem evtbin ''axisrot'' (Inr (PInt 0)),
       setitem evtbin ''proj'' (lit ''AIT''),
       setitem evtbin ''ebinalg'' (lit ''LOG''),
       setitem evtbin ''emin'' (self_analysisConf self ''emin''),
       setitem evtbin ''emax'' (self_analysisConf self ''emax''),
       setitem evtbin ''enumbins'' (Inr (arg_or (PInt 30) nbins)),
       runCommand E evtbin run])"

definition runCMAP :: "env \<Rightarrow> quickAnalysis \<Rightarrow> bool \<Rightarrow> pyval option \<Rightarrow> unit py" where
  "runCMAP E self run bin_size =
     py_bind (expr (npix_expr E self (arg_or (PFloat 0.1) bin_size))) (\<lambda>npix.
     block [
       setitem evtbin ''evfile'' (py_plus E (self_commonConf self ''base'') (lit ''_filtered_gti.fits'')),
       setitem evtbin ''outfile'' (py_plus E (self_commonConf self ''base'') (lit ''_CMAP.fits'')),
       setitem evtbin ''algorithm'' (lit ''CMAP''),
       setitem evtbin ''nxpix'' (Inr npix),
       setitem evtbin ''nypix'' (Inr npix),
       setitem evtbin ''binsz'' (Inr (arg_or (PFloat 0.1) bin_size)),
       setitem evtbin ''coordsys'' (lit ''CEL''),
       setitem evtbin ''xref'' (self_analysisConf self ''ra''),
       setitem evtbin ''yref'' (self_analysisConf self ''dec''),
       setitem evtbin ''axisrot'' (Inr (PInt 0)),
       setitem evtbin ''proj'' (lit ''AIT''),
       runCommand E evtbin run])"

text \<open>The command line that \<^verbatim>\<open>runExpCube\<close> builds, a chain of \<^verbatim>\<open>+\<close> from the left.\<close>

definition expcube_cmd :: "env \<Rightarrow> quickAnalysis \<Rightarrow> pyval \<Rightarrow> pyval \<Rightarrow> pyval \<Rightarrow> exn + pyval" where
  "expcube_cmd E self npix bin_size nbins =
     foldl (py_plus E) (lit ''gtexpcube2 infile='') [
       self_commonConf self ''base'', lit ''_ltcube.fits'',
       lit '' cmap=none'',
       lit '' outfile='', self_commonConf self ''base'', lit ''_BinnedExpMap.fits'',
       lit '' irfs='', self_commonConf self ''irfs'',
       lit '' xref='', call1 (\<lambda>v. lit (py_str E v)) (self_analysisConf self ''ra''),
       lit '' yref='', call1 (\<lambda>v. lit (py_str E v)) (self_analysisConf self ''dec''),
       lit '' nxpix='', lit (py_str E npix),
       lit '' nypix='', lit (py_str E npix),
       lit '' binsz='', lit (py_str E bin_size),
       lit '' coordsys=CEL'',
       lit '' axisrot=0'',
       lit '' proj=AIT'',
       lit '' ebinalg=LOG'',
       lit '' emin='', call1 (\<lambda>v. lit (py_str E v)) (self_analysisConf self ''emin''),
       lit '' emax='', call1 (\<lambda>v. lit (py_str E v)) (self_analysisConf self ''emax''),
       lit '' enumbins='', lit (py_str E nbins)]"

definition runExpCube :: "env \<Rightarrow> quickAnalysis \<Rightarrow> bool \<Rightarrow> pyval option \<Rightarrow> pyval option \<Rightarrow> unit py" where
  "runExpCube E self run bin_size nbins =
     py_bind (expr (npix_expr E self (arg_or (PFloat 0.1) bin_size))) (\<lambda>npix.
     py_bind (expr (expcube_cmd E self npix (arg_or (PFloat 0.1) bin_size) (arg_or (PInt 30) nbins))) (\<lambda>cmd.
       if run then block [os_system_call E cmd, logger_info (py_str E cmd)]
       else emit (Print (py_str E cmd))))"

definition generateXMLmodel :: "env \<Rightarrow> quickAnalysis \<Rightarrow> unit py" where
  "generateXMLmodel E self =
     try_except
       (py_bind (expr (self_commonConf self ''base'')) (\<lambda>b.
          on_files (generateXMLmodel_quickUtils E b)))
       FileNotFound
       (logger_critical ''One or more needed files do not exist'')
       (\<lambda>_. ret ())"

definition runSrcMaps :: "env \<Rightarrow> quickAnalysis \<Rightarrow> bool \<Rightarrow> unit py" where
  "runSrcMaps E self run =
     py_bind (generateXMLmodel E self) (\<lambda>_.
     try_except
       (py_bind (expr (eval_list [
          py_plus E (self_commonConf self ''base'') (lit ''_CCUBE.fits''),
          py_plus E (self_commonConf self ''base'') (lit ''_ltcube.fits''),
          py_plus E (self_commonConf self ''base'') (lit ''_BinnedExpMap.fits''),
          py_plus E (self_commonConf self ''base'') (lit ''_SC.fits'')])) checkForFiles)
       FileNotFound
       (logger_critical ''One or more needed files do not exist'')
       (\<lambda>_. block [
          setitem srcMaps ''scfile'' (py_plus E (self_commonConf self ''base'') (lit ''_SC.fits'')),
          setitem srcMaps ''expcube'' (py_plus E (self_commonConf self ''base'') (lit ''_ltcube.fits'')),
          setitem srcMaps ''cmap'' (py_plus E (self_commonConf self ''base'') (lit ''_CCUBE.fits'')),
          setitem srcMaps ''srcmdl'' (py_plus E (self_commonConf self ''base'') (lit ''_model.xml'')),
          setitem srcMaps ''bexpmap'' (py_plus E (self_commonConf self ''base'') (lit ''_BinnedExpMap.fits'')),
          setitem srcMaps ''outfile'' (py_plus E (self_commonConf self ''base'') (lit ''_srcMaps.fits'')),
          setitem srcMaps ''irfs'' (self_commonConf self ''irfs''),
          setitem srcMaps ''rfactor'' (Inr (PInt 4)),
          setitem srcMaps ''emapbnds'' (lit ''no''),
          runCommand E srcMaps run]))"

definition runModel :: "env \<Rightarrow> quickAnalysis \<Rightarrow> bool \<Rightarrow> unit py" where
  "runModel E self run =
     py_bind (expr (self_commonConf self ''base'')) (\<lambda>b.
     py_bind (expr (self_commonConf self ''irfs'')) (\<lambda>irfs.
       on_files (runModel_quickUtils E b irfs run)))"

definition runAll :: "env \<Rightarrow> quickAnalysis \<Rightarrow> bool \<Rightarrow> unit py" where
  "runAll E self run =
     py_bind (logger_info ''***Checking for files***'') (\<lambda>_.
     try_except
       (py_bind (expr (eval_list [
          py_plus E (self_commonConf self ''base'') (lit ''.list''),
          py_plus E (self_commonConf self ''base'') (lit ''_SC.fits'')])) checkForFiles)
       FileNotFound
       (logger_critical ''One or more needed files do not exist'')
       (\<lambda>_. block [
          logger_info ''***Running gtselect***'',
          runSelect E self run None,
          logger_info ''***Running gtmktime***'',
          runGTI E self run None None,
          logger_info ''***Running gtltcube***'',
          runLTCube E self run None,
          py_bind (expr (self_commonConf self ''binned'')) (\<lambda>binned.
            if truthy binned then
              block [
                logger_info ''***Running gtbin***'',
                runCCUBE E self run None None,
                logger_info ''***Running gtexpcube2***'',
                runExpCube E self run None None,
                logger_info ''***Running gtsrcMaps***'',
                runSrcMaps E self run]
            else
              block [
                logger_info ''***Running gtexpmap***'',
                runExpMap E self run])]))"

text \<open>
  The constructor. \<^verbatim>\<open>initLogger\<close> only opens the log. With \<^verbatim>\<open>configFile\<close> set, the
  configuration is read and checked; each of the three \<^verbatim>\<open>except\<close> clauses returns from
  the constructor before the two attributes are assigned.
\<close>

definition default_analysisConfig :: dict where
  "default_analysisConfig =
     [''ra'' \<mapsto> PInt 0, ''dec'' \<mapsto> PInt 0, ''rad'' \<mapsto> PInt 10,
      ''tmin'' \<mapsto> PStr ''INDEF'', ''tmax'' \<mapsto> PStr ''INDEF'',
      ''emin'' \<mapsto> PInt 100, ''emax'' \<mapsto> PInt 300000, ''zmax'' \<mapsto> PInt 100]"

definition default_commonConfig :: dict where
  "default_commonConfig =
     [''base'' \<mapsto> PStr ''MySource'', ''binned'' \<mapsto> PBool False,
      ''eventclass'' \<mapsto> PInt 2, ''irfs'' \<mapsto> PStr ''P7SOURCE_V6'',
      ''verbosity'' \<mapsto> PInt 0]"

definition unset :: quickAnalysis where
  "unset = \<lparr>commonConf = None, analysisConf = None\<rparr>"

definition items_str :: "env \<Rightarrow> dict \<Rightarrow> string" where
  "items_str E d = concat (map (\<lambda>(variable, value). variable @ ''='' @ py_str E value @ '','') (iteritems E d))"

definition is_KeyError :: "exn \<Rightarrow> bool" where
  "is_KeyError e = (case e of KeyError k \<Rightarrow> True | _ \<Rightarrow> False)"

definition init_finish :: "env \<Rightarrow> dict \<Rightarrow> dict \<Rightarrow> quickAnalysis py" where
  "init_finish E commonConfig analysisConfig =
     py_bind
       (logger_info (''Created quickAnalysis object: '' @ items_str E commonConfig @ items_str E analysisConfig))
       (\<lambda>_. ret \<lparr>commonConf = Some commonConfig, analysisConf = Some analysisConfig\<rparr>)"

definition quickAnalysis_init :: "env \<Rightarrow> pyval \<Rightarrow> bool \<Rightarrow> dict \<Rightarrow> dict \<Rightarrow> quickAnalysis py" where
  "quickAnalysis_init E base configFile analysisConfig commonConfig w =
     (let commonConfig = commonConfig(''base'' \<mapsto> base) in
      if configFile then
        (case readConfig E base (files w) of
           Inl e \<Rightarrow>
             (if e = FileNotFound
              then py_bind (logger_critical ''One or more needed files do not exist'') (\<lambda>_. ret unset) w
              else (Inl e, w))
         | Inr (commonConfigRead, analysisConfigRead) \<Rightarrow>
             (case checkConfig E commonConfig commonConfigRead of
                Inl e \<Rightarrow> (if is_KeyError e then (Inr unset, w) else (Inl e, w))
              | Inr commonConfig' \<Rightarrow>
                  (case checkConfig E analysisConfig analysisConfigRead of
                     Inl e \<Rightarrow> (if is_KeyError e then (Inr unset, w) else (Inl e, w))
                   | Inr analysisConfig' \<Rightarrow> init_finish E commonConfig' analysisConfig' w)))
      else init_finish E commonConfig analysisConfig w)"

definition writeConfig :: "env \<Rightarrow> quickAnalysis \<Rightarrow> unit py" where
  "writeConfig E self =
     py_bind (expr (attr_commonConf self)) (\<lambda>commonDictionary.
     py_bind (expr (attr_analysisConf self)) (\<lambda>analysisDictionary.
       on_files (writeConfig_quickUtils E commonDictionary analysisDictionary)))"

section \<open>The command line\<close>

text \<open>
  \<^verbatim>\<open>getopt.getopt(args, shortopts)\<close> of the standard library, with no long options (the
  module passes none, so every argument that starts with \<^verbatim>\<open>--\<close> and is longer is
  refused).
\<close>

fun short_has_arg :: "char \<Rightarrow> string \<Rightarrow> exn + bool" where
  "short_has_arg opt [] = Inl (GetoptError (''option -'' @ [opt] @ '' not recognized''))"
| "short_has_arg opt (c # shortopts) =
     (if opt = c \<and> c \<noteq> CHR '':''
      then Inr (case shortopts of [] \<Rightarrow> False | d # _ \<Rightarrow> d = CHR '':'')
      else short_has_arg opt shortopts)"

fun do_shorts ::
  "(string \<times> string) list \<Rightarrow> string \<Rightarrow> string \<Rightarrow> string list \<Rightarrow>
     exn + ((string \<times> string) list \<times> string list)" where
  "do_shorts opts [] shortopts args = Inr (opts, args)"
| "do_shorts opts (opt # optstring) shortopts args =
     (case short_has_arg opt shortopts of
        Inl e \<Rightarrow> Inl e
      | Inr True \<Rightarrow>
          (if optstring = [] then
             (case args of
                [] \<Rightarrow> Inl (GetoptError (''option -'' @ [opt] @ '' requires argument''))
              | a # args' \<Rightarrow> Inr (opts @ [(''-'' @ [opt], a)], args'))
           else Inr (opts @ [(''-'' @ [opt], optstring)], args))
      | Inr False \<Rightarrow> do_shorts (opts @ [(''-'' @ [opt], [])]) optstring shortopts args)"

definition do_longs :: "string \<Rightarrow> exn + ((string \<times> string) list \<times> string list)" where
  "do_longs opt =
     Inl (GetoptError (''option --'' @ takeWhile (\<lambda>c. c \<noteq> CHR ''='') opt @ '' not recognized''))"

lemma do_shorts_length:
  "do_shorts opts optstring shortopts args = Inr (opts', args') \<Longrightarrow> length args' \<le> length args"
  by (induction opts optstring shortopts args rule: do_shorts.induct)
     (auto split: sum.splits bool.splits if_splits list.splits)

function getopt_loop ::
  "(string \<times> string) list \<Rightarrow> string list \<Rightarrow> string \<Rightarrow>
     exn + ((string \<times> string) list \<times> string list)" where
  "getopt_loop opts [] shortopts = Inr (opts, [])"
| "getopt_loop opts (a # args) shortopts =
     (if take 1 a = ''-'' \<and> a \<noteq> ''-'' then
        (if a = ''--'' then Inr (opts, args)
         else if take 2 a = ''--'' then do_longs (drop 2 a)
         else
           (case do_shorts opts (drop 1 a) shortopts args of
              Inl e \<Rightarrow> Inl e
            | Inr (opts', args') \<Rightarrow> getopt_loop opts' args' shortopts))
      else Inr (opts, a # args))"
  by pat_completeness auto
termination
  by (relation "measure (\<lambda>(opts, args, shortopts). length args)")
     (auto dest: do_shorts_length)

definition getopt :: "string list \<Rightarrow> string \<Rightarrow> exn + ((string \<times> string) list \<times> string list)" where
  "getopt args shortopts = getopt_loop [] args shortopts"

text \<open>
  The operator \<^verbatim>\<open>%\<close> on a format string and a tuple of strings, for the one conversion
  the module uses, \<^verbatim>\<open>%s\<close>: too few or too many arguments raise TypeError.
\<close>

fun py_format :: "string \<Rightarrow> string list \<Rightarrow> exn + string" where
  "py_format [] [] = Inr []"
| "py_format [] (a # args) = Inl TypeError"
| "py_format (c # fmt) args =
     (if c = CHR ''%'' then
        (case fmt of
           [] \<Rightarrow> Inl ValueError
         | d # fmt' \<Rightarrow>
             (if d = CHR ''s'' then
                (case args of
                   [] \<Rightarrow> Inl TypeError
                 | a # args' \<Rightarrow>
                     (case py_format fmt' args' of Inl e \<Rightarrow> Inl e | Inr r \<Rightarrow> Inr (a @ r)))
              else Inl ValueError))
      else (case py_format fmt args of Inl e \<Rightarrow> Inl e | Inr r \<Rightarrow> Inr (c # r)))"

definition usage_text :: string where
  "usage_text =
     ''quickAnalysis - Perform event selections and exposure\<newline>'' @
     ''        calculations for Fermi LAT data.  You can use the command line\<newline>'' @
     ''        functions listed below or run this module from within\<newline>'' @
     ''        python. For full documentation on this module execute 'pydoc\<newline>'' @
     ''        quickAnalysis'.\<newline>'' @
     ''\<newline>'' @
     ''python %s <basename> ...  Perform an analysis on <basename>.\<newline>'' @
     ''    <basename> is the prefix used for this analysis.  You must already\<newline>'' @
     ''    have a configuration file if using the command line interface.\<newline>'' @
     ''\<newline>'' @
     ''python %s -c ... Generate a default config file called example.cfg.\<newline>'' @
     ''    Edit this file and rename it <basename>.cfg for use in the\<newline>'' @
     ''    quickAnalysis module.\<newline>'' @
     ''\<newline>'' @
     ''python %s -m <basename> ... Generate a model file from the 2FGL.  You\<newline>'' @
     ''    need to already have <basename>_filtered_gti.fits in your working\<newline>'' @
     ''    directory.  You can get this file by running the functions\<newline>'' @
     ''    runSelect and runGTI on your data.  You also need to have the\<newline>'' @
     ''    galactic and isotropic diffuse models in your working directory as\<newline>'' @
     ''    well as the 2FGL model file.\<newline>'' @
     ''\<newline>'' @
     ''python %s -M <basename> ... Generate a model map based on the model\<newline>'' @
     ''    file in your config file.  You need to have several files already\<newline>'' @
     ''    computed.  It's best to do the runAll script before trying this.\<newline>'' @
     ''\<newline>''"

text \<open>\<^verbatim>\<open>os.path.basename\<close>: what follows the last slash.\<close>

definition basename :: "string \<Rightarrow> string" where
  "basename p = rev (takeWhile (\<lambda>c. c \<noteq> CHR ''/'') (rev p))"

definition argv_item :: "string list \<Rightarrow> nat \<Rightarrow> exn + pyval" where
  "argv_item argv i = (if i < length argv then Inr (PStr (argv ! i)) else Inl IndexError)"

text \<open>The handler of \<^verbatim>\<open>except (getopt.error, BadUsage)\<close>.\<close>

definition cli_usage :: "string list \<Rightarrow> unit py" where
  "cli_usage argv =
     py_bind (expr (argv_item argv 0)) (\<lambda>a0.
     py_bind (expr (case a0 of PStr p \<Rightarrow> Inr (basename p) | _ \<Rightarrow> Inl TypeError)) (\<lambda>cmd.
     py_bind (expr (py_format usage_text [cmd, cmd, cmd])) (\<lambda>text.
       emit (Print text))))"

text \<open>
  The loop over the parsed options. Each of the three branches returns from \<^verbatim>\<open>cli\<close> or
  raises; the result is whether \<^verbatim>\<open>cli\<close> has returned.
\<close>

fun cli_opts :: "env \<Rightarrow> string list \<Rightarrow> (string \<times> string) list \<Rightarrow> string list \<Rightarrow> bool py" where
  "cli_opts E argv [] args = ret False"
| "cli_opts E argv ((opt, val) # opts) args =
     (if opt = ''-c'' then
        py_bind (emit (Print ''Creating example configuration file called example.cfg'')) (\<lambda>_.
        py_bind (quickAnalysis_init E (PStr ''example'') False default_analysisConfig default_commonConfig) (\<lambda>qA.
        py_bind (writeConfig E qA) (\<lambda>_. ret True)))
      else if opt = ''-M'' then
        py_bind (emit (Print ''Creating model map'')) (\<lambda>_.
          if args = [] then raise BadUsage
          else
            py_bind (expr (argv_item argv 2)) (\<lambda>base.
            py_bind (quickAnalysis_init E base False default_analysisConfig default_commonConfig) (\<lambda>qA.
            py_bind (runModel E qA True) (\<lambda>_. ret True))))
      else if opt = ''-m'' then
        py_bind (emit (Print ''Creating model file from 2FGL called example_model.xml'')) (\<lambda>_.
          if args = [] then raise BadUsage
          else
            py_bind (expr (argv_item argv 2)) (\<lambda>base.
            py_bind (quickAnalysis_init E base False default_analysisConfig default_commonConfig) (\<lambda>qA.
            py_bind (generateXMLmodel E qA) (\<lambda>_. ret True))))
      else cli_opts E argv opts args)"

fun cli_args :: "env \<Rightarrow> string list \<Rightarrow> unit py" where
  "cli_args E [] = ret ()"
| "cli_args E (arg # args) =
     py_bind (quickAnalysis_init E (PStr arg) True default_analysisConfig default_commonConfig) (\<lambda>qA.
     py_bind (runAll E qA True) (\<lambda>_. cli_args E args))"

definition cli_body :: "env \<Rightarrow> string list \<Rightarrow> unit py" where
  "cli_body E argv =
     py_bind (expr (getopt (drop 1 argv) ''cm'')) (\<lambda>(opts, args).
     py_bind (cli_opts E argv opts args) (\<lambda>returned.
       if returned then ret ()
       else if args = [] then raise BadUsage
       else cli_args E args))"

definition handled :: "exn \<Rightarrow> bool" where
  "handled e = (case e of GetoptError m \<Rightarrow> True | BadUsage \<Rightarrow> True | _ \<Rightarrow> False)"

definition cli :: "env \<Rightarrow> string list \<Rightarrow> unit py" where
  "cli E argv w =
     (case cli_body E argv w of
        (Inl e, w') \<Rightarrow> (if handled e then cli_usage argv w' else (Inl e, w'))
      | (Inr u, w') \<Rightarrow> (Inr u, w'))"

section \<open>Observing a run\<close>

text \<open>What \<^verbatim>\<open>runCommand\<close> leaves in the trace for an application and its parameters.\<close>

definition command_event :: "gtapp \<Rightarrow> bool \<Rightarrow> dict \<Rightarrow> event" where
  "command_event app run d = (if run then Run app d else PrintCommand app d)"

text \<open>
  The external tool behind an event: the tool of the application object that was run, or
  the first word of the shell command.
\<close>

fun tool_name :: "gtapp \<Rightarrow> string" where
  "tool_name filter_app = ''gtselect''"
| "tool_name maketime = ''gtmktime''"
| "tool_name expCube = ''gtltcube''"
| "tool_name expMap = ''gtexpmap''"
| "tool_name evtbin = ''gtbin''"
| "tool_name srcMaps = ''gtsrcmaps''"

fun tool_of :: "event \<Rightarrow> string option" where
  "tool_of (Run app d) = Some (tool_name app)"
| "tool_of (System c) = Some (takeWhile (\<lambda>x. x \<noteq> CHR '' '') c)"
| "tool_of ev = None"

definition tools_invoked :: "event list \<Rightarrow> string list" where
  "tools_invoked evs = List.map_filter tool_of evs"

text \<open>
  A statement touches only the entries \<open>K\<close> of the dictionary of \<open>A\<close>: however it ends,
  every other entry of every dictionary is as before.
\<close>

definition touches_only :: "gtapp \<Rightarrow> string set \<Rightarrow> 'a py \<Rightarrow> bool" where
  "touches_only A K m \<longleftrightarrow>
     (\<forall>w r w'. m w = (r, w') \<longrightarrow>
        (\<forall>a k. a \<noteq> A \<or> k \<notin> K \<longrightarrow> pars w' a k = pars w a k))"

text \<open>The keys that \<^verbatim>\<open>runCMAP\<close> assigns.\<close>

definition runCMAP_keys :: "string set" where
  "runCMAP_keys =
     {''evfile'', ''outfile'', ''algorithm'', ''nxpix'', ''nypix'', ''binsz'', ''coordsys'',
      ''xref'', ''yref'', ''axisrot'', ''proj''}"

text \<open>The options the command line can obtain from getopt.\<close>

definition known_opt :: "string \<times> string \<Rightarrow> bool" where
  "known_opt ov \<longleftrightarrow> fst ov = ''-c'' \<or> fst ov = ''-m''"

text \<open>A statement never emits an event: if the event is in the trace afterwards, it was there before.\<close>

definition never_emits :: "event \<Rightarrow> 'a py \<Rightarrow> bool" where
  "never_emits ev m \<longleftrightarrow>
     (\<forall>w r w'. m w = (r, w') \<longrightarrow> ev \<in> set (trace w') \<longrightarrow> ev \<in> set (trace w))"

section \<open>A reference environment\<close>

text \<open>
  An environment in which every helper and every tool succeeds and leaves the working
  directory as it is, and a world with given files, empty parameter dictionaries and an
  empty trace. They serve as concrete inputs.
\<close>

definition idle_env :: env where
  "idle_env = \<lparr>
     NumberOfPixels = (\<lambda>radius bin_size. Inr (PInt 141)),
     readConfig = (\<lambda>base fs. Inr (Map.empty, Map.empty)),
     checkConfig = (\<lambda>reference read. Inr (reference ++ read)),
     writeConfig_quickUtils = (\<lambda>c a fs. (None, fs)),
     generateXMLmodel_quickUtils = (\<lambda>base fs. (None, fs)),
     runModel_quickUtils = (\<lambda>base irfs run fs. (None, fs)),
     run_tool = (\<lambda>app d fs. (None, fs)),
     os_system = (\<lambda>cmd fs. fs),
     float_of_str = (\<lambda>s. None),
     float_of_int = (\<lambda>i. Inr (real_of_int i)),
     float_add = (\<lambda>a b. a + b),
     str_of_float = (\<lambda>r. ''0.1''),
     iteritems = (\<lambda>d. [])\<rparr>"

definition world0 :: "string set \<Rightarrow> world" where
  "world0 fs = \<lparr>files = fs, pars = (\<lambda>app. Map.empty), trace = []\<rparr>"

definition qA_src :: "bool \<Rightarrow> quickAnalysis" where
  "qA_src binned = \<lparr>
     commonConf = Some (default_commonConfig(''base'' \<mapsto> PStr ''src'', ''binned'' \<mapsto> PBool binned)),
     analysisConf = Some default_analysisConfig\<rparr>"

text \<open>
  A statement is steady when, from every world, it returns normally and leaves the files
  of the working directory as they were; the methods are, in the reference environment.
\<close>

definition steady :: "unit py \<Rightarrow> bool" where
  "steady m \<longleftrightarrow> (\<forall>w. fst (m w) = Inr () \<and> files (snd (m w)) = files w)"

text \<open>
  Three variants: the configuration file cannot be read; the common dictionary fails the
  check; the analysis dictionary (the one with a radius) fails it.
\<close>

definition no_config_env :: env where
  "no_config_env = idle_env\<lparr>readConfig := (\<lambda>base fs. Inl FileNotFound)\<rparr>"

definition bad_common_env :: env where
  "bad_common_env = idle_env\<lparr>checkConfig := (\<lambda>reference read. Inl (KeyError ''irfs''))\<rparr>"

definition bad_analysis_env :: env where
  "bad_analysis_env = idle_env\<lparr>checkConfig := (\<lambda>reference read.
     case reference ''rad'' of None \<Rightarrow> Inr reference | Some v \<Rightarrow> Inl (KeyError ''rad''))\<rparr>"

section \<open>Properties\<close>

subsection \<open>Inversion of successful statements\<close>

lemma py_bind_Inr:
  "py_bind m f w = (Inr u, w'') \<longleftrightarrow> (\<exists>v w'. m w = (Inr v, w') \<and> f v w' = (Inr u, w''))"
  by (auto simp: py_bind_def split: prod.splits sum.splits)

lemma expr_Inr: "expr r w = (Inr v, w') \<longleftrightarrow> r = Inr v \<and> w' = w"
  by (auto simp: expr_def)

lemma ret_Inr: "ret v w = (Inr u, w') \<longleftrightarrow> u = v \<and> w' = w"
  by (auto simp: ret_def)

lemma emit_Inr: "emit ev w = (r, w') \<longleftrightarrow> r = Inr () \<and> w' = w\<lparr>trace := trace w @ [ev]\<rparr>"
  by (auto simp: emit_def)

lemma pars_update_eq: "w\<lparr>pars := f (pars w)\<rparr> = pars_update f w"
  by (cases w) simp

lemma trace_update_eq: "w\<lparr>trace := f (trace w)\<rparr> = trace_update f w"
  by (cases w) simp

lemma setitem_Inr:
  "setitem app k e w = (Inr u, w') \<longleftrightarrow>
     (\<exists>v. e = Inr v \<and> w' = w\<lparr>pars := update_par app k v (pars w)\<rparr>)"
  by (auto simp: setitem_def split: sum.splits)

lemma block_setitem:
  "block (setitem app k e # ss) w = (Inr u, w') \<longleftrightarrow>
     (\<exists>v. e = Inr v \<and> block ss (pars_update (update_par app k v) w) = (Inr u, w'))"
  by (auto simp: py_bind_Inr setitem_Inr pars_update_eq)

lemma block_emit:
  "block (emit ev # ss) w = block ss (trace_update (\<lambda>t. t @ [ev]) w)"
  by (cases w) (simp add: py_bind_def emit_def)

lemma block_single: "block [s] w = s w"
  by (cases "s w") (auto simp: py_bind_def ret_def split: sum.splits)

lemma update_par_same: "update_par app k v P app = (P app)(k \<mapsto> v)"
  by (simp add: update_par_def)

lemma update_par_other: "a \<noteq> app \<Longrightarrow> update_par app k v P a = P a"
  by (simp add: update_par_def)

lemma runCommand_Inr:
  "runCommand E app run w = (Inr u, w') \<longleftrightarrow>
     (if run
      then fst (run_tool E app (pars w app) (files w)) = None \<and>
           w' = w\<lparr>files := snd (run_tool E app (pars w app) (files w)),
                  trace := trace w @ [Run app (pars w app)]\<rparr>
      else w' = w\<lparr>trace := trace w @ [PrintCommand app (pars w app)]\<rparr>)"
  by (auto simp: runCommand_def split: prod.splits option.splits)

lemma py_plus_Inr:
  "py_plus E a b = Inr v \<longleftrightarrow> (\<exists>x y. a = Inr x \<and> b = Inr y \<and> py_add E x y = Inr v)"
  by (auto simp: py_plus_def split: sum.splits)

lemma py_add_PStr_right:
  "py_add E x (PStr s) = Inr v \<longleftrightarrow> (\<exists>t. x = PStr t \<and> v = PStr (t @ s))"
  by (cases x) auto

lemma py_add_PStr_left:
  "py_add E (PStr s) y = Inr v \<longleftrightarrow> (\<exists>t. y = PStr t \<and> v = PStr (s @ t))"
  by (cases y) auto

lemma lit_Inr: "lit s = Inr v \<longleftrightarrow> v = PStr s"
  by (auto simp: lit_def)

lemma self_commonConf_Inr:
  "self_commonConf self k = Inr v \<longleftrightarrow> (\<exists>d. commonConf self = Some d \<and> d k = Some v)"
  by (auto simp: self_commonConf_def attr_commonConf_def getitem_def split: option.splits sum.splits)

lemma self_analysisConf_Inr:
  "self_analysisConf self k = Inr v \<longleftrightarrow> (\<exists>d. analysisConf self = Some d \<and> d k = Some v)"
  by (auto simp: self_analysisConf_def attr_analysisConf_def getitem_def split: option.splits sum.splits)

lemma call1_Inr: "call1 f a = Inr v \<longleftrightarrow> (\<exists>x. a = Inr x \<and> f x = Inr v)"
  by (auto simp: call1_def split: sum.splits)

lemma py_float_PFloat: "py_float E x = Inr v \<Longrightarrow> \<exists>r. v = PFloat r"
  by (cases x) (auto split: option.splits sum.splits)

lemma srcrad_Inr:
  "py_plus E (call1 (py_float E) e) (Inr (PFloat 10)) = Inr v \<longleftrightarrow>
     (\<exists>x r. e = Inr x \<and> py_float E x = Inr (PFloat r) \<and> v = PFloat (float_add E r 10))"
proof (cases e)
  case (Inl x)
  then show ?thesis by (simp add: py_plus_def call1_def)
next
  case (Inr x)
  show ?thesis
  proof (cases "py_float E x")
    case (Inl err)
    with Inr show ?thesis by (simp add: py_plus_def call1_def)
  next
    case (Inr y)
    then obtain r where "y = PFloat r" using py_float_PFloat by blast
    with Inr \<open>e = Inr x\<close> show ?thesis by (auto simp: py_plus_def call1_def)
  qed
qed

lemmas inv_simps = srcrad_Inr
  py_plus_Inr py_add_PStr_right py_add_PStr_left lit_Inr self_commonConf_Inr
  self_analysisConf_Inr call1_Inr expr_Inr

lemma runSelect_ok:
  assumes "runSelect E self run convtype w = (Inr (), w')"
  shows "\<exists>ac cc b rad evclass ra dec' tmin tmax emin emax zmax.
           analysisConf self = Some ac \<and> commonConf self = Some cc \<and>
           cc ''base'' = Some (PStr b) \<and> cc ''eventclass'' = Some evclass \<and>
           ac ''rad'' = Some rad \<and> ac ''ra'' = Some ra \<and> ac ''dec'' = Some dec' \<and>
           ac ''tmin'' = Some tmin \<and> ac ''tmax'' = Some tmax \<and>
           ac ''emin'' = Some emin \<and> ac ''emax'' = Some emax \<and> ac ''zmax'' = Some zmax \<and>
           pars w' filter_app = (pars w filter_app)(
              ''rad'' \<mapsto> rad, ''evclass'' \<mapsto> evclass,
              ''infile'' \<mapsto> PStr (''@'' @ b @ ''.list''),
              ''outfile'' \<mapsto> PStr (b @ ''_filtered.fits''),
              ''ra'' \<mapsto> ra, ''dec'' \<mapsto> dec', ''tmin'' \<mapsto> tmin, ''tmax'' \<mapsto> tmax,
              ''emin'' \<mapsto> emin, ''emax'' \<mapsto> emax, ''zmax'' \<mapsto> zmax,
              ''convtype'' \<mapsto> arg_or (PInt (- 1)) convtype) \<and>
           (\<forall>a. a \<noteq> filter_app \<longrightarrow> pars w' a = pars w a) \<and>
           trace w' = trace w @ [command_event filter_app run (pars w' filter_app)]"
  using assms
  unfolding runSelect_def
  apply (simp only: block_setitem block_single)
  apply (cases run; clarsimp simp: inv_simps runCommand_Inr update_par_same update_par_other command_event_def)
  done


lemma runGTI_ok:
  assumes "runGTI E self run filterString roi w = (Inr (), w')"
  shows "\<exists>cc b. commonConf self = Some cc \<and> cc ''base'' = Some (PStr b) \<and>
           pars w' maketime = (pars w maketime)(
              ''scfile'' \<mapsto> PStr (b @ ''_SC.fits''),
              ''filter'' \<mapsto> arg_or (PStr ''DATA_QUAL==1 && LAT_CONFIG==1 && ABS(ROCK_ANGLE)<52'') filterString,
              ''roicut'' \<mapsto> arg_or (PStr ''yes'') roi,
              ''evfile'' \<mapsto> PStr (b @ ''_filtered.fits''),
              ''outfile'' \<mapsto> PStr (b @ ''_filtered_gti.fits'')) \<and>
           (\<forall>a. a \<noteq> maketime \<longrightarrow> pars w' a = pars w a) \<and>
           trace w' = trace w @ [command_event maketime run (pars w' maketime)]"
  using assms
  unfolding runGTI_def
  apply (simp only: block_setitem block_single)
  apply (cases run; clarsimp simp: inv_simps runCommand_Inr update_par_same update_par_other command_event_def)
  done

lemma runLTCube_ok:
  assumes "runLTCube E self run zmax w = (Inr (), w')"
  shows "\<exists>cc b. commonConf self = Some cc \<and> cc ''base'' = Some (PStr b) \<and>
           pars w' expCube = (pars w expCube)(
              ''evfile'' \<mapsto> PStr (b @ ''_filtered_gti.fits''),
              ''scfile'' \<mapsto> PStr (b @ ''_SC.fits''),
              ''outfile'' \<mapsto> PStr (b @ ''_ltcube.fits''),
              ''dcostheta'' \<mapsto> PFloat 0.025,
              ''binsz'' \<mapsto> PInt 1,
              ''zmax'' \<mapsto> arg_or (PInt 180) zmax) \<and>
           (\<forall>a. a \<noteq> expCube \<longrightarrow> pars w' a = pars w a) \<and>
           trace w' = trace w @ [command_event expCube run (pars w' expCube)]"
  using assms
  unfolding runLTCube_def
  apply (simp only: block_setitem block_single)
  apply (cases run; clarsimp simp: inv_simps runCommand_Inr update_par_same update_par_other command_event_def)
  done

lemma runExpMap_ok:
  assumes "runExpMap E self run w = (Inr (), w')"
  shows "\<exists>cc ac b irfs rad r.
           commonConf self = Some cc \<and> analysisConf self = Some ac \<and>
           cc ''base'' = Some (PStr b) \<and> cc ''irfs'' = Some irfs \<and> ac ''rad'' = Some rad \<and>
           py_float E rad = Inr (PFloat r) \<and>
           pars w' expMap = (pars w expMap)(
              ''evfile'' \<mapsto> PStr (b @ ''_filtered_gti.fits''),
              ''scfile'' \<mapsto> PStr (b @ ''_SC.fits''),
              ''expcube'' \<mapsto> PStr (b @ ''_ltcube.fits''),
              ''outfile'' \<mapsto> PStr (b @ ''_expMap.fits''),
              ''irfs'' \<mapsto> irfs,
              ''srcrad'' \<mapsto> PFloat (float_add E r 10),
              ''nlong'' \<mapsto> PInt 120, ''nlat'' \<mapsto> PInt 120, ''nenergies'' \<mapsto> PInt 20) \<and>
           (\<forall>a. a \<noteq> expMap \<longrightarrow> pars w' a = pars w a) \<and>
           trace w' = trace w @ [command_event expMap run (pars w' expMap)]"
  using assms
  unfolding runExpMap_def
  apply (simp only: block_setitem block_single srcrad_Inr)
  apply (cases run; clarsimp simp: inv_simps runCommand_Inr update_par_same update_par_other command_event_def)
  done

lemma runCCUBE_ok:
  assumes "runCCUBE E self run bin_size nbins w = (Inr (), w')"
  shows "\<exists>cc ac b npix ra dec' emin emax.
           commonConf self = Some cc \<and> analysisConf self = Some ac \<and>
           cc ''base'' = Some (PStr b) \<and>
           npix_expr E self (arg_or (PFloat 0.1) bin_size) = Inr npix \<and>
           ac ''ra'' = Some ra \<and> ac ''dec'' = Some dec' \<and>
           ac ''emin'' = Some emin \<and> ac ''emax'' = Some emax \<and>
           pars w' evtbin = (pars w evtbin)(
              ''evfile'' \<mapsto> PStr (b @ ''_filtered_gti.fits''),
              ''outfile'' \<mapsto> PStr (b @ ''_CCUBE.fits''),
              ''algorithm'' \<mapsto> PStr ''CCUBE'',
              ''nxpix'' \<mapsto> npix, ''nypix'' \<mapsto> npix,
              ''binsz'' \<mapsto> arg_or (PFloat 0.1) bin_size,
              ''coordsys'' \<mapsto> PStr ''CEL'',
              ''xref'' \<mapsto> ra, ''yref'' \<mapsto> dec',
              ''axisrot'' \<mapsto> PInt 0, ''proj'' \<mapsto> PStr ''AIT'',
              ''ebinalg'' \<mapsto> PStr ''LOG'',
              ''emin'' \<mapsto> emin, ''emax'' \<mapsto> emax,
              ''enumbins'' \<mapsto> arg_or (PInt 30) nbins) \<and>
           (\<forall>a. a \<noteq> evtbin \<longrightarrow> pars w' a = pars w a) \<and>
           trace w' = trace w @ [command_event evtbin run (pars w' evtbin)]"
  using assms
  unfolding runCCUBE_def py_bind_Inr expr_Inr
  apply (simp only: block_setitem block_single)
  apply (cases run; clarsimp simp: inv_simps runCommand_Inr update_par_same update_par_other command_event_def)
  done

lemma runCMAP_ok:
  assumes "runCMAP E self run bin_size w = (Inr (), w')"
  shows "\<exists>cc ac b npix ra dec'.
           commonConf self = Some cc \<and> analysisConf self = Some ac \<and>
           cc ''base'' = Some (PStr b) \<and>
           npix_expr E self (arg_or (PFloat 0.1) bin_size) = Inr npix \<and>
           ac ''ra'' = Some ra \<and> ac ''dec'' = Some dec' \<and>
           pars w' evtbin = (pars w evtbin)(
              ''evfile'' \<mapsto> PStr (b @ ''_filtered_gti.fits''),
              ''outfile'' \<mapsto> PStr (b @ ''_CMAP.fits''),
              ''algorithm'' \<mapsto> PStr ''CMAP'',
              ''nxpix'' \<mapsto> npix, ''nypix'' \<mapsto> npix,
              ''binsz'' \<mapsto> arg_or (PFloat 0.1) bin_size,
              ''coordsys'' \<mapsto> PStr ''CEL'',
              ''xref'' \<mapsto> ra, ''yref'' \<mapsto> dec',
              ''axisrot'' \<mapsto> PInt 0, ''proj'' \<mapsto> PStr ''AIT'') \<and>
           (\<forall>a. a \<noteq> evtbin \<longrightarrow> pars w' a = pars w a) \<and>
           trace w' = trace w @ [command_event evtbin run (pars w' evtbin)]"
  using assms
  unfolding runCMAP_def py_bind_Inr expr_Inr
  apply (simp only: block_setitem block_single)
  apply (cases run; clarsimp simp: inv_simps runCommand_Inr update_par_same update_par_other command_event_def)
  done


lemma expcube_cmd_Inr:
  assumes "expcube_cmd E self npix bin_size nbins = Inr cmd"
  shows "\<exists>cc ac b irfs ra dec' emin emax.
           commonConf self = Some cc \<and> analysisConf self = Some ac \<and>
           cc ''base'' = Some (PStr b) \<and> cc ''irfs'' = Some (PStr irfs) \<and>
           ac ''ra'' = Some ra \<and> ac ''dec'' = Some dec' \<and>
           ac ''emin'' = Some emin \<and> ac ''emax'' = Some emax \<and>
           cmd = PStr (''gtexpcube2 infile='' @ b @ ''_ltcube.fits'' @ '' cmap=none'' @
                       '' outfile='' @ b @ ''_BinnedExpMap.fits'' @
                       '' irfs='' @ irfs @
                       '' xref='' @ py_str E ra @ '' yref='' @ py_str E dec' @
                       '' nxpix='' @ py_str E npix @ '' nypix='' @ py_str E npix @
                       '' binsz='' @ py_str E bin_size @
                       '' coordsys=CEL'' @ '' axisrot=0'' @ '' proj=AIT'' @ '' ebinalg=LOG'' @
                       '' emin='' @ py_str E emin @ '' emax='' @ py_str E emax @
                       '' enumbins='' @ py_str E nbins)"
  using assms unfolding expcube_cmd_def
  by (clarsimp simp: inv_simps)

lemma os_system_call_Inr:
  "os_system_call E cmd w = (Inr u, w') \<longleftrightarrow>
     (\<exists>c. cmd = PStr c \<and>
          w' = w\<lparr>files := os_system E c (files w), trace := trace w @ [System c]\<rparr>)"
  by (cases cmd) (auto simp: os_system_call_def)

lemma runExpCube_ok:
  assumes "runExpCube E self run bin_size nbins w = (Inr (), w')"
  shows "\<exists>npix c.
           npix_expr E self (arg_or (PFloat 0.1) bin_size) = Inr npix \<and>
           expcube_cmd E self npix (arg_or (PFloat 0.1) bin_size) (arg_or (PInt 30) nbins) = Inr (PStr c) \<and>
           pars w' = pars w \<and>
           trace w' = trace w @ (if run then [System c, Log Info c] else [Print c])"
proof -
  from assms obtain npix cmd where
    n: "npix_expr E self (arg_or (PFloat 0.1) bin_size) = Inr npix" and
    c: "expcube_cmd E self npix (arg_or (PFloat 0.1) bin_size) (arg_or (PInt 30) nbins) = Inr cmd" and
    r: "(if run then block [os_system_call E cmd, logger_info (py_str E cmd)]
         else emit (Print (py_str E cmd))) w = (Inr (), w')"
    by (auto simp: runExpCube_def py_bind_Inr expr_Inr)
  from expcube_cmd_Inr [OF c] obtain s where s: "cmd = PStr s"
    by blast
  from r s have "pars w' = pars w \<and>
      trace w' = trace w @ (if run then [System s, Log Info s] else [Print s])"
    by (cases run)
       (auto simp: py_bind_Inr os_system_call_Inr logger_info_def emit_Inr ret_def)
  with n c s show ?thesis
    by blast
qed


subsection \<open>Generating the model and the source maps\<close>

lemma try_except_Inr:
  "try_except body x handler rest w = (Inr u, w') \<longleftrightarrow>
     (\<exists>w1. (body w = (Inl x, w1) \<and> handler w1 = (Inr u, w')) \<or>
           (\<exists>v. body w = (Inr v, w1) \<and> rest v w1 = (Inr u, w')))"
  by (auto simp: try_except_def split: prod.splits sum.splits)

lemma generateXMLmodel_frame:
  assumes "generateXMLmodel E self w = (r, w')"
  shows "pars w' = pars w \<and>
         (trace w' = trace w \<or>
          trace w' = trace w @ [Log Critical ''One or more needed files do not exist''])"
  using assms
  by (auto simp: generateXMLmodel_def try_except_def py_bind_def expr_def on_files_def
      logger_critical_def emit_def ret_def split: prod.splits sum.splits option.splits if_splits)

text \<open>The four files \<^verbatim>\<open>runSrcMaps\<close> requires, for the base name \<open>b\<close>.\<close>

lemma srcMaps_check:
  assumes "commonConf self = Some cc" and "cc ''base'' = Some (PStr b)"
  shows "py_bind (expr (eval_list [
          py_plus E (self_commonConf self ''base'') (lit ''_CCUBE.fits''),
          py_plus E (self_commonConf self ''base'') (lit ''_ltcube.fits''),
          py_plus E (self_commonConf self ''base'') (lit ''_BinnedExpMap.fits''),
          py_plus E (self_commonConf self ''base'') (lit ''_SC.fits'')])) checkForFiles w =
        (if {b @ ''_CCUBE.fits'', b @ ''_ltcube.fits'', b @ ''_BinnedExpMap.fits'', b @ ''_SC.fits''}
              \<subseteq> files w
         then (Inr (), w) else (Inl FileNotFound, w))"
  using assms
  by (simp add: py_bind_def expr_def self_commonConf_def attr_commonConf_def getitem_def
      py_plus_def lit_def checkForFiles_def)

lemma runAll_check:
  assumes "commonConf self = Some cc" and "cc ''base'' = Some (PStr b)"
  shows "py_bind (expr (eval_list [
          py_plus E (self_commonConf self ''base'') (lit ''.list''),
          py_plus E (self_commonConf self ''base'') (lit ''_SC.fits'')])) checkForFiles w =
        (if {b @ ''.list'', b @ ''_SC.fits''} \<subseteq> files w
         then (Inr (), w) else (Inl FileNotFound, w))"
  using assms
  by (simp add: py_bind_def expr_def self_commonConf_def attr_commonConf_def getitem_def
      py_plus_def lit_def checkForFiles_def)

lemma srcMaps_block_ok:
  assumes "block [
          setitem srcMaps ''scfile'' (py_plus E (self_commonConf self ''base'') (lit ''_SC.fits'')),
          setitem srcMaps ''expcube'' (py_plus E (self_commonConf self ''base'') (lit ''_ltcube.fits'')),
          setitem srcMaps ''cmap'' (py_plus E (self_commonConf self ''base'') (lit ''_CCUBE.fits'')),
          setitem srcMaps ''srcmdl'' (py_plus E (self_commonConf self ''base'') (lit ''_model.xml'')),
          setitem srcMaps ''bexpmap'' (py_plus E (self_commonConf self ''base'') (lit ''_BinnedExpMap.fits'')),
          setitem srcMaps ''outfile'' (py_plus E (self_commonConf self ''base'') (lit ''_srcMaps.fits'')),
          setitem srcMaps ''irfs'' (self_commonConf self ''irfs''),
          setitem srcMaps ''rfactor'' (Inr (PInt 4)),
          setitem srcMaps ''emapbnds'' (lit ''no''),
          runCommand E srcMaps run] w = (Inr (), w')"
  shows "\<exists>cc b irfs. commonConf self = Some cc \<and> cc ''base'' = Some (PStr b) \<and>
           cc ''irfs'' = Some irfs \<and>
           pars w' srcMaps = (pars w srcMaps)(
              ''scfile'' \<mapsto> PStr (b @ ''_SC.fits''),
              ''expcube'' \<mapsto> PStr (b @ ''_ltcube.fits''),
              ''cmap'' \<mapsto> PStr (b @ ''_CCUBE.fits''),
              ''srcmdl'' \<mapsto> PStr (b @ ''_model.xml''),
              ''bexpmap'' \<mapsto> PStr (b @ ''_BinnedExpMap.fits''),
              ''outfile'' \<mapsto> PStr (b @ ''_srcMaps.fits''),
              ''irfs'' \<mapsto> irfs,
              ''rfactor'' \<mapsto> PInt 4,
              ''emapbnds'' \<mapsto> PStr ''no'') \<and>
           (\<forall>a. a \<noteq> srcMaps \<longrightarrow> pars w' a = pars w a) \<and>
           trace w' = trace w @ [command_event srcMaps run (pars w' srcMaps)]"
  using assms
  apply (simp only: block_setitem block_single)
  apply (cases run; clarsimp simp: inv_simps runCommand_Inr update_par_same update_par_other command_event_def)
  done

text \<open>
  A successful \<^verbatim>\<open>runSrcMaps\<close>: after the model step, either a required file is missing
  and only the critical line is logged, or the nine parameters are assigned and the
  application is run.
\<close>

lemma runSrcMaps_ok:
  assumes "runSrcMaps E self run w = (Inr (), w')"
  shows "\<exists>wx cc b. generateXMLmodel E self w = (Inr (), wx) \<and>
           commonConf self = Some cc \<and> cc ''base'' = Some (PStr b) \<and>
           (if {b @ ''_CCUBE.fits'', b @ ''_ltcube.fits'', b @ ''_BinnedExpMap.fits'', b @ ''_SC.fits''}
                 \<subseteq> files wx
            then (\<exists>irfs. cc ''irfs'' = Some irfs \<and>
                   pars w' srcMaps = (pars w srcMaps)(
                     ''scfile'' \<mapsto> PStr (b @ ''_SC.fits''),
                     ''expcube'' \<mapsto> PStr (b @ ''_ltcube.fits''),
                     ''cmap'' \<mapsto> PStr (b @ ''_CCUBE.fits''),
                     ''srcmdl'' \<mapsto> PStr (b @ ''_model.xml''),
                     ''bexpmap'' \<mapsto> PStr (b @ ''_BinnedExpMap.fits''),
                     ''outfile'' \<mapsto> PStr (b @ ''_srcMaps.fits''),
                     ''irfs'' \<mapsto> irfs,
                     ''rfactor'' \<mapsto> PInt 4,
                     ''emapbnds'' \<mapsto> PStr ''no'') \<and>
                   (\<forall>a. a \<noteq> srcMaps \<longrightarrow> pars w' a = pars w a) \<and>
                   trace w' = trace wx @ [command_event srcMaps run (pars w' srcMaps)])
            else w' = wx\<lparr>trace := trace wx @ [Log Critical ''One or more needed files do not exist'']\<rparr>)"
proof -
  from assms obtain wx where
    g: "generateXMLmodel E self w = (Inr (), wx)" and
    t: "try_except
       (py_bind (expr (eval_list [
          py_plus E (self_commonConf self ''base'') (lit ''_CCUBE.fits''),
          py_plus E (self_commonConf self ''base'') (lit ''_ltcube.fits''),
          py_plus E (self_commonConf self ''base'') (lit ''_BinnedExpMap.fits''),
          py_plus E (self_commonConf self ''base'') (lit ''_SC.fits'')])) checkForFiles)
       FileNotFound
       (logger_critical ''One or more needed files do not exist'')
       (\<lambda>_. block [
          setitem srcMaps ''scfile'' (py_plus E (self_commonConf self ''base'') (lit ''_SC.fits'')),
          setitem srcMaps ''expcube'' (py_plus E (self_commonConf self ''base'') (lit ''_ltcube.fits'')),
          setitem srcMaps ''cmap'' (py_plus E (self_commonConf self ''base'') (lit ''_CCUBE.fits'')),
          setitem srcMaps ''srcmdl'' (py_plus E (self_commonConf self ''base'') (lit ''_model.xml'')),
          setitem srcMaps ''bexpmap'' (py_plus E (self_commonConf self ''base'') (lit ''_BinnedExpMap.fits'')),
          setitem srcMaps ''outfile'' (py_plus E (self_commonConf self ''base'') (lit ''_srcMaps.fits'')),
          setitem srcMaps ''irfs'' (self_commonConf self ''irfs''),
          setitem srcMaps ''rfactor'' (Inr (PInt 4)),
          setitem srcMaps ''emapbnds'' (lit ''no''),
          runCommand E srcMaps run]) wx = (Inr (), w')"
    unfolding runSrcMaps_def py_bind_Inr by auto
  from g have px: "pars wx = pars w"
    using generateXMLmodel_frame by blast
  have "\<exists>cc b. commonConf self = Some cc \<and> cc ''base'' = Some (PStr b)"
  proof (cases "self_commonConf self ''base''")
    case (Inl e)
    with t show ?thesis
      by (simp add: try_except_def py_bind_def expr_def py_plus_def split: if_splits)
         (auto simp: self_commonConf_def attr_commonConf_def getitem_def split: option.splits)
  next
    case (Inr v)
    then obtain cc where cc: "commonConf self = Some cc" "cc ''base'' = Some v"
      by (auto simp: self_commonConf_Inr)
    show ?thesis
    proof (cases v)
      case (PStr b)
      with cc show ?thesis by blast
    qed (use t Inr in \<open>simp_all add: try_except_def py_bind_def expr_def py_plus_def lit_def\<close>)
  qed
  then obtain cc b where cc: "commonConf self = Some cc" "cc ''base'' = Some (PStr b)"
    by blast
  show ?thesis
  proof (cases "{b @ ''_CCUBE.fits'', b @ ''_ltcube.fits'', b @ ''_BinnedExpMap.fits'', b @ ''_SC.fits''}
                 \<subseteq> files wx")
    case True
    with t cc have "block [
          setitem srcMaps ''scfile'' (py_plus E (self_commonConf self ''base'') (lit ''_SC.fits'')),
          setitem srcMaps ''expcube'' (py_plus E (self_commonConf self ''base'') (lit ''_ltcube.fits'')),
          setitem srcMaps ''cmap'' (py_plus E (self_commonConf self ''base'') (lit ''_CCUBE.fits'')),
          setitem srcMaps ''srcmdl'' (py_plus E (self_commonConf self ''base'') (lit ''_model.xml'')),
          setitem srcMaps ''bexpmap'' (py_plus E (self_commonConf self ''base'') (lit ''_BinnedExpMap.fits'')),
          setitem srcMaps ''outfile'' (py_plus E (self_commonConf self ''base'') (lit ''_srcMaps.fits'')),
          setitem srcMaps ''irfs'' (self_commonConf self ''irfs''),
          setitem srcMaps ''rfactor'' (Inr (PInt 4)),
          setitem srcMaps ''emapbnds'' (lit ''no''),
          runCommand E srcMaps run] wx = (Inr (), w')"
      by (simp only: try_except_def srcMaps_check [OF cc] if_True prod.case sum.case)
    from srcMaps_block_ok [OF this] cc px True g show ?thesis
      by auto
  next
    case False
    with t cc have "w' = wx\<lparr>trace := trace wx @ [Log Critical ''One or more needed files do not exist'']\<rparr>"
      by (simp only: try_except_def srcMaps_check [OF cc] if_False prod.case sum.case)
         (simp add: logger_critical_def emit_def)
    with cc False g show ?thesis
      by auto
  qed
qed


subsection \<open>Tools invoked\<close>

lemma tools_invoked_append: "tools_invoked (xs @ ys) = tools_invoked xs @ tools_invoked ys"
  by (simp add: tools_invoked_def List.map_filter_def)

lemma tools_invoked_command:
  "tools_invoked [command_event app run d] = (if run then [tool_name app] else [])"
  by (simp add: tools_invoked_def command_event_def List.map_filter_simps)

lemma tools_invoked_Log: "tools_invoked [Log l m] = []"
  by (simp add: tools_invoked_def List.map_filter_simps)

lemma block_Cons_Inr:
  "block (m # ss) w = (Inr u, w') \<longleftrightarrow> (\<exists>w1. m w = (Inr (), w1) \<and> block ss w1 = (Inr u, w'))"
  by (auto simp: py_bind_Inr)

lemma logger_info_Inr:
  "logger_info msg w = (r, w') \<longleftrightarrow> r = Inr () \<and> w' = w\<lparr>trace := trace w @ [Log Info msg]\<rparr>"
  by (auto simp: logger_info_def emit_def)

lemma runSelect_tools:
  "runSelect E self run convtype w = (Inr (), w') \<Longrightarrow>
   tools_invoked (trace w') = tools_invoked (trace w) @ (if run then [''gtselect''] else [])"
  by (drule runSelect_ok) (auto simp: tools_invoked_append tools_invoked_command)

lemma runGTI_tools:
  "runGTI E self run filterString roi w = (Inr (), w') \<Longrightarrow>
   tools_invoked (trace w') = tools_invoked (trace w) @ (if run then [''gtmktime''] else [])"
  by (drule runGTI_ok) (auto simp: tools_invoked_append tools_invoked_command)

lemma runLTCube_tools:
  "runLTCube E self run zmax w = (Inr (), w') \<Longrightarrow>
   tools_invoked (trace w') = tools_invoked (trace w) @ (if run then [''gtltcube''] else [])"
  by (drule runLTCube_ok) (auto simp: tools_invoked_append tools_invoked_command)

lemma runExpMap_tools:
  "runExpMap E self run w = (Inr (), w') \<Longrightarrow>
   tools_invoked (trace w') = tools_invoked (trace w) @ (if run then [''gtexpmap''] else [])"
  by (drule runExpMap_ok) (auto simp: tools_invoked_append tools_invoked_command)

lemma runCCUBE_tools:
  "runCCUBE E self run bin_size nbins w = (Inr (), w') \<Longrightarrow>
   tools_invoked (trace w') = tools_invoked (trace w) @ (if run then [''gtbin''] else [])"
  by (drule runCCUBE_ok) (auto simp: tools_invoked_append tools_invoked_command)

lemma runCMAP_tools:
  "runCMAP E self run bin_size w = (Inr (), w') \<Longrightarrow>
   tools_invoked (trace w') = tools_invoked (trace w) @ (if run then [''gtbin''] else [])"
  by (drule runCMAP_ok) (auto simp: tools_invoked_append tools_invoked_command)

lemma runExpCube_tools:
  assumes "runExpCube E self run bin_size nbins w = (Inr (), w')"
  shows "tools_invoked (trace w') = tools_invoked (trace w) @ (if run then [''gtexpcube2''] else [])"
proof -
  from runExpCube_ok [OF assms] obtain npix c where
    c: "expcube_cmd E self npix (arg_or (PFloat 0.1) bin_size) (arg_or (PInt 30) nbins) = Inr (PStr c)"
    and t: "trace w' = trace w @ (if run then [System c, Log Info c] else [Print c])"
    by blast
  from expcube_cmd_Inr [OF c] obtain rest where "c = ''gtexpcube2 infile='' @ rest"
    by auto
  with t show ?thesis
    by (simp add: tools_invoked_def List.map_filter_def)
qed

lemma runSrcMaps_tools_check:
  assumes "runSrcMaps E self run w = (Inr (), w')"
    and "commonConf self = Some cc" and "cc ''base'' = Some (PStr b)"
  shows "\<exists>wx. generateXMLmodel E self w = (Inr (), wx) \<and>
           tools_invoked (trace w') = tools_invoked (trace w) @
             (if run \<and> {b @ ''_CCUBE.fits'', b @ ''_ltcube.fits'', b @ ''_BinnedExpMap.fits'', b @ ''_SC.fits''}
                  \<subseteq> files wx
              then [''gtsrcmaps''] else [])"
proof -
  from runSrcMaps_ok [OF assms(1)] obtain wx cc' b' where
    g: "generateXMLmodel E self w = (Inr (), wx)" and
    c': "commonConf self = Some cc'" "cc' ''base'' = Some (PStr b')" and
    r: "if {b' @ ''_CCUBE.fits'', b' @ ''_ltcube.fits'', b' @ ''_BinnedExpMap.fits'', b' @ ''_SC.fits''}
                 \<subseteq> files wx
        then trace w' = trace wx @ [command_event srcMaps run (pars w' srcMaps)]
        else w' = wx\<lparr>trace := trace wx @ [Log Critical ''One or more needed files do not exist'']\<rparr>"
    by (metis (no_types, lifting))
  from c' assms(2,3) have bb: "b' = b"
    by simp
  from generateXMLmodel_frame [OF g] have x: "tools_invoked (trace wx) = tools_invoked (trace w)"
    by (auto simp: tools_invoked_append tools_invoked_Log)
  have "tools_invoked (trace w') = tools_invoked (trace w) @
             (if run \<and> {b @ ''_CCUBE.fits'', b @ ''_ltcube.fits'', b @ ''_BinnedExpMap.fits'', b @ ''_SC.fits''}
                  \<subseteq> files wx
              then [''gtsrcmaps''] else [])"
  proof (cases "{b @ ''_CCUBE.fits'', b @ ''_ltcube.fits'', b @ ''_BinnedExpMap.fits'', b @ ''_SC.fits''}
                 \<subseteq> files wx")
    case True
    with r bb have "trace w' = trace wx @ [command_event srcMaps run (pars w' srcMaps)]"
      by (simp only: if_True)
    with x True show ?thesis
      by (cases run) (simp_all only: tools_invoked_append tools_invoked_command simp_thms if_True if_False tool_name.simps)
  next
    case False
    with r bb have "w' = wx\<lparr>trace := trace wx @ [Log Critical ''One or more needed files do not exist'']\<rparr>"
      by (simp only: if_False)
    with x have "tools_invoked (trace w') = tools_invoked (trace w)"
      by (simp add: tools_invoked_append tools_invoked_Log)
    with False show ?thesis
      by (simp only: simp_thms if_False append_Nil2)
  qed
  with g show ?thesis
    by blast
qed


subsection \<open>The whole preparation\<close>

lemma runAll_missing:
  assumes "commonConf self = Some cc" and "cc ''base'' = Some (PStr b)"
    and "b @ ''.list'' \<notin> files w \<or> b @ ''_SC.fits'' \<notin> files w"
  shows "runAll E self run w =
           (Inr (), w\<lparr>trace := trace w @ [Log Info ''***Checking for files***'',
                                            Log Critical ''One or more needed files do not exist'']\<rparr>)"
proof -
  let ?w0 = "w\<lparr>trace := trace w @ [Log Info ''***Checking for files***'']\<rparr>"
  from assms(3) have "\<not> {b @ ''.list'', b @ ''_SC.fits''} \<subseteq> files ?w0"
    by auto
  then have "py_bind (expr (eval_list [
          py_plus E (self_commonConf self ''base'') (lit ''.list''),
          py_plus E (self_commonConf self ''base'') (lit ''_SC.fits'')])) checkForFiles ?w0 =
        (Inl FileNotFound, ?w0)"
    by (simp only: runAll_check [OF assms(1,2)] if_False)
  then show ?thesis
    by (simp add: runAll_def py_bind_def logger_info_def logger_critical_def emit_def try_except_def)
qed

lemma runAll_present:
  assumes ok: "runAll E self run w = (Inr (), w')"
    and cc: "commonConf self = Some cc" "cc ''base'' = Some (PStr b)"
    and fs: "b @ ''.list'' \<in> files w" "b @ ''_SC.fits'' \<in> files w"
  shows "\<exists>binned. cc ''binned'' = Some binned \<and>
           (if truthy binned
            then \<exists>ws wx.
                   tools_invoked (trace ws) =
                     tools_invoked (trace w) @
                     (if run then [''gtselect'', ''gtmktime'', ''gtltcube'', ''gtbin'', ''gtexpcube2''] else []) \<and>
                   runSrcMaps E self run ws = (Inr (), w') \<and>
                   generateXMLmodel E self ws = (Inr (), wx) \<and>
                   tools_invoked (trace w') =
                     tools_invoked (trace ws) @
                     (if run \<and> {b @ ''_CCUBE.fits'', b @ ''_ltcube.fits'', b @ ''_BinnedExpMap.fits'',
                                 b @ ''_SC.fits''} \<subseteq> files wx
                      then [''gtsrcmaps''] else [])
            else tools_invoked (trace w') =
                   tools_invoked (trace w) @
                   (if run then [''gtselect'', ''gtmktime'', ''gtltcube'', ''gtexpmap''] else []))"
    (is "\<exists>binned. _ \<and> ?Q binned")
proof -
  let ?w0 = "w\<lparr>trace := trace w @ [Log Info ''***Checking for files***'']\<rparr>"
  from fs have "{b @ ''.list'', b @ ''_SC.fits''} \<subseteq> files ?w0"
    by auto
  then have chk: "py_bind (expr (eval_list [
          py_plus E (self_commonConf self ''base'') (lit ''.list''),
          py_plus E (self_commonConf self ''base'') (lit ''_SC.fits'')])) checkForFiles ?w0 =
        (Inr (), ?w0)"
    by (simp only: runAll_check [OF cc] if_True)
  from ok have "try_except
       (py_bind (expr (eval_list [
          py_plus E (self_commonConf self ''base'') (lit ''.list''),
          py_plus E (self_commonConf self ''base'') (lit ''_SC.fits'')])) checkForFiles)
       FileNotFound
       (logger_critical ''One or more needed files do not exist'')
       (\<lambda>_. block [
          logger_info ''***Running gtselect***'',
          runSelect E self run None,
          logger_info ''***Running gtmktime***'',
          runGTI E self run None None,
          logger_info ''***Running gtltcube***'',
          runLTCube E self run None,
          py_bind (expr (self_commonConf self ''binned'')) (\<lambda>binned.
            if truthy binned then
              block [
                logger_info ''***Running gtbin***'',
                runCCUBE E self run None None,
                logger_info ''***Running gtexpcube2***'',
                runExpCube E self run None None,
                logger_info ''***Running gtsrcMaps***'',
                runSrcMaps E self run]
            else
              block [
                logger_info ''***Running gtexpmap***'',
                runExpMap E self run])]) ?w0 = (Inr (), w')"
    by (simp add: runAll_def py_bind_def logger_info_def emit_def)
  then have "block [
          logger_info ''***Running gtselect***'',
          runSelect E self run None,
          logger_info ''***Running gtmktime***'',
          runGTI E self run None None,
          logger_info ''***Running gtltcube***'',
          runLTCube E self run None,
          py_bind (expr (self_commonConf self ''binned'')) (\<lambda>binned.
            if truthy binned then
              block [
                logger_info ''***Running gtbin***'',
                runCCUBE E self run None None,
                logger_info ''***Running gtexpcube2***'',
                runExpCube E self run None None,
                logger_info ''***Running gtsrcMaps***'',
                runSrcMaps E self run]
            else
              block [
                logger_info ''***Running gtexpmap***'',
                runExpMap E self run])] ?w0 = (Inr (), w')"
    by (simp only: try_except_def chk prod.case sum.case)
  then obtain l1 w1 l2 w2 l3 w3 binned where
    l1: "logger_info ''***Running gtselect***'' ?w0 = (Inr (), l1)" and
    w1: "runSelect E self run None l1 = (Inr (), w1)" and
    l2: "logger_info ''***Running gtmktime***'' w1 = (Inr (), l2)" and
    w2: "runGTI E self run None None l2 = (Inr (), w2)" and
    l3: "logger_info ''***Running gtltcube***'' w2 = (Inr (), l3)" and
    w3: "runLTCube E self run None l3 = (Inr (), w3)" and
    b: "self_commonConf self ''binned'' = Inr binned" and
    rest: "(if truthy binned then
              block [
                logger_info ''***Running gtbin***'',
                runCCUBE E self run None None,
                logger_info ''***Running gtexpcube2***'',
                runExpCube E self run None None,
                logger_info ''***Running gtsrcMaps***'',
                runSrcMaps E self run]
            else
              block [
                logger_info ''***Running gtexpmap***'',
                runExpMap E self run]) w3 = (Inr (), w')"
    by (simp only: block_Cons_Inr block_single py_bind_Inr expr_Inr) blast
  from l1 have t0: "tools_invoked (trace l1) = tools_invoked (trace w)"
    by (auto simp: logger_info_Inr tools_invoked_def List.map_filter_def)
  from l2 have t1: "tools_invoked (trace l2) = tools_invoked (trace w1)"
    by (auto simp: logger_info_Inr tools_invoked_append tools_invoked_Log)
  from l3 have t2: "tools_invoked (trace l3) = tools_invoked (trace w2)"
    by (auto simp: logger_info_Inr tools_invoked_append tools_invoked_Log)
  have t3: "tools_invoked (trace w3) =
      tools_invoked (trace w) @ (if run then [''gtselect'', ''gtmktime'', ''gtltcube''] else [])"
    using runSelect_tools [OF w1] runGTI_tools [OF w2] runLTCube_tools [OF w3] t0 t1 t2
    by simp
  from b cc have bn: "cc ''binned'' = Some binned"
    by (simp add: self_commonConf_Inr)
  show ?thesis
  proof (cases "truthy binned")
    case True
    with rest obtain l4 w4 l5 w5 l6 where
      l4: "logger_info ''***Running gtbin***'' w3 = (Inr (), l4)" and
      w4: "runCCUBE E self run None None l4 = (Inr (), w4)" and
      l5: "logger_info ''***Running gtexpcube2***'' w4 = (Inr (), l5)" and
      w5: "runExpCube E self run None None l5 = (Inr (), w5)" and
      l6: "logger_info ''***Running gtsrcMaps***'' w5 = (Inr (), l6)" and
      w6: "runSrcMaps E self run l6 = (Inr (), w')"
      by (simp only: if_True block_Cons_Inr block_single) blast
    from l4 have t4: "tools_invoked (trace l4) = tools_invoked (trace w3)"
      by (auto simp: logger_info_Inr tools_invoked_append tools_invoked_Log)
    from l5 have t5: "tools_invoked (trace l5) = tools_invoked (trace w4)"
      by (auto simp: logger_info_Inr tools_invoked_append tools_invoked_Log)
    from l6 have t6: "tools_invoked (trace l6) = tools_invoked (trace w5)"
      by (auto simp: logger_info_Inr tools_invoked_append tools_invoked_Log)
    have t7: "tools_invoked (trace l6) =
        tools_invoked (trace w) @
        (if run then [''gtselect'', ''gtmktime'', ''gtltcube'', ''gtbin'', ''gtexpcube2''] else [])"
      using runCCUBE_tools [OF w4] runExpCube_tools [OF w5] t3 t4 t5 t6
      by simp
    from runSrcMaps_tools_check [OF w6 cc] obtain wx where
      g: "generateXMLmodel E self l6 = (Inr (), wx)" and
      t8: "tools_invoked (trace w') =
             tools_invoked (trace l6) @
             (if run \<and> {b @ ''_CCUBE.fits'', b @ ''_ltcube.fits'', b @ ''_BinnedExpMap.fits'',
                         b @ ''_SC.fits''} \<subseteq> files wx
              then [''gtsrcmaps''] else [])"
      by blast
    from t7 w6 g t8 have "\<exists>ws wx.
                   tools_invoked (trace ws) =
                     tools_invoked (trace w) @
                     (if run then [''gtselect'', ''gtmktime'', ''gtltcube'', ''gtbin'', ''gtexpcube2''] else []) \<and>
                   runSrcMaps E self run ws = (Inr (), w') \<and>
                   generateXMLmodel E self ws = (Inr (), wx) \<and>
                   tools_invoked (trace w') =
                     tools_invoked (trace ws) @
                     (if run \<and> {b @ ''_CCUBE.fits'', b @ ''_ltcube.fits'', b @ ''_BinnedExpMap.fits'',
                                 b @ ''_SC.fits''} \<subseteq> files wx
                      then [''gtsrcmaps''] else [])"
      by blast
    with True have "?Q binned"
      by (simp only: if_True)
    with bn show ?thesis
      by (intro exI [where x = binned] conjI)
  next
    case False
    with rest obtain l4 where
      l4: "logger_info ''***Running gtexpmap***'' w3 = (Inr (), l4)" and
      w4: "runExpMap E self run l4 = (Inr (), w')"
      by (simp only: if_False block_Cons_Inr block_single) blast
    from l4 have t4: "tools_invoked (trace l4) = tools_invoked (trace w3)"
      by (auto simp: logger_info_Inr tools_invoked_append tools_invoked_Log)
    from runExpMap_tools [OF w4] t3 t4 have "tools_invoked (trace w') =
                   tools_invoked (trace w) @
                   (if run then [''gtselect'', ''gtmktime'', ''gtltcube'', ''gtexpmap''] else [])"
      by simp
    with False have "?Q binned"
      by (simp only: if_False)
    with bn show ?thesis
      by (intro exI [where x = binned] conjI)
  qed
qed


subsection \<open>Frame\<close>

lemma touches_only_setitem: "k \<in> K \<Longrightarrow> touches_only A K (setitem A k e)"
  by (auto simp: touches_only_def setitem_def update_par_def split: sum.splits)

lemma touches_only_runCommand: "touches_only A K (runCommand E app run)"
  by (auto simp: touches_only_def runCommand_def split: if_splits prod.splits option.splits)

lemma touches_only_expr: "touches_only A K (expr e)"
  by (simp add: touches_only_def expr_def)

lemma touches_only_ret: "touches_only A K (ret v)"
  by (simp add: touches_only_def ret_def)

lemma touches_only_bind:
  assumes "touches_only A K m" and "\<And>v. touches_only A K (f v)"
  shows "touches_only A K (py_bind m f)"
  unfolding touches_only_def
proof (intro allI impI)
  fix w r w' a k
  assume run: "py_bind m f w = (r, w')" and ak: "a \<noteq> A \<or> k \<notin> K"
  obtain r1 w1 where m: "m w = (r1, w1)"
    by (cases "m w")
  with assms(1) ak have s1: "pars w1 a k = pars w a k"
    by (auto simp: touches_only_def)
  show "pars w' a k = pars w a k"
  proof (cases r1)
    case (Inl e)
    with run m have "w' = w1" by (simp add: py_bind_def)
    with s1 show ?thesis by simp
  next
    case (Inr v)
    with run m have "f v w1 = (r, w')" by (simp add: py_bind_def)
    with assms(2) [of v] ak have "pars w' a k = pars w1 a k"
      by (auto simp: touches_only_def)
    with s1 show ?thesis by simp
  qed
qed

lemma touches_only_block_Nil: "touches_only A K (block [])"
  by (simp add: touches_only_ret)

lemma touches_only_block_Cons:
  "touches_only A K s \<Longrightarrow> touches_only A K (block ss) \<Longrightarrow> touches_only A K (block (s # ss))"
  by (simp add: touches_only_bind)

lemmas touches_only_intros =
  touches_only_bind touches_only_expr touches_only_block_Cons touches_only_block_Nil
  touches_only_setitem touches_only_runCommand

lemma touches_onlyD:
  "touches_only A K m \<Longrightarrow> m w = (r, w') \<Longrightarrow> a \<noteq> A \<or> k \<notin> K \<Longrightarrow> pars w' a k = pars w a k"
  unfolding touches_only_def by blast

lemma touches_only_runCMAP: "touches_only evtbin runCMAP_keys (runCMAP E self run bin_size)"
  unfolding runCMAP_def
  by (intro touches_only_intros; simp add: runCMAP_keys_def)


subsection \<open>Evaluation at concrete inputs\<close>

lemmas eval_defs = runAll_def runSelect_def runGTI_def runLTCube_def runExpMap_def runCCUBE_def
  runCMAP_def runExpCube_def runSrcMaps_def generateXMLmodel_def npix_expr_def expcube_cmd_def
  setitem_def runCommand_def py_bind_def ret_def expr_def emit_def logger_info_def
  logger_critical_def try_except_def checkForFiles_def on_files_def os_system_call_def
  self_commonConf_def self_analysisConf_def attr_commonConf_def attr_analysisConf_def getitem_def
  py_plus_def lit_def call1_def call2_def arg_or_def idle_env_def world0_def qA_src_def
  default_commonConfig_def default_analysisConfig_def update_par_same update_par_other str_int_def
  tools_invoked_def List.map_filter_def

lemma returnsI: "fst (m w) = Inr () \<Longrightarrow> m w = (Inr (), snd (m w))"
  by (metis prod.collapse)

lemma py_bind_eval: "m w = (Inr v, w1) \<Longrightarrow> py_bind m f w = f v w1"
  by (simp add: py_bind_def)

lemma try_except_handled:
  "body w = (Inl x, w1) \<Longrightarrow> try_except body x handler rest w = handler w1"
  by (simp add: try_except_def)

subsection \<open>Steady statements\<close>

lemma steadyD: "steady m \<Longrightarrow> m w = (r, w') \<Longrightarrow> r = Inr () \<and> files w' = files w"
  unfolding steady_def by (metis fst_conv snd_conv)

lemma steady_returns: "steady m \<Longrightarrow> m w = (Inr (), snd (m w))"
  unfolding steady_def by (metis prod.collapse)

lemma steady_bind:
  assumes "steady m" and "steady k"
  shows "steady (py_bind m (\<lambda>_. k))"
  unfolding steady_def
proof (intro allI)
  fix w
  from assms(1) have m: "m w = (Inr (), snd (m w))"
    by (rule steady_returns)
  from assms(1) have f: "files (snd (m w)) = files w"
    by (simp add: steady_def)
  from m have "py_bind m (\<lambda>_. k) w = k (snd (m w))"
    by (rule py_bind_eval)
  with assms(2) f show "fst (py_bind m (\<lambda>_. k) w) = Inr () \<and> files (snd (py_bind m (\<lambda>_. k) w)) = files w"
    by (simp add: steady_def)
qed

lemma steady_block_Nil: "steady (block [])"
  by (simp add: steady_def ret_def)

lemma steady_block_Cons: "steady s \<Longrightarrow> steady (block ss) \<Longrightarrow> steady (block (s # ss))"
  by (simp add: steady_bind)

lemma steady_logger_info: "steady (logger_info msg)"
  by (simp add: steady_def logger_info_def emit_def)

lemma steady_logger_critical: "steady (logger_critical msg)"
  by (simp add: steady_def logger_critical_def emit_def)

lemma steady_runSelect: "steady (runSelect idle_env (qA_src binned) True None)"
  unfolding steady_def by (simp add: eval_defs)

lemma steady_runGTI: "steady (runGTI idle_env (qA_src binned) True None None)"
  unfolding steady_def by (simp add: eval_defs)

lemma steady_runLTCube: "steady (runLTCube idle_env (qA_src binned) True None)"
  unfolding steady_def by (simp add: eval_defs)

lemma steady_runExpMap: "steady (runExpMap idle_env (qA_src binned) True)"
  unfolding steady_def by (simp add: eval_defs)

lemma steady_runCCUBE: "steady (runCCUBE idle_env (qA_src binned) True None None)"
  unfolding steady_def by (simp add: eval_defs)

lemma steady_runExpCube: "steady (runExpCube idle_env (qA_src binned) True None None)"
  unfolding steady_def by (simp add: eval_defs)

lemma steady_generateXMLmodel: "steady (generateXMLmodel idle_env (qA_src binned))"
  unfolding steady_def by (simp add: eval_defs)

lemma steady_runSrcMaps: "steady (runSrcMaps idle_env (qA_src binned) True)"
  unfolding steady_def by (simp add: eval_defs)

lemma steady_binned_step:
  assumes "steady a" and "steady b"
  shows "steady (py_bind (expr (self_commonConf (qA_src binned) ''binned'')) (\<lambda>v. if truthy v then a else b))"
proof -
  have "py_bind (expr (self_commonConf (qA_src binned) ''binned'')) (\<lambda>v. if truthy v then a else b) =
        (if binned then a else b)"
    by (rule ext)
       (simp add: py_bind_def expr_def self_commonConf_def attr_commonConf_def getitem_def qA_src_def)
  with assms show ?thesis
    by simp
qed

lemma steady_runAll: "steady (runAll idle_env (qA_src binned) True)"
  unfolding steady_def
proof (intro allI)
  fix w :: world
  let ?cc = "default_commonConfig(''base'' \<mapsto> PStr ''src'', ''binned'' \<mapsto> PBool binned)"
  let ?w0 = "w\<lparr>trace := trace w @ [Log Info ''***Checking for files***'']\<rparr>"
  have c: "commonConf (qA_src binned) = Some ?cc"
    by (simp add: qA_src_def)
  have b: "?cc ''base'' = Some (PStr ''src'')"
    by simp
  show "fst (runAll idle_env (qA_src binned) True w) = Inr () \<and>
        files (snd (runAll idle_env (qA_src binned) True w)) = files w"
  proof (cases "{''src'' @ ''.list'', ''src'' @ ''_SC.fits''} \<subseteq> files w")
    case False
    then have "''src'' @ ''.list'' \<notin> files w \<or> ''src'' @ ''_SC.fits'' \<notin> files w"
      by blast
    from runAll_missing [OF c b this, of idle_env True] show ?thesis
      by simp
  next
    case True
    then have "{''src'' @ ''.list'', ''src'' @ ''_SC.fits''} \<subseteq> files ?w0"
      by simp
    then have chk: "py_bind (expr (eval_list [
          py_plus idle_env (self_commonConf (qA_src binned) ''base'') (lit ''.list''),
          py_plus idle_env (self_commonConf (qA_src binned) ''base'') (lit ''_SC.fits'')])) checkForFiles ?w0 =
        (Inr (), ?w0)"
      by (simp only: runAll_check [OF c b] if_True)
    have st: "steady (block [
          logger_info ''***Running gtselect***'',
          runSelect idle_env (qA_src binned) True None,
          logger_info ''***Running gtmktime***'',
          runGTI idle_env (qA_src binned) True None None,
          logger_info ''***Running gtltcube***'',
          runLTCube idle_env (qA_src binned) True None,
          py_bind (expr (self_commonConf (qA_src binned) ''binned'')) (\<lambda>binned'.
            if truthy binned' then
              block [
                logger_info ''***Running gtbin***'',
                runCCUBE idle_env (qA_src binned) True None None,
                logger_info ''***Running gtexpcube2***'',
                runExpCube idle_env (qA_src binned) True None None,
                logger_info ''***Running gtsrcMaps***'',
                runSrcMaps idle_env (qA_src binned) True]
            else
              block [
                logger_info ''***Running gtexpmap***'',
                runExpMap idle_env (qA_src binned) True])])"
      by (intro steady_block_Cons steady_block_Nil steady_binned_step steady_logger_info
          steady_runSelect steady_runGTI steady_runLTCube steady_runCCUBE steady_runExpCube
          steady_runSrcMaps steady_runExpMap)
    have "runAll idle_env (qA_src binned) True w = block [
          logger_info ''***Running gtselect***'',
          runSelect idle_env (qA_src binned) True None,
          logger_info ''***Running gtmktime***'',
          runGTI idle_env (qA_src binned) True None None,
          logger_info ''***Running gtltcube***'',
          runLTCube idle_env (qA_src binned) True None,
          py_bind (expr (self_commonConf (qA_src binned) ''binned'')) (\<lambda>binned'.
            if truthy binned' then
              block [
                logger_info ''***Running gtbin***'',
                runCCUBE idle_env (qA_src binned) True None None,
                logger_info ''***Running gtexpcube2***'',
                runExpCube idle_env (qA_src binned) True None None,
                logger_info ''***Running gtsrcMaps***'',
                runSrcMaps idle_env (qA_src binned) True]
            else
              block [
                logger_info ''***Running gtexpmap***'',
                runExpMap idle_env (qA_src binned) True])] ?w0"
      unfolding runAll_def
      by (simp only: py_bind_eval [where m = "logger_info ''***Checking for files***''" and w = w
            and v = "()" and ?w1.0 = ?w0, OF logger_info_Inr [THEN iffD2, OF conjI [OF refl refl]]]
          try_except_def chk prod.case sum.case)
    with st show ?thesis
      by (simp add: steady_def)
  qed
qed

subsection \<open>Objects without attributes\<close>

lemma no_commonConf:
  "commonConf self = None \<Longrightarrow> self_commonConf self k = Inl (AttributeError ''commonConf'')"
  by (simp add: self_commonConf_def attr_commonConf_def)

lemma no_analysisConf:
  "analysisConf self = None \<Longrightarrow> self_analysisConf self k = Inl (AttributeError ''analysisConf'')"
  by (simp add: self_analysisConf_def attr_analysisConf_def)

lemma block_setitem_raises:
  "block (setitem app k (Inl e) # ss) w = (Inl e, w)"
  by (simp add: py_bind_def setitem_def)

lemma py_plus_Inl: "py_plus E (Inl e) b = Inl e"
  by (simp add: py_plus_def)

lemma py_bind_expr_Inl: "py_bind (expr (Inl e)) f w = (Inl e, w)"
  by (simp add: py_bind_def expr_def)

lemma npix_expr_no_analysisConf:
  "analysisConf self = None \<Longrightarrow> npix_expr E self bs = Inl (AttributeError ''analysisConf'')"
  by (simp add: npix_expr_def call1_def call2_def no_analysisConf)

lemma runSelect_unset:
  "analysisConf self = None \<Longrightarrow>
   runSelect E self run convtype w = (Inl (AttributeError ''analysisConf''), w)"
  unfolding runSelect_def by (simp only: no_analysisConf block_setitem_raises)

lemma runGTI_unset:
  "commonConf self = None \<Longrightarrow>
   runGTI E self run filterString roi w = (Inl (AttributeError ''commonConf''), w)"
  unfolding runGTI_def by (simp only: no_commonConf py_plus_Inl block_setitem_raises)

lemma runLTCube_unset:
  "commonConf self = None \<Longrightarrow>
   runLTCube E self run zmax w = (Inl (AttributeError ''commonConf''), w)"
  unfolding runLTCube_def by (simp only: no_commonConf py_plus_Inl block_setitem_raises)

lemma runExpMap_unset:
  "commonConf self = None \<Longrightarrow>
   runExpMap E self run w = (Inl (AttributeError ''commonConf''), w)"
  unfolding runExpMap_def by (simp only: no_commonConf py_plus_Inl block_setitem_raises)

lemma runCCUBE_unset:
  "analysisConf self = None \<Longrightarrow>
   runCCUBE E self run bin_size nbins w = (Inl (AttributeError ''analysisConf''), w)"
  unfolding runCCUBE_def by (simp only: npix_expr_no_analysisConf py_bind_expr_Inl)

lemma runCMAP_unset:
  "analysisConf self = None \<Longrightarrow>
   runCMAP E self run bin_size w = (Inl (AttributeError ''analysisConf''), w)"
  unfolding runCMAP_def by (simp only: npix_expr_no_analysisConf py_bind_expr_Inl)

lemma runExpCube_unset:
  "analysisConf self = None \<Longrightarrow>
   runExpCube E self run bin_size nbins w = (Inl (AttributeError ''analysisConf''), w)"
  unfolding runExpCube_def by (simp only: npix_expr_no_analysisConf py_bind_expr_Inl)

lemma generateXMLmodel_unset:
  "commonConf self = None \<Longrightarrow>
   generateXMLmodel E self w = (Inl (AttributeError ''commonConf''), w)"
  unfolding generateXMLmodel_def
  by (simp add: no_commonConf py_bind_expr_Inl try_except_def)

lemma runSrcMaps_unset:
  "commonConf self = None \<Longrightarrow>
   runSrcMaps E self run w = (Inl (AttributeError ''commonConf''), w)"
  unfolding runSrcMaps_def
  by (simp add: py_bind_def generateXMLmodel_unset)

lemma runModel_unset:
  "commonConf self = None \<Longrightarrow>
   runModel E self run w = (Inl (AttributeError ''commonConf''), w)"
  unfolding runModel_def by (simp only: no_commonConf py_bind_expr_Inl)

lemma runAll_unset:
  "commonConf self = None \<Longrightarrow>
   runAll E self run w =
     (Inl (AttributeError ''commonConf''),
      w\<lparr>trace := trace w @ [Log Info ''***Checking for files***'']\<rparr>)"
  unfolding runAll_def
  by (simp add: py_bind_def logger_info_def emit_def try_except_def expr_def
      no_commonConf py_plus_Inl)


subsection \<open>The command line\<close>

subsection \<open>Options that getopt can return\<close>

lemma short_has_arg_cm:
  "short_has_arg c ''cm'' =
     (if c = CHR ''c'' \<or> c = CHR ''m'' then Inr False
      else Inl (GetoptError (''option -'' @ [c] @ '' not recognized'')))"
  by simp

lemma do_shorts_cm:
  "list_all known_opt opts \<Longrightarrow> do_shorts opts s ''cm'' args = Inr (opts', args') \<Longrightarrow>
   list_all known_opt opts' \<and> args' = args"
proof (induction s arbitrary: opts)
  case Nil
  then show ?case by simp
next
  case (Cons c s)
  show ?case
  proof (cases "c = CHR ''c'' \<or> c = CHR ''m''")
    case True
    then have k: "known_opt (''-'' @ [c], [])"
      by (auto simp: known_opt_def)
    from True Cons.prems(2) have "do_shorts (opts @ [(''-'' @ [c], [])]) s ''cm'' args = Inr (opts', args')"
      by (simp only: do_shorts.simps short_has_arg_cm if_True sum.case bool.case)
    moreover from Cons.prems(1) k have "list_all known_opt (opts @ [(''-'' @ [c], [])])"
      by simp
    ultimately show ?thesis
      by (rule Cons.IH [rotated])
  next
    case False
    with Cons.prems(2) show ?thesis
      by (simp only: do_shorts.simps short_has_arg_cm if_False sum.case) simp
  qed
qed

lemma getopt_loop_cm:
  "list_all known_opt opts \<Longrightarrow> so = ''cm'' \<Longrightarrow>
   getopt_loop opts args so = Inr (opts', rest) \<Longrightarrow> list_all known_opt opts'"
proof (induction opts args so arbitrary: opts' rest rule: getopt_loop.induct)
  case (1 opts shortopts)
  then show ?case by simp
next
  case (2 opts a args shortopts)
  note so = \<open>shortopts = ''cm''\<close>
  show ?case
  proof (cases "take 1 a = ''-'' \<and> a \<noteq> ''-''")
    case False
    with "2.prems" show ?thesis by auto
  next
    case dash: True
    show ?thesis
    proof (cases "a = ''--''")
      case True
      with "2.prems" show ?thesis by simp
    next
      case nn: False
      show ?thesis
      proof (cases "take 2 a = ''--''")
        case True
        with "2.prems" dash nn show ?thesis by (simp add: do_longs_def)
      next
        case short: False
        with "2.prems"(3) dash nn obtain o1 a1 where
          d: "do_shorts opts (drop 1 a) shortopts args = Inr (o1, a1)" and
          g: "getopt_loop o1 a1 shortopts = Inr (opts', rest)"
          by (auto split: sum.splits)
        from do_shorts_cm [OF "2.prems"(1) d [unfolded so]] have "list_all known_opt o1"
          by simp
        from "2.IH" [OF dash nn short d refl this so g] show ?thesis .
      qed
    qed
  qed
qed

lemma getopt_cm:
  "getopt args ''cm'' = Inr (opts, rest) \<Longrightarrow> list_all known_opt opts"
  using getopt_loop_cm [of "[]" "''cm''" args opts rest] by (simp add: getopt_def)

subsection \<open>Events a statement never emits\<close>

lemma never_emitsD:
  "never_emits ev m \<Longrightarrow> m w = (r, w') \<Longrightarrow> ev \<notin> set (trace w) \<Longrightarrow> ev \<notin> set (trace w')"
  unfolding never_emits_def by blast

lemma never_emits_emit: "ev \<noteq> e \<Longrightarrow> never_emits ev (emit e)"
  by (auto simp: never_emits_def emit_def)

lemma never_emits_logger_info: "never_emits (Print s) (logger_info msg)"
  by (simp add: logger_info_def never_emits_emit)

lemma never_emits_logger_critical: "never_emits (Print s) (logger_critical msg)"
  by (simp add: logger_critical_def never_emits_emit)

lemma never_emits_setitem: "never_emits ev (setitem app k e)"
  by (auto simp: never_emits_def setitem_def split: sum.splits)

lemma never_emits_expr: "never_emits ev (expr e)"
  by (simp add: never_emits_def expr_def)

lemma never_emits_ret: "never_emits ev (ret v)"
  by (simp add: never_emits_def ret_def)

lemma never_emits_raise: "never_emits ev (raise e)"
  by (simp add: never_emits_def raise_def)

lemma never_emits_on_files: "never_emits ev (on_files f)"
  by (auto simp: never_emits_def on_files_def split: prod.splits option.splits)

lemma never_emits_checkForFiles: "never_emits ev (checkForFiles fileList)"
  by (auto simp: never_emits_def checkForFiles_def split: if_splits)

lemma never_emits_runCommand: "never_emits (Print s) (runCommand E app True)"
  by (auto simp: never_emits_def runCommand_def split: prod.splits option.splits)

lemma never_emits_os_system_call: "never_emits (Print s) (os_system_call E cmd)"
  by (auto simp: never_emits_def os_system_call_def split: pyval.splits)

lemma never_emits_bind:
  assumes "never_emits ev m" and "\<And>v. never_emits ev (f v)"
  shows "never_emits ev (py_bind m f)"
  unfolding never_emits_def
proof (intro allI impI)
  fix w r w'
  assume run: "py_bind m f w = (r, w')" and e: "ev \<in> set (trace w')"
  obtain r1 w1 where m: "m w = (r1, w1)"
    by (cases "m w")
  show "ev \<in> set (trace w)"
  proof (cases r1)
    case (Inl x)
    with run m have "w' = w1" by (simp add: py_bind_def)
    with assms(1) m e show ?thesis by (auto simp: never_emits_def)
  next
    case (Inr v)
    with run m have "f v w1 = (r, w')" by (simp add: py_bind_def)
    with assms(2) [of v] e have "ev \<in> set (trace w1)" by (auto simp: never_emits_def)
    with assms(1) m show ?thesis by (auto simp: never_emits_def)
  qed
qed

lemma never_emits_block_Nil: "never_emits ev (block [])"
  by (simp add: never_emits_ret)

lemma never_emits_block_Cons:
  "never_emits ev s \<Longrightarrow> never_emits ev (block ss) \<Longrightarrow> never_emits ev (block (s # ss))"
  by (simp add: never_emits_bind)

lemma never_emits_try_except:
  assumes "never_emits ev body" and "never_emits ev handler" and "\<And>v. never_emits ev (rest v)"
  shows "never_emits ev (try_except body x handler rest)"
  unfolding never_emits_def
proof (intro allI impI)
  fix w r w'
  assume run: "try_except body x handler rest w = (r, w')" and e: "ev \<in> set (trace w')"
  obtain r1 w1 where b: "body w = (r1, w1)"
    by (cases "body w")
  have "ev \<in> set (trace w1)"
  proof (cases r1)
    case (Inl y)
    show ?thesis
    proof (cases "y = x")
      case True
      with run b Inl have "handler w1 = (r, w')" by (simp add: try_except_def)
      with assms(2) e show ?thesis by (auto simp: never_emits_def)
    next
      case False
      with run b Inl have "w' = w1" by (simp add: try_except_def)
      with e show ?thesis by simp
    qed
  next
    case (Inr v)
    with run b have "rest v w1 = (r, w')" by (simp add: try_except_def)
    with assms(3) [of v] e show ?thesis by (auto simp: never_emits_def)
  qed
  with assms(1) b show "ev \<in> set (trace w)" by (auto simp: never_emits_def)
qed

lemma never_emits_if:
  "never_emits ev a \<Longrightarrow> never_emits ev b \<Longrightarrow> never_emits ev (if c then a else b)"
  by simp

lemmas never_emits_intros =
  never_emits_bind never_emits_expr never_emits_ret never_emits_raise
  never_emits_block_Cons never_emits_block_Nil never_emits_setitem never_emits_runCommand
  never_emits_logger_info never_emits_logger_critical never_emits_on_files
  never_emits_checkForFiles never_emits_os_system_call never_emits_try_except never_emits_if

lemma never_emits_runSelect: "never_emits (Print s) (runSelect E self True convtype)"
  unfolding runSelect_def by (intro never_emits_intros)

lemma never_emits_runGTI: "never_emits (Print s) (runGTI E self True filterString roi)"
  unfolding runGTI_def by (intro never_emits_intros)

lemma never_emits_runLTCube: "never_emits (Print s) (runLTCube E self True zmax)"
  unfolding runLTCube_def by (intro never_emits_intros)

lemma never_emits_runExpMap: "never_emits (Print s) (runExpMap E self True)"
  unfolding runExpMap_def by (intro never_emits_intros)

lemma never_emits_runCCUBE: "never_emits (Print s) (runCCUBE E self True bin_size nbins)"
  unfolding runCCUBE_def by (intro never_emits_intros)

lemma never_emits_runExpCube: "never_emits (Print s) (runExpCube E self True bin_size nbins)"
  unfolding runExpCube_def if_True by (intro never_emits_intros)

lemma never_emits_generateXMLmodel: "never_emits (Print s) (generateXMLmodel E self)"
  unfolding generateXMLmodel_def by (intro never_emits_intros)

lemma never_emits_runSrcMaps: "never_emits (Print s) (runSrcMaps E self True)"
  unfolding runSrcMaps_def by (intro never_emits_intros never_emits_generateXMLmodel)

lemma never_emits_runModel: "never_emits (Print s) (runModel E self run)"
  unfolding runModel_def by (intro never_emits_intros)

lemma never_emits_writeConfig: "never_emits (Print s) (writeConfig E self)"
  unfolding writeConfig_def by (intro never_emits_intros)

lemma never_emits_runAll: "never_emits (Print s) (runAll E self True)"
  unfolding runAll_def
  by (intro never_emits_intros never_emits_runSelect never_emits_runGTI never_emits_runLTCube
      never_emits_runExpMap never_emits_runCCUBE never_emits_runExpCube never_emits_runSrcMaps)

lemma never_emits_init:
  "never_emits (Print s) (quickAnalysis_init E base configFile analysisConfig commonConfig)"
  unfolding never_emits_def
  by (auto simp: quickAnalysis_init_def Let_def init_finish_def py_bind_def logger_info_def
      logger_critical_def emit_def ret_def split: if_splits sum.splits prod.splits)

lemma py_format_plain:
  "CHR ''%'' \<notin> set xs \<Longrightarrow>
   py_format (xs @ fmt) args =
     (case py_format fmt args of Inl e \<Rightarrow> Inl e | Inr r \<Rightarrow> Inr (xs @ r))"
  by (induction xs) (auto split: sum.splits)

lemma py_format_conversion:
  "py_format (''%s'' @ fmt) (a # args) =
     (case py_format fmt args of Inl e \<Rightarrow> Inl e | Inr r \<Rightarrow> Inr (a @ r))"
  by simp

lemma py_format_too_few: "py_format (''%s'' @ fmt) [] = Inl TypeError"
  by simp

text \<open>The usage text, cut at its four conversions.\<close>

lemma usage_text_conversions:
  "usage_text =
      (''quickAnalysis - Perform event selections and exposure\<newline>'' @
       ''        calculations for Fermi LAT data.  You can use the command line\<newline>'' @
       ''        functions listed below or run this module from within\<newline>'' @
       ''        python. For full documentation on this module execute 'pydoc\<newline>'' @
       ''        quickAnalysis'.\<newline>'' @
       ''\<newline>'' @
       ''python '') @ ''%s'' @
      ('' <basename> ...  Perform an analysis on <basename>.\<newline>'' @
       ''    <basename> is the prefix used for this analysis.  You must already\<newline>'' @
       ''    have a configuration file if using the command line interface.\<newline>'' @
       ''\<newline>'' @
       ''python '') @ ''%s'' @
      ('' -c ... Generate a default config file called example.cfg.\<newline>'' @
       ''    Edit this file and rename it <basename>.cfg for use in the\<newline>'' @
       ''    quickAnalysis module.\<newline>'' @
       ''\<newline>'' @
       ''python '') @ ''%s'' @
      ('' -m <basename> ... Generate a model file from the 2FGL.  You\<newline>'' @
       ''    need to already have <basename>_filtered_gti.fits in your working\<newline>'' @
       ''    directory.  You can get this file by running the functions\<newline>'' @
       ''    runSelect and runGTI on your data.  You also need to have the\<newline>'' @
       ''    galactic and isotropic diffuse models in your working directory as\<newline>'' @
       ''    well as the 2FGL model file.\<newline>'' @
       ''\<newline>'' @
       ''python '') @ ''%s'' @
      ('' -M <basename> ... Generate a model map based on the model\<newline>'' @
       ''    file in your config file.  You need to have several files already\<newline>'' @
       ''    computed.  It's best to do the runAll script before trying this.\<newline>'' @
       ''\<newline>'')"
  by (simp add: usage_text_def)

lemma usage_format_fails: "py_format usage_text [cmd, cmd, cmd] = Inl TypeError"
  by (simp only: usage_text_conversions)
     (simp add: py_format_plain py_format_conversion py_format_too_few
        del: py_format.simps append.simps)

lemma never_emits_cli_usage: "never_emits ev (cli_usage argv)"
proof -
  have "cli_usage argv w = (r, w') \<Longrightarrow> w' = w" for w r w'
    by (auto simp: cli_usage_def py_bind_def expr_def usage_format_fails
        split: sum.splits prod.splits pyval.splits)
  then show ?thesis
    unfolding never_emits_def by blast
qed

lemma never_emits_cli_opts:
  "list_all known_opt opts \<Longrightarrow>
   never_emits (Print ''Creating model map'') (cli_opts E argv opts args)"
proof (induction opts)
  case Nil
  show ?case by (simp add: never_emits_ret)
next
  case (Cons ov opts)
  obtain opt val where ov: "ov = (opt, val)"
    by (cases ov)
  from Cons.prems ov have k: "opt = ''-c'' \<or> opt = ''-m''"
    by (simp add: known_opt_def)
  from Cons have ih: "never_emits (Print ''Creating model map'') (cli_opts E argv opts args)"
    by simp
  from k show ?case
  proof
    assume c: "opt = ''-c''"
    have "never_emits (Print ''Creating model map'')
        (py_bind (emit (Print ''Creating example configuration file called example.cfg'')) (\<lambda>_.
         py_bind (quickAnalysis_init E (PStr ''example'') False default_analysisConfig default_commonConfig) (\<lambda>qA.
         py_bind (writeConfig E qA) (\<lambda>_. ret True))))"
      by (intro never_emits_intros never_emits_emit never_emits_init never_emits_writeConfig) simp
    with c ov show ?thesis
      by simp
  next
    assume m: "opt = ''-m''"
    have "never_emits (Print ''Creating model map'')
        (py_bind (emit (Print ''Creating model file from 2FGL called example_model.xml'')) (\<lambda>_.
          if args = [] then raise BadUsage
          else
            py_bind (expr (argv_item argv 2)) (\<lambda>base.
            py_bind (quickAnalysis_init E base False default_analysisConfig default_commonConfig) (\<lambda>qA.
            py_bind (generateXMLmodel E qA) (\<lambda>_. ret True)))))"
      by (intro never_emits_intros never_emits_emit never_emits_init never_emits_generateXMLmodel)
         simp
    with m ov show ?thesis
      by simp
  qed
qed

lemma never_emits_cli_args: "never_emits (Print s) (cli_args E args)"
  by (induction args)
     (auto intro!: never_emits_bind never_emits_ret never_emits_init never_emits_runAll)

lemma never_emits_cli_body: "never_emits (Print ''Creating model map'') (cli_body E argv)"
  unfolding never_emits_def
proof (intro allI impI)
  fix w r w'
  assume run: "cli_body E argv w = (r, w')"
    and e: "Print ''Creating model map'' \<in> set (trace w')"
  show "Print ''Creating model map'' \<in> set (trace w)"
  proof (cases "getopt (drop 1 argv) ''cm''")
    case (Inl x)
    with run have "w' = w"
      by (simp add: cli_body_def py_bind_def expr_def)
    with e show ?thesis by simp
  next
    case (Inr p)
    obtain opts args where p: "p = (opts, args)"
      by (cases p)
    from getopt_cm Inr p have k: "list_all known_opt opts"
      by blast
    have "never_emits (Print ''Creating model map'')
        (py_bind (cli_opts E argv opts args) (\<lambda>returned.
           if returned then ret ()
           else if args = [] then raise BadUsage
           else cli_args E args))"
      by (intro never_emits_intros never_emits_cli_opts [OF k] never_emits_cli_args)
    moreover from run Inr p have
      "py_bind (cli_opts E argv opts args) (\<lambda>returned.
           if returned then ret ()
           else if args = [] then raise BadUsage
           else cli_args E args) w = (r, w')"
      by (simp add: cli_body_def py_bind_def expr_def)
    ultimately show ?thesis
      using e unfolding never_emits_def by blast
  qed
qed

lemma never_emits_cli: "never_emits (Print ''Creating model map'') (cli E argv)"
  unfolding never_emits_def
proof (intro allI impI)
  fix w r w'
  assume run: "cli E argv w = (r, w')"
    and e: "Print ''Creating model map'' \<in> set (trace w')"
  obtain r1 w1 where b: "cli_body E argv w = (r1, w1)"
    by (cases "cli_body E argv w")
  have "Print ''Creating model map'' \<in> set (trace w1)"
  proof (cases "\<exists>x. r1 = Inl x \<and> handled x")
    case True
    with run b have "cli_usage argv w1 = (r, w')"
      by (auto simp: cli_def)
    with never_emits_cli_usage e show ?thesis
      unfolding never_emits_def by blast
  next
    case False
    with run b have "w' = w1"
      by (cases r1) (auto simp: cli_def)
    with e show ?thesis by simp
  qed
  with never_emits_cli_body b show "Print ''Creating model map'' \<in> set (trace w)"
    unfolding never_emits_def by blast
qed

text \<open>An argument \<^verbatim>\<open>-M\<close> that getopt reaches is refused.\<close>

lemma getopt_loop_refuses_M:
  "list_all (\<lambda>a. a = ''-c'' \<or> a = ''-m'') pre \<Longrightarrow>
   getopt_loop opts (pre @ ''-M'' # rest) ''cm'' = Inl (GetoptError ''option -M not recognized'')"
proof (induction pre arbitrary: opts)
  case Nil
  show ?case by simp
next
  case (Cons a pre)
  from Cons.prems have a: "a = ''-c'' \<or> a = ''-m''"
    and p: "list_all (\<lambda>a. a = ''-c'' \<or> a = ''-m'') pre"
    by simp_all
  from a show ?case
  proof
    assume "a = ''-c''"
    then show ?thesis
      using Cons.IH [OF p, of "opts @ [(''-c'', [])]"] by simp
  next
    assume "a = ''-m''"
    then show ?thesis
      using Cons.IH [OF p, of "opts @ [(''-m'', [])]"] by simp
  qed
qed

lemma cli_usage_raises: "cli_usage (prog # args) w = (Inl TypeError, w)"
  by (simp add: cli_usage_def argv_item_def py_bind_def expr_def usage_format_fails)

section \<open>The claims\<close>

text \<open>
  C5. \<^verbatim>\<open>runSelect\<close> assigns exactly the twelve keys rad, evclass, infile, outfile, ra,
  dec, tmin, tmax, emin, emax, zmax and convtype of the \<^verbatim>\<open>filter\<close> dictionary: the values
  come from the analysis and common configuration, convtype from the argument (\<open>-1\<close> when
  it is omitted), and no other entry and no other dictionary changes. \<^verbatim>\<open>runLTCube\<close>
  assigns dcostheta = 0.025 and binsz = 1 whatever the configuration is.
\<close>

theorem runSelect_runLTCube_assignments:
  "(runSelect E self run convtype w = (Inr (), w1) \<longrightarrow>
      (\<exists>ac cc b rad evclass ra dec' tmin tmax emin emax zmax.
          analysisConf self = Some ac \<and> commonConf self = Some cc \<and>
          cc ''base'' = Some (PStr b) \<and> cc ''eventclass'' = Some evclass \<and>
          ac ''rad'' = Some rad \<and> ac ''ra'' = Some ra \<and> ac ''dec'' = Some dec' \<and>
          ac ''tmin'' = Some tmin \<and> ac ''tmax'' = Some tmax \<and>
          ac ''emin'' = Some emin \<and> ac ''emax'' = Some emax \<and> ac ''zmax'' = Some zmax \<and>
          pars w1 filter_app = (pars w filter_app)(
             ''rad'' \<mapsto> rad, ''evclass'' \<mapsto> evclass,
             ''infile'' \<mapsto> PStr (''@'' @ b @ ''.list''),
             ''outfile'' \<mapsto> PStr (b @ ''_filtered.fits''),
             ''ra'' \<mapsto> ra, ''dec'' \<mapsto> dec', ''tmin'' \<mapsto> tmin, ''tmax'' \<mapsto> tmax,
             ''emin'' \<mapsto> emin, ''emax'' \<mapsto> emax, ''zmax'' \<mapsto> zmax,
             ''convtype'' \<mapsto> (case convtype of None \<Rightarrow> PInt (- 1) | Some c \<Rightarrow> c)) \<and>
          (\<forall>a. a \<noteq> filter_app \<longrightarrow> pars w1 a = pars w a))) \<and>
   (runLTCube E self' run' zmax' w' = (Inr (), w2) \<longrightarrow>
      pars w2 expCube ''dcostheta'' = Some (PFloat 0.025) \<and>
      pars w2 expCube ''binsz'' = Some (PInt 1))"
proof (intro conjI impI)
  assume "runSelect E self run convtype w = (Inr (), w1)"
  from runSelect_ok [OF this] show
    "\<exists>ac cc b rad evclass ra dec' tmin tmax emin emax zmax.
          analysisConf self = Some ac \<and> commonConf self = Some cc \<and>
          cc ''base'' = Some (PStr b) \<and> cc ''eventclass'' = Some evclass \<and>
          ac ''rad'' = Some rad \<and> ac ''ra'' = Some ra \<and> ac ''dec'' = Some dec' \<and>
          ac ''tmin'' = Some tmin \<and> ac ''tmax'' = Some tmax \<and>
          ac ''emin'' = Some emin \<and> ac ''emax'' = Some emax \<and> ac ''zmax'' = Some zmax \<and>
          pars w1 filter_app = (pars w filter_app)(
             ''rad'' \<mapsto> rad, ''evclass'' \<mapsto> evclass,
             ''infile'' \<mapsto> PStr (''@'' @ b @ ''.list''),
             ''outfile'' \<mapsto> PStr (b @ ''_filtered.fits''),
             ''ra'' \<mapsto> ra, ''dec'' \<mapsto> dec', ''tmin'' \<mapsto> tmin, ''tmax'' \<mapsto> tmax,
             ''emin'' \<mapsto> emin, ''emax'' \<mapsto> emax, ''zmax'' \<mapsto> zmax,
             ''convtype'' \<mapsto> (case convtype of None \<Rightarrow> PInt (- 1) | Some c \<Rightarrow> c)) \<and>
          (\<forall>a. a \<noteq> filter_app \<longrightarrow> pars w1 a = pars w a)"
    unfolding arg_or_def by blast
next
  assume "runLTCube E self' run' zmax' w' = (Inr (), w2)"
  from runLTCube_ok [OF this] obtain cc b where
    "pars w2 expCube = (pars w' expCube)(
        ''evfile'' \<mapsto> PStr (b @ ''_filtered_gti.fits''),
        ''scfile'' \<mapsto> PStr (b @ ''_SC.fits''),
        ''outfile'' \<mapsto> PStr (b @ ''_ltcube.fits''),
        ''dcostheta'' \<mapsto> PFloat 0.025,
        ''binsz'' \<mapsto> PInt 1,
        ''zmax'' \<mapsto> arg_or (PInt 180) zmax')"
    by blast
  then show "pars w2 expCube ''dcostheta'' = Some (PFloat 0.025)"
    and "pars w2 expCube ''binsz'' = Some (PInt 1)"
    by simp_all
qed

theorem runSelect_runLTCube_assignments_witness:
  "runSelect idle_env (qA_src False) True None (world0 {}) =
     (Inr (), snd (runSelect idle_env (qA_src False) True None (world0 {}))) \<and>
   pars (snd (runSelect idle_env (qA_src False) True None (world0 {}))) filter_app ''convtype'' = Some (PInt (- 1)) \<and>
   runLTCube idle_env (qA_src False) True None (world0 {}) =
     (Inr (), snd (runLTCube idle_env (qA_src False) True None (world0 {}))) \<and>
   pars (snd (runLTCube idle_env (qA_src False) True None (world0 {}))) expCube ''dcostheta'' = Some (PFloat 0.025)"
proof -
  have s: "runSelect idle_env (qA_src False) True None (world0 {}) =
     (Inr (), snd (runSelect idle_env (qA_src False) True None (world0 {})))"
    by (simp add: eval_defs)
  have l: "runLTCube idle_env (qA_src False) True None (world0 {}) =
     (Inr (), snd (runLTCube idle_env (qA_src False) True None (world0 {})))"
    by (simp add: eval_defs)
  from runSelect_runLTCube_assignments
    [where E = idle_env and self = "qA_src False" and run = True and convtype = None
       and w = "world0 {}"
       and ?w1.0 = "snd (runSelect idle_env (qA_src False) True None (world0 {}))"
       and self' = "qA_src False" and run' = True and zmax' = None and w' = "world0 {}"
       and ?w2.0 = "snd (runLTCube idle_env (qA_src False) True None (world0 {}))"] s l
  show ?thesis by auto
qed


text \<open>
  C2. When \<^verbatim>\<open><base>.list\<close> or \<^verbatim>\<open><base>_SC.fits\<close> is missing, \<^verbatim>\<open>runAll\<close> logs the
  critical line and returns: the only new events are the two log lines, so no external
  tool is invoked, and no parameter and no file changes.
\<close>

theorem runAll_required_files_missing:
  assumes "commonConf self = Some cc" and "cc ''base'' = Some (PStr b)"
    and "b @ ''.list'' \<notin> files w \<or> b @ ''_SC.fits'' \<notin> files w"
  shows "\<exists>w'. runAll E self run w = (Inr (), w') \<and>
           trace w' = trace w @ [Log Info ''***Checking for files***'',
                                 Log Critical ''One or more needed files do not exist''] \<and>
           tools_invoked (trace w') = tools_invoked (trace w) \<and>
           pars w' = pars w \<and> files w' = files w"
  using runAll_missing [OF assms, of E run]
  by (simp add: tools_invoked_def List.map_filter_def)

theorem runAll_required_files_missing_witness:
  "commonConf (qA_src True) = Some (default_commonConfig(''base'' \<mapsto> PStr ''src'', ''binned'' \<mapsto> PBool True)) \<and>
   ''src'' @ ''.list'' \<notin> files (world0 {''src_SC.fits''}) \<and>
   (\<exists>w'. runAll idle_env (qA_src True) True (world0 {''src_SC.fits''}) = (Inr (), w') \<and>
      trace w' = [Log Info ''***Checking for files***'',
                  Log Critical ''One or more needed files do not exist''] \<and>
      tools_invoked (trace w') = [])"
proof -
  have c: "commonConf (qA_src True) =
      Some (default_commonConfig(''base'' \<mapsto> PStr ''src'', ''binned'' \<mapsto> PBool True))"
    by (simp add: qA_src_def)
  have b: "(default_commonConfig(''base'' \<mapsto> PStr ''src'', ''binned'' \<mapsto> PBool True)) ''base'' =
      Some (PStr ''src'')"
    by simp
  have n: "''src'' @ ''.list'' \<notin> files (world0 {''src_SC.fits''})"
    by (simp add: world0_def)
  then have m: "''src'' @ ''.list'' \<notin> files (world0 {''src_SC.fits''}) \<or>
      ''src'' @ ''_SC.fits'' \<notin> files (world0 {''src_SC.fits''})"
    by (rule disjI1)
  from runAll_required_files_missing [OF c b m, of idle_env True] c n show ?thesis
    by (simp add: world0_def tools_invoked_def List.map_filter_def) blast
qed

text \<open>
  C1, as stated, fails: for an object with the binned analysis selected and none of the
  required files present, \<^verbatim>\<open>runAll\<close> returns normally and has invoked no tool at all.
\<close>

theorem runAll_sequence_counterexample:
  "fst (runAll idle_env (qA_src True) True (world0 {})) = Inr () \<and>
   tools_invoked (trace (snd (runAll idle_env (qA_src True) True (world0 {})))) = []"
  by (simp add: eval_defs)

text \<open>
  C1, amended. When \<^verbatim>\<open><base>.list\<close> and \<^verbatim>\<open><base>_SC.fits\<close> exist and \<^verbatim>\<open>runAll\<close>,
  called with \<^verbatim>\<open>run\<close> set, returns normally, the tools it has invoked are, in this
  order, gtselect, gtmktime, gtltcube and then: for a binned analysis gtbin and
  gtexpcube2, followed by gtsrcmaps exactly when the files \<^verbatim>\<open>runSrcMaps\<close> requires
  (\<^verbatim>\<open><base>_CCUBE.fits\<close>, \<^verbatim>\<open><base>_ltcube.fits\<close>, \<^verbatim>\<open><base>_BinnedExpMap.fits\<close> and
  \<^verbatim>\<open><base>_SC.fits\<close>) exist when it checks for them; otherwise gtexpmap alone. Below,
  \<open>ws\<close> is the world in which \<^verbatim>\<open>runAll\<close> calls \<^verbatim>\<open>runSrcMaps\<close>, after the first five
  tools, and \<open>wx\<close> the world after the model step of \<^verbatim>\<open>runSrcMaps\<close>, in which the
  check is made.
\<close>

theorem runAll_fixed_sequence:
  assumes "runAll E self True w = (Inr (), w')"
    and "commonConf self = Some cc" and "cc ''base'' = Some (PStr b)"
    and "b @ ''.list'' \<in> files w" and "b @ ''_SC.fits'' \<in> files w"
  shows "\<exists>binned. cc ''binned'' = Some binned \<and>
           (if truthy binned
            then \<exists>ws wx.
                   tools_invoked (trace ws) =
                     tools_invoked (trace w) @
                     [''gtselect'', ''gtmktime'', ''gtltcube'', ''gtbin'', ''gtexpcube2''] \<and>
                   runSrcMaps E self True ws = (Inr (), w') \<and>
                   generateXMLmodel E self ws = (Inr (), wx) \<and>
                   tools_invoked (trace w') =
                     tools_invoked (trace ws) @
                     (if {b @ ''_CCUBE.fits'', b @ ''_ltcube.fits'', b @ ''_BinnedExpMap.fits'',
                          b @ ''_SC.fits''} \<subseteq> files wx
                      then [''gtsrcmaps''] else [])
            else tools_invoked (trace w') =
                   tools_invoked (trace w) @
                   [''gtselect'', ''gtmktime'', ''gtltcube'', ''gtexpmap''])"
  using runAll_present [OF assms]
  by (simp only: if_True simp_thms)

theorem runAll_fixed_sequence_witness:
  "runAll idle_env (qA_src False) True (world0 {''src.list'', ''src_SC.fits''}) =
     (Inr (), snd (runAll idle_env (qA_src False) True (world0 {''src.list'', ''src_SC.fits''}))) \<and>
   tools_invoked (trace (snd (runAll idle_env (qA_src False) True (world0 {''src.list'', ''src_SC.fits''})))) =
     [''gtselect'', ''gtmktime'', ''gtltcube'', ''gtexpmap''] \<and>
   runAll idle_env (qA_src True) True
       (world0 {''src.list'', ''src_SC.fits'', ''src_CCUBE.fits'', ''src_ltcube.fits'', ''src_BinnedExpMap.fits''}) =
     (Inr (), snd (runAll idle_env (qA_src True) True
       (world0 {''src.list'', ''src_SC.fits'', ''src_CCUBE.fits'', ''src_ltcube.fits'', ''src_BinnedExpMap.fits''}))) \<and>
   tools_invoked (trace (snd (runAll idle_env (qA_src True) True
       (world0 {''src.list'', ''src_SC.fits'', ''src_CCUBE.fits'', ''src_ltcube.fits'', ''src_BinnedExpMap.fits''})))) =
     [''gtselect'', ''gtmktime'', ''gtltcube'', ''gtbin'', ''gtexpcube2'', ''gtsrcmaps''] \<and>
   runAll idle_env (qA_src True) True (world0 {''src.list'', ''src_SC.fits''}) =
     (Inr (), snd (runAll idle_env (qA_src True) True (world0 {''src.list'', ''src_SC.fits''}))) \<and>
   tools_invoked (trace (snd (runAll idle_env (qA_src True) True (world0 {''src.list'', ''src_SC.fits''})))) =
     [''gtselect'', ''gtmktime'', ''gtltcube'', ''gtbin'', ''gtexpcube2'']"
proof -
  have cc: "commonConf (qA_src binned) =
      Some (default_commonConfig(''base'' \<mapsto> PStr ''src'', ''binned'' \<mapsto> PBool binned))" for binned
    by (simp add: qA_src_def)
  have b: "(default_commonConfig(''base'' \<mapsto> PStr ''src'', ''binned'' \<mapsto> PBool binned)) ''base'' =
      Some (PStr ''src'')" for binned
    by simp
  have r: "runAll idle_env (qA_src binned) True w =
      (Inr (), snd (runAll idle_env (qA_src binned) True w))" for binned w
    using steady_runAll by (rule steady_returns)
  have fr: "files (snd (runAll idle_env (qA_src binned) True w)) = files w" for binned w
    using steady_runAll [of binned] by (simp add: steady_def)
  have t0: "tools_invoked (trace (world0 fs)) = []" for fs
    by (simp add: world0_def tools_invoked_def List.map_filter_def)
  text \<open>The unbinned preparation.\<close>
  let ?w2 = "world0 {''src.list'', ''src_SC.fits''}"
  have f2: "''src'' @ ''.list'' \<in> files ?w2" "''src'' @ ''_SC.fits'' \<in> files ?w2"
    by (simp_all add: world0_def)
  from runAll_fixed_sequence [OF r [of False ?w2] cc [of False] b [of False] f2]
  have u: "tools_invoked (trace (snd (runAll idle_env (qA_src False) True ?w2))) =
       [''gtselect'', ''gtmktime'', ''gtltcube'', ''gtexpmap'']"
    by (simp add: t0)
  text \<open>The binned preparation, in a world that has every required file, and in one without
    the files of the binned steps.\<close>
  have binned: "tools_invoked (trace (snd (runAll idle_env (qA_src True) True (world0 fs)))) =
      [''gtselect'', ''gtmktime'', ''gtltcube'', ''gtbin'', ''gtexpcube2''] @
      (if {''src'' @ ''_CCUBE.fits'', ''src'' @ ''_ltcube.fits'', ''src'' @ ''_BinnedExpMap.fits'',
           ''src'' @ ''_SC.fits''} \<subseteq> fs then [''gtsrcmaps''] else [])"
    if f: "''src'' @ ''.list'' \<in> files (world0 fs)" "''src'' @ ''_SC.fits'' \<in> files (world0 fs)" for fs
  proof -
    let ?w' = "snd (runAll idle_env (qA_src True) True (world0 fs))"
    from runAll_fixed_sequence [OF r [of True "world0 fs"] cc [of True] b [of True] f]
    have "\<exists>ws wx.
            tools_invoked (trace ws) =
              tools_invoked (trace (world0 fs)) @
              [''gtselect'', ''gtmktime'', ''gtltcube'', ''gtbin'', ''gtexpcube2''] \<and>
            runSrcMaps idle_env (qA_src True) True ws = (Inr (), ?w') \<and>
            generateXMLmodel idle_env (qA_src True) ws = (Inr (), wx) \<and>
            tools_invoked (trace ?w') =
              tools_invoked (trace ws) @
              (if {''src'' @ ''_CCUBE.fits'', ''src'' @ ''_ltcube.fits'', ''src'' @ ''_BinnedExpMap.fits'',
                   ''src'' @ ''_SC.fits''} \<subseteq> files wx
               then [''gtsrcmaps''] else [])"
      by simp
    then obtain ws wx where
      t5: "tools_invoked (trace ws) =
             tools_invoked (trace (world0 fs)) @
             [''gtselect'', ''gtmktime'', ''gtltcube'', ''gtbin'', ''gtexpcube2'']" and
      s: "runSrcMaps idle_env (qA_src True) True ws = (Inr (), ?w')" and
      g: "generateXMLmodel idle_env (qA_src True) ws = (Inr (), wx)" and
      t6: "tools_invoked (trace ?w') =
             tools_invoked (trace ws) @
             (if {''src'' @ ''_CCUBE.fits'', ''src'' @ ''_ltcube.fits'', ''src'' @ ''_BinnedExpMap.fits'',
                  ''src'' @ ''_SC.fits''} \<subseteq> files wx
              then [''gtsrcmaps''] else [])"
      by blast
    from steadyD [OF steady_runSrcMaps s] have "files ?w' = files ws"
      by simp
    moreover from steadyD [OF steady_generateXMLmodel g] have "files wx = files ws"
      by simp
    moreover have "files ?w' = fs"
      by (simp add: fr world0_def)
    ultimately have "files wx = fs"
      by simp
    with t5 t6 show ?thesis
      by (simp only: t0 append_Nil)
  qed
  let ?w5 = "world0 {''src.list'', ''src_SC.fits'', ''src_CCUBE.fits'', ''src_ltcube.fits'', ''src_BinnedExpMap.fits''}"
  have "''src'' @ ''.list'' \<in> files ?w5" "''src'' @ ''_SC.fits'' \<in> files ?w5"
    by (simp_all add: world0_def)
  from binned [OF this]
  have b6: "tools_invoked (trace (snd (runAll idle_env (qA_src True) True ?w5))) =
      [''gtselect'', ''gtmktime'', ''gtltcube'', ''gtbin'', ''gtexpcube2'', ''gtsrcmaps'']"
    by simp
  from binned [OF f2]
  have b5: "tools_invoked (trace (snd (runAll idle_env (qA_src True) True ?w2))) =
      [''gtselect'', ''gtmktime'', ''gtltcube'', ''gtbin'', ''gtexpcube2'']"
    by simp
  from r [of False ?w2] u r [of True ?w5] b6 r [of True ?w2] b5 show ?thesis
    by (intro conjI)
qed


text \<open>
  C10. \<^verbatim>\<open>runCMAP\<close> assigns the eleven keys evfile, outfile, algorithm, nxpix, nypix,
  binsz, coordsys, xref, yref, axisrot and proj of the shared \<^verbatim>\<open>evtbin\<close> dictionary and
  nothing else: however the call ends, every other entry of \<^verbatim>\<open>evtbin\<close> and every other
  dictionary is as before, so ebinalg, emin, emax and enumbins keep their values; on a
  normal return the dictionary is the old one updated at exactly these eleven keys; and
  after a \<^verbatim>\<open>runCCUBE\<close> the energy binning that \<^verbatim>\<open>runCCUBE\<close> assigned is still there.
\<close>

theorem runCMAP_leaves_energy_binning:
  "(runCMAP E self run bin_size w = (r, w') \<longrightarrow>
      (\<forall>k. k \<notin> runCMAP_keys \<longrightarrow>
           pars w' evtbin k = pars w evtbin k) \<and>
      (\<forall>a. a \<noteq> evtbin \<longrightarrow> pars w' a = pars w a) \<and>
      pars w' evtbin ''ebinalg'' = pars w evtbin ''ebinalg'' \<and>
      pars w' evtbin ''emin'' = pars w evtbin ''emin'' \<and>
      pars w' evtbin ''emax'' = pars w evtbin ''emax'' \<and>
      pars w' evtbin ''enumbins'' = pars w evtbin ''enumbins'') \<and>
   (runCMAP E self run bin_size w = (Inr (), w') \<longrightarrow>
      (\<exists>cc ac b npix ra dec'.
          commonConf self = Some cc \<and> analysisConf self = Some ac \<and>
          cc ''base'' = Some (PStr b) \<and> ac ''ra'' = Some ra \<and> ac ''dec'' = Some dec' \<and>
          pars w' evtbin = (pars w evtbin)(
             ''evfile'' \<mapsto> PStr (b @ ''_filtered_gti.fits''),
             ''outfile'' \<mapsto> PStr (b @ ''_CMAP.fits''),
             ''algorithm'' \<mapsto> PStr ''CMAP'',
             ''nxpix'' \<mapsto> npix, ''nypix'' \<mapsto> npix,
             ''binsz'' \<mapsto> (case bin_size of None \<Rightarrow> PFloat 0.1 | Some s \<Rightarrow> s),
             ''coordsys'' \<mapsto> PStr ''CEL'',
             ''xref'' \<mapsto> ra, ''yref'' \<mapsto> dec',
             ''axisrot'' \<mapsto> PInt 0, ''proj'' \<mapsto> PStr ''AIT''))) \<and>
   (runCCUBE E self run0 bin_size0 nbins0 w0 = (Inr (), w) \<and>
    runCMAP E self run bin_size w = (r, w') \<longrightarrow>
      pars w' evtbin ''ebinalg'' = Some (PStr ''LOG'') \<and>
      pars w' evtbin ''emin'' = pars w evtbin ''emin'' \<and> pars w' evtbin ''emin'' \<noteq> None \<and>
      pars w' evtbin ''emax'' = pars w evtbin ''emax'' \<and> pars w' evtbin ''emax'' \<noteq> None \<and>
      pars w' evtbin ''enumbins'' = Some (case nbins0 of None \<Rightarrow> PInt 30 | Some n \<Rightarrow> n))"
proof -
  have frame: "pars w2 a k = pars w1 a k"
    if "runCMAP E self run bin_size w1 = (r2, w2)" and "a \<noteq> evtbin \<or> k \<notin> runCMAP_keys"
    for w1 w2 r2 a k
    using touches_onlyD [OF touches_only_runCMAP that] .
  have one: "runCMAP E self run bin_size w = (r, w') \<longrightarrow>
      (\<forall>k. k \<notin> runCMAP_keys \<longrightarrow>
           pars w' evtbin k = pars w evtbin k) \<and>
      (\<forall>a. a \<noteq> evtbin \<longrightarrow> pars w' a = pars w a) \<and>
      pars w' evtbin ''ebinalg'' = pars w evtbin ''ebinalg'' \<and>
      pars w' evtbin ''emin'' = pars w evtbin ''emin'' \<and>
      pars w' evtbin ''emax'' = pars w evtbin ''emax'' \<and>
      pars w' evtbin ''enumbins'' = pars w evtbin ''enumbins''"
  proof (intro impI conjI allI)
    assume h: "runCMAP E self run bin_size w = (r, w')"
    show "pars w' evtbin k = pars w evtbin k" if "k \<notin> runCMAP_keys" for k
      by (rule frame [OF h]) (simp add: that)
    show "pars w' a = pars w a" if "a \<noteq> evtbin" for a
      by (rule ext, rule frame [OF h]) (simp add: that)
    show "pars w' evtbin ''ebinalg'' = pars w evtbin ''ebinalg''"
      by (rule frame [OF h]) (simp add: runCMAP_keys_def)
    show "pars w' evtbin ''emin'' = pars w evtbin ''emin''"
      by (rule frame [OF h]) (simp add: runCMAP_keys_def)
    show "pars w' evtbin ''emax'' = pars w evtbin ''emax''"
      by (rule frame [OF h]) (simp add: runCMAP_keys_def)
    show "pars w' evtbin ''enumbins'' = pars w evtbin ''enumbins''"
      by (rule frame [OF h]) (simp add: runCMAP_keys_def)
  qed
  have two: "runCMAP E self run bin_size w = (Inr (), w') \<longrightarrow>
      (\<exists>cc ac b npix ra dec'.
          commonConf self = Some cc \<and> analysisConf self = Some ac \<and>
          cc ''base'' = Some (PStr b) \<and> ac ''ra'' = Some ra \<and> ac ''dec'' = Some dec' \<and>
          pars w' evtbin = (pars w evtbin)(
             ''evfile'' \<mapsto> PStr (b @ ''_filtered_gti.fits''),
             ''outfile'' \<mapsto> PStr (b @ ''_CMAP.fits''),
             ''algorithm'' \<mapsto> PStr ''CMAP'',
             ''nxpix'' \<mapsto> npix, ''nypix'' \<mapsto> npix,
             ''binsz'' \<mapsto> (case bin_size of None \<Rightarrow> PFloat 0.1 | Some s \<Rightarrow> s),
             ''coordsys'' \<mapsto> PStr ''CEL'',
             ''xref'' \<mapsto> ra, ''yref'' \<mapsto> dec',
             ''axisrot'' \<mapsto> PInt 0, ''proj'' \<mapsto> PStr ''AIT''))"
  proof
    assume "runCMAP E self run bin_size w = (Inr (), w')"
    from runCMAP_ok [OF this] show "\<exists>cc ac b npix ra dec'.
          commonConf self = Some cc \<and> analysisConf self = Some ac \<and>
          cc ''base'' = Some (PStr b) \<and> ac ''ra'' = Some ra \<and> ac ''dec'' = Some dec' \<and>
          pars w' evtbin = (pars w evtbin)(
             ''evfile'' \<mapsto> PStr (b @ ''_filtered_gti.fits''),
             ''outfile'' \<mapsto> PStr (b @ ''_CMAP.fits''),
             ''algorithm'' \<mapsto> PStr ''CMAP'',
             ''nxpix'' \<mapsto> npix, ''nypix'' \<mapsto> npix,
             ''binsz'' \<mapsto> (case bin_size of None \<Rightarrow> PFloat 0.1 | Some s \<Rightarrow> s),
             ''coordsys'' \<mapsto> PStr ''CEL'',
             ''xref'' \<mapsto> ra, ''yref'' \<mapsto> dec',
             ''axisrot'' \<mapsto> PInt 0, ''proj'' \<mapsto> PStr ''AIT'')"
      unfolding arg_or_def by blast
  qed
  have three: "runCCUBE E self run0 bin_size0 nbins0 w0 = (Inr (), w) \<and>
    runCMAP E self run bin_size w = (r, w') \<longrightarrow>
      pars w' evtbin ''ebinalg'' = Some (PStr ''LOG'') \<and>
      pars w' evtbin ''emin'' = pars w evtbin ''emin'' \<and> pars w' evtbin ''emin'' \<noteq> None \<and>
      pars w' evtbin ''emax'' = pars w evtbin ''emax'' \<and> pars w' evtbin ''emax'' \<noteq> None \<and>
      pars w' evtbin ''enumbins'' = Some (case nbins0 of None \<Rightarrow> PInt 30 | Some n \<Rightarrow> n)"
  proof
    assume h: "runCCUBE E self run0 bin_size0 nbins0 w0 = (Inr (), w) \<and>
      runCMAP E self run bin_size w = (r, w')"
    from runCCUBE_ok [OF conjunct1 [OF h]] have
      c: "pars w evtbin ''ebinalg'' = Some (PStr ''LOG'')"
         "pars w evtbin ''emin'' \<noteq> None" "pars w evtbin ''emax'' \<noteq> None"
         "pars w evtbin ''enumbins'' = Some (case nbins0 of None \<Rightarrow> PInt 30 | Some n \<Rightarrow> n)"
      by (auto simp: arg_or_def)
    from one conjunct2 [OF h] have
      "pars w' evtbin ''ebinalg'' = pars w evtbin ''ebinalg''"
      "pars w' evtbin ''emin'' = pars w evtbin ''emin''"
      "pars w' evtbin ''emax'' = pars w evtbin ''emax''"
      "pars w' evtbin ''enumbins'' = pars w evtbin ''enumbins''"
      by simp_all
    with c show "pars w' evtbin ''ebinalg'' = Some (PStr ''LOG'') \<and>
      pars w' evtbin ''emin'' = pars w evtbin ''emin'' \<and> pars w' evtbin ''emin'' \<noteq> None \<and>
      pars w' evtbin ''emax'' = pars w evtbin ''emax'' \<and> pars w' evtbin ''emax'' \<noteq> None \<and>
      pars w' evtbin ''enumbins'' = Some (case nbins0 of None \<Rightarrow> PInt 30 | Some n \<Rightarrow> n)"
      by simp
  qed
  from one two three show ?thesis
    by (intro conjI)
qed


theorem runCMAP_leaves_energy_binning_witness:
  "runCCUBE idle_env (qA_src True) True None None (world0 {}) =
     (Inr (), snd (runCCUBE idle_env (qA_src True) True None None (world0 {}))) \<and>
   runCMAP idle_env (qA_src True) True None
       (snd (runCCUBE idle_env (qA_src True) True None None (world0 {}))) =
     (Inr (), snd (runCMAP idle_env (qA_src True) True None
       (snd (runCCUBE idle_env (qA_src True) True None None (world0 {}))))) \<and>
   pars (snd (runCMAP idle_env (qA_src True) True None
       (snd (runCCUBE idle_env (qA_src True) True None None (world0 {}))))) evtbin ''ebinalg'' =
     Some (PStr ''LOG'') \<and>
   pars (snd (runCMAP idle_env (qA_src True) True None
       (snd (runCCUBE idle_env (qA_src True) True None None (world0 {}))))) evtbin ''enumbins'' =
     Some (PInt 30)"
proof -
  let ?w1 = "snd (runCCUBE idle_env (qA_src True) True None None (world0 {}))"
  let ?w2 = "snd (runCMAP idle_env (qA_src True) True None ?w1)"
  have "fst (runCCUBE idle_env (qA_src True) True None None (world0 {})) = Inr ()"
    by (simp add: eval_defs)
  then have a: "runCCUBE idle_env (qA_src True) True None None (world0 {}) = (Inr (), ?w1)"
    by (metis prod.collapse)
  have "fst (runCMAP idle_env (qA_src True) True None ?w1) = Inr ()"
    by (simp add: eval_defs)
  then have b: "runCMAP idle_env (qA_src True) True None ?w1 = (Inr (), ?w2)"
    by (metis prod.collapse)
  from runCMAP_leaves_energy_binning
    [where E = idle_env and self = "qA_src True" and run = True and bin_size = None
       and w = ?w1 and r = "Inr ()" and w' = ?w2 and ?run0.0 = True and ?bin_size0.0 = None
       and ?nbins0.0 = None and ?w0.0 = "world0 {}"] a b
  have "pars ?w2 evtbin ''ebinalg'' = Some (PStr ''LOG'') \<and>
      pars ?w2 evtbin ''enumbins'' = Some (case None of None \<Rightarrow> PInt 30 | Some n \<Rightarrow> n)"
    by blast
  with a b show ?thesis
    by simp
qed









text \<open>
  C3, as stated, fails: with none of its required files present, \<^verbatim>\<open>runSrcMaps\<close> returns
  normally, has logged the critical line and has issued no external command.
\<close>

theorem one_command_per_call_counterexample:
  "fst (runSrcMaps idle_env (qA_src True) True (world0 {})) = Inr () \<and>
   trace (snd (runSrcMaps idle_env (qA_src True) True (world0 {}))) =
     [Log Critical ''One or more needed files do not exist''] \<and>
   tools_invoked (trace (snd (runSrcMaps idle_env (qA_src True) True (world0 {})))) = []"
  by (simp add: eval_defs)

text \<open>
  C3, amended. Called with \<^verbatim>\<open>run\<close> set and returning normally, each of \<^verbatim>\<open>runSelect\<close>,
  \<^verbatim>\<open>runGTI\<close>, \<^verbatim>\<open>runLTCube\<close>, \<^verbatim>\<open>runExpMap\<close>, \<^verbatim>\<open>runCCUBE\<close> and \<^verbatim>\<open>runCMAP\<close> assigns
  parameters of its own application only and then runs that application once, with the
  parameters just assigned, and does nothing else that is observable. \<^verbatim>\<open>runExpCube\<close>
  assigns no parameter and gives one command to the shell, which it then logs.
  \<^verbatim>\<open>runSrcMaps\<close> first generates the model, which assigns nothing and runs no tool (it
  may log a critical line), and then checks for its four required files in the world
  \<open>wx\<close> the model step has left. When they all exist it assigns parameters of
  \<^verbatim>\<open>srcMaps\<close> only and runs gtsrcmaps exactly once, with the parameters just assigned,
  and does nothing else; when one is missing it logs the critical line, assigns nothing
  and runs nothing.
\<close>

theorem run_methods_one_command:
  "(runSelect E self True convtype w = (Inr (), w') \<longrightarrow>
      trace w' = trace w @ [Run filter_app (pars w' filter_app)] \<and>
      (\<forall>a. a \<noteq> filter_app \<longrightarrow> pars w' a = pars w a)) \<and>
   (runGTI E self True filterString roi w = (Inr (), w') \<longrightarrow>
      trace w' = trace w @ [Run maketime (pars w' maketime)] \<and>
      (\<forall>a. a \<noteq> maketime \<longrightarrow> pars w' a = pars w a)) \<and>
   (runLTCube E self True zmax w = (Inr (), w') \<longrightarrow>
      trace w' = trace w @ [Run expCube (pars w' expCube)] \<and>
      (\<forall>a. a \<noteq> expCube \<longrightarrow> pars w' a = pars w a)) \<and>
   (runExpMap E self True w = (Inr (), w') \<longrightarrow>
      trace w' = trace w @ [Run expMap (pars w' expMap)] \<and>
      (\<forall>a. a \<noteq> expMap \<longrightarrow> pars w' a = pars w a)) \<and>
   (runCCUBE E self True bin_size nbins w = (Inr (), w') \<longrightarrow>
      trace w' = trace w @ [Run evtbin (pars w' evtbin)] \<and>
      (\<forall>a. a \<noteq> evtbin \<longrightarrow> pars w' a = pars w a)) \<and>
   (runCMAP E self True bin_size w = (Inr (), w') \<longrightarrow>
      trace w' = trace w @ [Run evtbin (pars w' evtbin)] \<and>
      (\<forall>a. a \<noteq> evtbin \<longrightarrow> pars w' a = pars w a)) \<and>
   (runExpCube E self True bin_size nbins w = (Inr (), w') \<longrightarrow>
      pars w' = pars w \<and> (\<exists>c. trace w' = trace w @ [System c, Log Info c]) \<and>
      tools_invoked (trace w') = tools_invoked (trace w) @ [''gtexpcube2'']) \<and>
   (runSrcMaps E self True w = (Inr (), w') \<longrightarrow>
      (\<exists>wx cc b.
         generateXMLmodel E self w = (Inr (), wx) \<and>
         pars wx = pars w \<and>
         (trace wx = trace w \<or>
          trace wx = trace w @ [Log Critical ''One or more needed files do not exist'']) \<and>
         commonConf self = Some cc \<and> cc ''base'' = Some (PStr b) \<and>
         (if {b @ ''_CCUBE.fits'', b @ ''_ltcube.fits'', b @ ''_BinnedExpMap.fits'', b @ ''_SC.fits''}
               \<subseteq> files wx
          then trace w' = trace wx @ [Run srcMaps (pars w' srcMaps)] \<and>
               (\<forall>a. a \<noteq> srcMaps \<longrightarrow> pars w' a = pars w a) \<and>
               tools_invoked (trace w') = tools_invoked (trace w) @ [''gtsrcmaps'']
          else trace w' = trace wx @ [Log Critical ''One or more needed files do not exist''] \<and>
               pars w' = pars w \<and>
               tools_invoked (trace w') = tools_invoked (trace w))))"
proof (intro conjI impI)
  assume h: "runSelect E self True convtype w = (Inr (), w')"
  from runSelect_ok [OF h]
  show "trace w' = trace w @ [Run filter_app (pars w' filter_app)]"
    and "\<forall>a. a \<noteq> filter_app \<longrightarrow> pars w' a = pars w a"
    by (clarsimp simp: command_event_def)+
next
  assume h: "runGTI E self True filterString roi w = (Inr (), w')"
  from runGTI_ok [OF h]
  show "trace w' = trace w @ [Run maketime (pars w' maketime)]"
    and "\<forall>a. a \<noteq> maketime \<longrightarrow> pars w' a = pars w a"
    by (clarsimp simp: command_event_def)+
next
  assume h: "runLTCube E self True zmax w = (Inr (), w')"
  from runLTCube_ok [OF h]
  show "trace w' = trace w @ [Run expCube (pars w' expCube)]"
    and "\<forall>a. a \<noteq> expCube \<longrightarrow> pars w' a = pars w a"
    by (clarsimp simp: command_event_def)+
next
  assume h: "runExpMap E self True w = (Inr (), w')"
  from runExpMap_ok [OF h]
  show "trace w' = trace w @ [Run expMap (pars w' expMap)]"
    and "\<forall>a. a \<noteq> expMap \<longrightarrow> pars w' a = pars w a"
    by (clarsimp simp: command_event_def)+
next
  assume h: "runCCUBE E self True bin_size nbins w = (Inr (), w')"
  from runCCUBE_ok [OF h]
  show "trace w' = trace w @ [Run evtbin (pars w' evtbin)]"
    and "\<forall>a. a \<noteq> evtbin \<longrightarrow> pars w' a = pars w a"
    by (clarsimp simp: command_event_def)+
next
  assume h: "runCMAP E self True bin_size w = (Inr (), w')"
  from runCMAP_ok [OF h]
  show "trace w' = trace w @ [Run evtbin (pars w' evtbin)]"
    and "\<forall>a. a \<noteq> evtbin \<longrightarrow> pars w' a = pars w a"
    by (clarsimp simp: command_event_def)+
next
  assume h: "runExpCube E self True bin_size nbins w = (Inr (), w')"
  from runExpCube_ok [OF h]
  show "pars w' = pars w" and "\<exists>c. trace w' = trace w @ [System c, Log Info c]"
    by auto
  from runExpCube_tools [OF h]
  show "tools_invoked (trace w') = tools_invoked (trace w) @ [''gtexpcube2'']"
    by simp
next
  assume h: "runSrcMaps E self True w = (Inr (), w')"
  from runSrcMaps_ok [OF h] obtain wx cc b where
    g: "generateXMLmodel E self w = (Inr (), wx)" and
    c: "commonConf self = Some cc" "cc ''base'' = Some (PStr b)" and
    r: "if {b @ ''_CCUBE.fits'', b @ ''_ltcube.fits'', b @ ''_BinnedExpMap.fits'', b @ ''_SC.fits''}
                 \<subseteq> files wx
        then (\<forall>a. a \<noteq> srcMaps \<longrightarrow> pars w' a = pars w a) \<and>
             trace w' = trace wx @ [command_event srcMaps True (pars w' srcMaps)]
        else w' = wx\<lparr>trace := trace wx @ [Log Critical ''One or more needed files do not exist'']\<rparr>"
    by (metis (no_types, lifting))
  from generateXMLmodel_frame [OF g] have px: "pars wx = pars w"
    and tr: "trace wx = trace w \<or>
             trace wx = trace w @ [Log Critical ''One or more needed files do not exist'']"
    by blast+
  from tr have tx: "tools_invoked (trace wx) = tools_invoked (trace w)"
    by (auto simp: tools_invoked_append tools_invoked_Log)
  have "if {b @ ''_CCUBE.fits'', b @ ''_ltcube.fits'', b @ ''_BinnedExpMap.fits'', b @ ''_SC.fits''}
               \<subseteq> files wx
        then trace w' = trace wx @ [Run srcMaps (pars w' srcMaps)] \<and>
             (\<forall>a. a \<noteq> srcMaps \<longrightarrow> pars w' a = pars w a) \<and>
             tools_invoked (trace w') = tools_invoked (trace w) @ [''gtsrcmaps'']
        else trace w' = trace wx @ [Log Critical ''One or more needed files do not exist''] \<and>
             pars w' = pars w \<and>
             tools_invoked (trace w') = tools_invoked (trace w)"
  proof (cases "{b @ ''_CCUBE.fits'', b @ ''_ltcube.fits'', b @ ''_BinnedExpMap.fits'', b @ ''_SC.fits''}
                 \<subseteq> files wx")
    case True
    with r have q: "(\<forall>a. a \<noteq> srcMaps \<longrightarrow> pars w' a = pars w a) \<and>
             trace w' = trace wx @ [command_event srcMaps True (pars w' srcMaps)]"
      by (simp only: if_True simp_thms) blast
    then have "trace w' = trace wx @ [Run srcMaps (pars w' srcMaps)]"
      by (simp add: command_event_def)
    moreover from q tx have "tools_invoked (trace w') = tools_invoked (trace w) @ [''gtsrcmaps'']"
      by (simp add: tools_invoked_append tools_invoked_command)
    ultimately have "trace w' = trace wx @ [Run srcMaps (pars w' srcMaps)] \<and>
             (\<forall>a. a \<noteq> srcMaps \<longrightarrow> pars w' a = pars w a) \<and>
             tools_invoked (trace w') = tools_invoked (trace w) @ [''gtsrcmaps'']"
      using q by blast
    then show ?thesis
      by (rule iffD2 [OF if_P [OF True]])
  next
    case False
    with r have "w' = wx\<lparr>trace := trace wx @ [Log Critical ''One or more needed files do not exist'']\<rparr>"
      by (simp only: if_False)
    with px tx have "trace w' = trace wx @ [Log Critical ''One or more needed files do not exist''] \<and>
             pars w' = pars w \<and>
             tools_invoked (trace w') = tools_invoked (trace w)"
      by (simp add: tools_invoked_append tools_invoked_Log)
    then show ?thesis
      by (rule iffD2 [OF if_not_P [OF False]])
  qed
  with g px tr c show "\<exists>wx cc b.
         generateXMLmodel E self w = (Inr (), wx) \<and>
         pars wx = pars w \<and>
         (trace wx = trace w \<or>
          trace wx = trace w @ [Log Critical ''One or more needed files do not exist'']) \<and>
         commonConf self = Some cc \<and> cc ''base'' = Some (PStr b) \<and>
         (if {b @ ''_CCUBE.fits'', b @ ''_ltcube.fits'', b @ ''_BinnedExpMap.fits'', b @ ''_SC.fits''}
               \<subseteq> files wx
          then trace w' = trace wx @ [Run srcMaps (pars w' srcMaps)] \<and>
               (\<forall>a. a \<noteq> srcMaps \<longrightarrow> pars w' a = pars w a) \<and>
               tools_invoked (trace w') = tools_invoked (trace w) @ [''gtsrcmaps'']
          else trace w' = trace wx @ [Log Critical ''One or more needed files do not exist''] \<and>
               pars w' = pars w \<and>
               tools_invoked (trace w') = tools_invoked (trace w))"
    by (intro exI [where x = wx] exI [where x = cc] exI [where x = b] conjI)
qed

theorem run_methods_one_command_witness:
  "runSelect idle_env (qA_src True) True None (world0 {''src_CCUBE.fits'', ''src_ltcube.fits'', ''src_BinnedExpMap.fits'', ''src_SC.fits''}) =
     (Inr (), snd (runSelect idle_env (qA_src True) True None (world0 {''src_CCUBE.fits'', ''src_ltcube.fits'', ''src_BinnedExpMap.fits'', ''src_SC.fits''}))) \<and>
   trace (snd (runSelect idle_env (qA_src True) True None (world0 {''src_CCUBE.fits'', ''src_ltcube.fits'', ''src_BinnedExpMap.fits'', ''src_SC.fits''}))) = trace (world0 {''src_CCUBE.fits'', ''src_ltcube.fits'', ''src_BinnedExpMap.fits'', ''src_SC.fits''}) @ [Run filter_app (pars (snd (runSelect idle_env (qA_src True) True None (world0 {''src_CCUBE.fits'', ''src_ltcube.fits'', ''src_BinnedExpMap.fits'', ''src_SC.fits''}))) filter_app)] \<and>
   pars (snd (runSelect idle_env (qA_src True) True None (world0 {''src_CCUBE.fits'', ''src_ltcube.fits'', ''src_BinnedExpMap.fits'', ''src_SC.fits''}))) srcMaps = pars (world0 {''src_CCUBE.fits'', ''src_ltcube.fits'', ''src_BinnedExpMap.fits'', ''src_SC.fits''}) srcMaps \<and>
   runGTI idle_env (qA_src True) True None None (world0 {''src_CCUBE.fits'', ''src_ltcube.fits'', ''src_BinnedExpMap.fits'', ''src_SC.fits''}) =
     (Inr (), snd (runGTI idle_env (qA_src True) True None None (world0 {''src_CCUBE.fits'', ''src_ltcube.fits'', ''src_BinnedExpMap.fits'', ''src_SC.fits''}))) \<and>
   trace (snd (runGTI idle_env (qA_src True) True None None (world0 {''src_CCUBE.fits'', ''src_ltcube.fits'', ''src_BinnedExpMap.fits'', ''src_SC.fits''}))) = trace (world0 {''src_CCUBE.fits'', ''src_ltcube.fits'', ''src_BinnedExpMap.fits'', ''src_SC.fits''}) @ [Run maketime (pars (snd (runGTI idle_env (qA_src True) True None None (world0 {''src_CCUBE.fits'', ''src_ltcube.fits'', ''src_BinnedExpMap.fits'', ''src_SC.fits''}))) maketime)] \<and>
   pars (snd (runGTI idle_env (qA_src True) True None None (world0 {''src_CCUBE.fits'', ''src_ltcube.fits'', ''src_BinnedExpMap.fits'', ''src_SC.fits''}))) srcMaps = pars (world0 {''src_CCUBE.fits'', ''src_ltcube.fits'', ''src_BinnedExpMap.fits'', ''src_SC.fits''}) srcMaps \<and>
   runLTCube idle_env (qA_src True) True None (world0 {''src_CCUBE.fits'', ''src_ltcube.fits'', ''src_BinnedExpMap.fits'', ''src_SC.fits''}) =
     (Inr (), snd (runLTCube idle_env (qA_src True) True None (world0 {''src_CCUBE.fits'', ''src_ltcube.fits'', ''src_BinnedExpMap.fits'', ''src_SC.fits''}))) \<and>
   trace (snd (runLTCube idle_env (qA_src True) True None (world0 {''src_CCUBE.fits'', ''src_ltcube.fits'', ''src_BinnedExpMap.fits'', ''src_SC.fits''}))) = trace (world0 {''src_CCUBE.fits'', ''src_ltcube.fits'', ''src_BinnedExpMap.fits'', ''src_SC.fits''}) @ [Run expCube (pars (snd (runLTCube idle_env (qA_src True) True None (world0 {''src_CCUBE.fits'', ''src_ltcube.fits'', ''src_BinnedExpMap.fits'', ''src_SC.fits''}))) expCube)] \<and>
   pars (snd (runLTCube idle_env (qA_src True) True None (world0 {''src_CCUBE.fits'', ''src_ltcube.fits'', ''src_BinnedExpMap.fits'', ''src_SC.fits''}))) srcMaps = pars (world0 {''src_CCUBE.fits'', ''src_ltcube.fits'', ''src_BinnedExpMap.fits'', ''src_SC.fits''}) srcMaps \<and>
   runExpMap idle_env (qA_src True) True (world0 {''src_CCUBE.fits'', ''src_ltcube.fits'', ''src_BinnedExpMap.fits'', ''src_SC.fits''}) =
     (Inr (), snd (runExpMap idle_env (qA_src True) True (world0 {''src_CCUBE.fits'', ''src_ltcube.fits'', ''src_BinnedExpMap.fits'', ''src_SC.fits''}))) \<and>
   trace (snd (runExpMap idle_env (qA_src True) True (world0 {''src_CCUBE.fits'', ''src_ltcube.fits'', ''src_BinnedExpMap.fits'', ''src_SC.fits''}))) = trace (world0 {''src_CCUBE.fits'', ''src_ltcube.fits'', ''src_BinnedExpMap.fits'', ''src_SC.fits''}) @ [Run expMap (pars (snd (runExpMap idle_env (qA_src True) True (world0 {''src_CCUBE.fits'', ''src_ltcube.fits'', ''src_BinnedExpMap.fits'', ''src_SC.fits''}))) expMap)] \<and>
   pars (snd (runExpMap idle_env (qA_src True) True (world0 {''src_CCUBE.fits'', ''src_ltcube.fits'', ''src_BinnedExpMap.fits'', ''src_SC.fits''}))) srcMaps = pars (world0 {''src_CCUBE.fits'', ''src_ltcube.fits'', ''src_BinnedExpMap.fits'', ''src_SC.fits''}) srcMaps \<and>
   runCCUBE idle_env (qA_src True) True None None (world0 {''src_CCUBE.fits'', ''src_ltcube.fits'', ''src_BinnedExpMap.fits'', ''src_SC.fits''}) =
     (Inr (), snd (runCCUBE idle_env (qA_src True) True None None (world0 {''src_CCUBE.fits'', ''src_ltcube.fits'', ''src_BinnedExpMap.fits'', ''src_SC.fits''}))) \<and>
   trace (snd (runCCUBE idle_env (qA_src True) True None None (world0 {''src_CCUBE.fits'', ''src_ltcube.fits'', ''src_BinnedExpMap.fits'', ''src_SC.fits''}))) = trace (world0 {''src_CCUBE.fits'', ''src_ltcube.fits'', ''src_BinnedExpMap.fits'', ''src_SC.fits''}) @ [Run evtbin (pars (snd (runCCUBE idle_env (qA_src True) True None None (world0 {''src_CCUBE.fits'', ''src_ltcube.fits'', ''src_BinnedExpMap.fits'', ''src_SC.fits''}))) evtbin)] \<and>
   pars (snd (runCCUBE idle_env (qA_src True) True None None (world0 {''src_CCUBE.fits'', ''src_ltcube.fits'', ''src_BinnedExpMap.fits'', ''src_SC.fits''}))) srcMaps = pars (world0 {''src_CCUBE.fits'', ''src_ltcube.fits'', ''src_BinnedExpMap.fits'', ''src_SC.fits''}) srcMaps \<and>
   runCMAP idle_env (qA_src True) True None (world0 {''src_CCUBE.fits'', ''src_ltcube.fits'', ''src_BinnedExpMap.fits'', ''src_SC.fits''}) =
     (Inr (), snd (runCMAP idle_env (qA_src True) True None (world0 {''src_CCUBE.fits'', ''src_ltcube.fits'', ''src_BinnedExpMap.fits'', ''src_SC.fits''}))) \<and>
   trace (snd (runCMAP idle_env (qA_src True) True None (world0 {''src_CCUBE.fits'', ''src_ltcube.fits'', ''src_BinnedExpMap.fits'', ''src_SC.fits''}))) = trace (world0 {''src_CCUBE.fits'', ''src_ltcube.fits'', ''src_BinnedExpMap.fits'', ''src_SC.fits''}) @ [Run evtbin (pars (snd (runCMAP idle_env (qA_src True) True None (world0 {''src_CCUBE.fits'', ''src_ltcube.fits'', ''src_BinnedExpMap.fits'', ''src_SC.fits''}))) evtbin)] \<and>
   pars (snd (runCMAP idle_env (qA_src True) True None (world0 {''src_CCUBE.fits'', ''src_ltcube.fits'', ''src_BinnedExpMap.fits'', ''src_SC.fits''}))) srcMaps = pars (world0 {''src_CCUBE.fits'', ''src_ltcube.fits'', ''src_BinnedExpMap.fits'', ''src_SC.fits''}) srcMaps \<and>
   runExpCube idle_env (qA_src True) True None None (world0 {''src_CCUBE.fits'', ''src_ltcube.fits'', ''src_BinnedExpMap.fits'', ''src_SC.fits''}) =
     (Inr (), snd (runExpCube idle_env (qA_src True) True None None (world0 {''src_CCUBE.fits'', ''src_ltcube.fits'', ''src_BinnedExpMap.fits'', ''src_SC.fits''}))) \<and>
   pars (snd (runExpCube idle_env (qA_src True) True None None (world0 {''src_CCUBE.fits'', ''src_ltcube.fits'', ''src_BinnedExpMap.fits'', ''src_SC.fits''}))) = pars (world0 {''src_CCUBE.fits'', ''src_ltcube.fits'', ''src_BinnedExpMap.fits'', ''src_SC.fits''}) \<and>
   tools_invoked (trace (snd (runExpCube idle_env (qA_src True) True None None (world0 {''src_CCUBE.fits'', ''src_ltcube.fits'', ''src_BinnedExpMap.fits'', ''src_SC.fits''})))) = tools_invoked (trace (world0 {''src_CCUBE.fits'', ''src_ltcube.fits'', ''src_BinnedExpMap.fits'', ''src_SC.fits''})) @ [''gtexpcube2''] \<and>
   runSrcMaps idle_env (qA_src True) True (world0 {''src_CCUBE.fits'', ''src_ltcube.fits'', ''src_BinnedExpMap.fits'', ''src_SC.fits''}) =
     (Inr (), snd (runSrcMaps idle_env (qA_src True) True (world0 {''src_CCUBE.fits'', ''src_ltcube.fits'', ''src_BinnedExpMap.fits'', ''src_SC.fits''}))) \<and>
   trace (snd (runSrcMaps idle_env (qA_src True) True (world0 {''src_CCUBE.fits'', ''src_ltcube.fits'', ''src_BinnedExpMap.fits'', ''src_SC.fits''}))) = trace (world0 {''src_CCUBE.fits'', ''src_ltcube.fits'', ''src_BinnedExpMap.fits'', ''src_SC.fits''}) @ [Run srcMaps (pars (snd (runSrcMaps idle_env (qA_src True) True (world0 {''src_CCUBE.fits'', ''src_ltcube.fits'', ''src_BinnedExpMap.fits'', ''src_SC.fits''}))) srcMaps)] \<and>
   pars (snd (runSrcMaps idle_env (qA_src True) True (world0 {''src_CCUBE.fits'', ''src_ltcube.fits'', ''src_BinnedExpMap.fits'', ''src_SC.fits''}))) evtbin = pars (world0 {''src_CCUBE.fits'', ''src_ltcube.fits'', ''src_BinnedExpMap.fits'', ''src_SC.fits''}) evtbin \<and>
   tools_invoked (trace (snd (runSrcMaps idle_env (qA_src True) True (world0 {''src_CCUBE.fits'', ''src_ltcube.fits'', ''src_BinnedExpMap.fits'', ''src_SC.fits''})))) = tools_invoked (trace (world0 {''src_CCUBE.fits'', ''src_ltcube.fits'', ''src_BinnedExpMap.fits'', ''src_SC.fits''})) @ [''gtsrcmaps''] \<and>
   runSrcMaps idle_env (qA_src True) True (world0 {}) =
     (Inr (), snd (runSrcMaps idle_env (qA_src True) True (world0 {}))) \<and>
   trace (snd (runSrcMaps idle_env (qA_src True) True (world0 {}))) = trace (world0 {}) @ [Log Critical ''One or more needed files do not exist''] \<and>
   pars (snd (runSrcMaps idle_env (qA_src True) True (world0 {}))) = pars (world0 {}) \<and>
   tools_invoked (trace (snd (runSrcMaps idle_env (qA_src True) True (world0 {})))) = tools_invoked (trace (world0 {}))"
proof -
  note T = run_methods_one_command [where E = idle_env and self = "qA_src True" and w = "world0 {''src_CCUBE.fits'', ''src_ltcube.fits'', ''src_BinnedExpMap.fits'', ''src_SC.fits''}"]
  have "fst (runSelect idle_env (qA_src True) True None (world0 {''src_CCUBE.fits'', ''src_ltcube.fits'', ''src_BinnedExpMap.fits'', ''src_SC.fits''})) = Inr ()"
    by (simp add: eval_defs)
  then have r_sel: "runSelect idle_env (qA_src True) True None (world0 {''src_CCUBE.fits'', ''src_ltcube.fits'', ''src_BinnedExpMap.fits'', ''src_SC.fits''}) =
      (Inr (), snd (runSelect idle_env (qA_src True) True None (world0 {''src_CCUBE.fits'', ''src_ltcube.fits'', ''src_BinnedExpMap.fits'', ''src_SC.fits''})))"
    by (rule returnsI)
  from T [where w' = "snd (runSelect idle_env (qA_src True) True None (world0 {''src_CCUBE.fits'', ''src_ltcube.fits'', ''src_BinnedExpMap.fits'', ''src_SC.fits''}))" and convtype = None] r_sel
  have p_sel: "trace (snd (runSelect idle_env (qA_src True) True None (world0 {''src_CCUBE.fits'', ''src_ltcube.fits'', ''src_BinnedExpMap.fits'', ''src_SC.fits''}))) = trace (world0 {''src_CCUBE.fits'', ''src_ltcube.fits'', ''src_BinnedExpMap.fits'', ''src_SC.fits''}) @ [Run filter_app (pars (snd (runSelect idle_env (qA_src True) True None (world0 {''src_CCUBE.fits'', ''src_ltcube.fits'', ''src_BinnedExpMap.fits'', ''src_SC.fits''}))) filter_app)] \<and>
      (\<forall>a. a \<noteq> filter_app \<longrightarrow> pars (snd (runSelect idle_env (qA_src True) True None (world0 {''src_CCUBE.fits'', ''src_ltcube.fits'', ''src_BinnedExpMap.fits'', ''src_SC.fits''}))) a = pars (world0 {''src_CCUBE.fits'', ''src_ltcube.fits'', ''src_BinnedExpMap.fits'', ''src_SC.fits''}) a)"
    by blast
  from p_sel have q_sel: "trace (snd (runSelect idle_env (qA_src True) True None (world0 {''src_CCUBE.fits'', ''src_ltcube.fits'', ''src_BinnedExpMap.fits'', ''src_SC.fits''}))) = trace (world0 {''src_CCUBE.fits'', ''src_ltcube.fits'', ''src_BinnedExpMap.fits'', ''src_SC.fits''}) @ [Run filter_app (pars (snd (runSelect idle_env (qA_src True) True None (world0 {''src_CCUBE.fits'', ''src_ltcube.fits'', ''src_BinnedExpMap.fits'', ''src_SC.fits''}))) filter_app)]"
    by blast
  have "srcMaps \<noteq> filter_app"
    by simp
  with p_sel have f_sel: "pars (snd (runSelect idle_env (qA_src True) True None (world0 {''src_CCUBE.fits'', ''src_ltcube.fits'', ''src_BinnedExpMap.fits'', ''src_SC.fits''}))) srcMaps = pars (world0 {''src_CCUBE.fits'', ''src_ltcube.fits'', ''src_BinnedExpMap.fits'', ''src_SC.fits''}) srcMaps"
    by blast
  have "fst (runGTI idle_env (qA_src True) True None None (world0 {''src_CCUBE.fits'', ''src_ltcube.fits'', ''src_BinnedExpMap.fits'', ''src_SC.fits''})) = Inr ()"
    by (simp add: eval_defs)
  then have r_gti: "runGTI idle_env (qA_src True) True None None (world0 {''src_CCUBE.fits'', ''src_ltcube.fits'', ''src_BinnedExpMap.fits'', ''src_SC.fits''}) =
      (Inr (), snd (runGTI idle_env (qA_src True) True None None (world0 {''src_CCUBE.fits'', ''src_ltcube.fits'', ''src_BinnedExpMap.fits'', ''src_SC.fits''})))"
    by (rule returnsI)
  from T [where w' = "snd (runGTI idle_env (qA_src True) True None None (world0 {''src_CCUBE.fits'', ''src_ltcube.fits'', ''src_BinnedExpMap.fits'', ''src_SC.fits''}))" and filterString = None and roi = None] r_gti
  have p_gti: "trace (snd (runGTI idle_env (qA_src True) True None None (world0 {''src_CCUBE.fits'', ''src_ltcube.fits'', ''src_BinnedExpMap.fits'', ''src_SC.fits''}))) = trace (world0 {''src_CCUBE.fits'', ''src_ltcube.fits'', ''src_BinnedExpMap.fits'', ''src_SC.fits''}) @ [Run maketime (pars (snd (runGTI idle_env (qA_src True) True None None (world0 {''src_CCUBE.fits'', ''src_ltcube.fits'', ''src_BinnedExpMap.fits'', ''src_SC.fits''}))) maketime)] \<and>
      (\<forall>a. a \<noteq> maketime \<longrightarrow> pars (snd (runGTI idle_env (qA_src True) True None None (world0 {''src_CCUBE.fits'', ''src_ltcube.fits'', ''src_BinnedExpMap.fits'', ''src_SC.fits''}))) a = pars (world0 {''src_CCUBE.fits'', ''src_ltcube.fits'', ''src_BinnedExpMap.fits'', ''src_SC.fits''}) a)"
    by blast
  from p_gti have q_gti: "trace (snd (runGTI idle_env (qA_src True) True None None (world0 {''src_CCUBE.fits'', ''src_ltcube.fits'', ''src_BinnedExpMap.fits'', ''src_SC.fits''}))) = trace (world0 {''src_CCUBE.fits'', ''src_ltcube.fits'', ''src_BinnedExpMap.fits'', ''src_SC.fits''}) @ [Run maketime (pars (snd (runGTI idle_env (qA_src True) True None None (world0 {''src_CCUBE.fits'', ''src_ltcube.fits'', ''src_BinnedExpMap.fits'', ''src_SC.fits''}))) maketime)]"
    by blast
  have "srcMaps \<noteq> maketime"
    by simp
  with p_gti have f_gti: "pars (snd (runGTI idle_env (qA_src True) True None None (world0 {''src_CCUBE.fits'', ''src_ltcube.fits'', ''src_BinnedExpMap.fits'', ''src_SC.fits''}))) srcMaps = pars (world0 {''src_CCUBE.fits'', ''src_ltcube.fits'', ''src_BinnedExpMap.fits'', ''src_SC.fits''}) srcMaps"
    by blast
  have "fst (runLTCube idle_env (qA_src True) True None (world0 {''src_CCUBE.fits'', ''src_ltcube.fits'', ''src_BinnedExpMap.fits'', ''src_SC.fits''})) = Inr ()"
    by (simp add: eval_defs)
  then have r_lt: "runLTCube idle_env (qA_src True) True None (world0 {''src_CCUBE.fits'', ''src_ltcube.fits'', ''src_BinnedExpMap.fits'', ''src_SC.fits''}) =
      (Inr (), snd (runLTCube idle_env (qA_src True) True None (world0 {''src_CCUBE.fits'', ''src_ltcube.fits'', ''src_BinnedExpMap.fits'', ''src_SC.fits''})))"
    by (rule returnsI)
  from T [where w' = "snd (runLTCube idle_env (qA_src True) True None (world0 {''src_CCUBE.fits'', ''src_ltcube.fits'', ''src_BinnedExpMap.fits'', ''src_SC.fits''}))" and zmax = None] r_lt
  have p_lt: "trace (snd (runLTCube idle_env (qA_src True) True None (world0 {''src_CCUBE.fits'', ''src_ltcube.fits'', ''src_BinnedExpMap.fits'', ''src_SC.fits''}))) = trace (world0 {''src_CCUBE.fits'', ''src_ltcube.fits'', ''src_BinnedExpMap.fits'', ''src_SC.fits''}) @ [Run expCube (pars (snd (runLTCube idle_env (qA_src True) True None (world0 {''src_CCUBE.fits'', ''src_ltcube.fits'', ''src_BinnedExpMap.fits'', ''src_SC.fits''}))) expCube)] \<and>
      (\<forall>a. a \<noteq> expCube \<longrightarrow> pars (snd (runLTCube idle_env (qA_src True) True None (world0 {''src_CCUBE.fits'', ''src_ltcube.fits'', ''src_BinnedExpMap.fits'', ''src_SC.fits''}))) a = pars (world0 {''src_CCUBE.fits'', ''src_ltcube.fits'', ''src_BinnedExpMap.fits'', ''src_SC.fits''}) a)"
    by blast
  from p_lt have q_lt: "trace (snd (runLTCube idle_env (qA_src True) True None (world0 {''src_CCUBE.fits'', ''src_ltcube.fits'', ''src_BinnedExpMap.fits'', ''src_SC.fits''}))) = trace (world0 {''src_CCUBE.fits'', ''src_ltcube.fits'', ''src_BinnedExpMap.fits'', ''src_SC.fits''}) @ [Run expCube (pars (snd (runLTCube idle_env (qA_src True) True None (world0 {''src_CCUBE.fits'', ''src_ltcube.fits'', ''src_BinnedExpMap.fits'', ''src_SC.fits''}))) expCube)]"
    by blast
  have "srcMaps \<noteq> expCube"
    by simp
  with p_lt have f_lt: "pars (snd (runLTCube idle_env (qA_src True) True None (world0 {''src_CCUBE.fits'', ''src_ltcube.fits'', ''src_BinnedExpMap.fits'', ''src_SC.fits''}))) srcMaps = pars (world0 {''src_CCUBE.fits'', ''src_ltcube.fits'', ''src_BinnedExpMap.fits'', ''src_SC.fits''}) srcMaps"
    by blast
  have "fst (runExpMap idle_env (qA_src True) True (world0 {''src_CCUBE.fits'', ''src_ltcube.fits'', ''src_BinnedExpMap.fits'', ''src_SC.fits''})) = Inr ()"
    by (simp add: eval_defs)
  then have r_em: "runExpMap idle_env (qA_src True) True (world0 {''src_CCUBE.fits'', ''src_ltcube.fits'', ''src_BinnedExpMap.fits'', ''src_SC.fits''}) =
      (Inr (), snd (runExpMap idle_env (qA_src True) True (world0 {''src_CCUBE.fits'', ''src_ltcube.fits'', ''src_BinnedExpMap.fits'', ''src_SC.fits''})))"
    by (rule returnsI)
  from T [where w' = "snd (runExpMap idle_env (qA_src True) True (world0 {''src_CCUBE.fits'', ''src_ltcube.fits'', ''src_BinnedExpMap.fits'', ''src_SC.fits''}))"] r_em
  have p_em: "trace (snd (runExpMap idle_env (qA_src True) True (world0 {''src_CCUBE.fits'', ''src_ltcube.fits'', ''src_BinnedExpMap.fits'', ''src_SC.fits''}))) = trace (world0 {''src_CCUBE.fits'', ''src_ltcube.fits'', ''src_BinnedExpMap.fits'', ''src_SC.fits''}) @ [Run expMap (pars (snd (runExpMap idle_env (qA_src True) True (world0 {''src_CCUBE.fits'', ''src_ltcube.fits'', ''src_BinnedExpMap.fits'', ''src_SC.fits''}))) expMap)] \<and>
      (\<forall>a. a \<noteq> expMap \<longrightarrow> pars (snd (runExpMap idle_env (qA_src True) True (world0 {''src_CCUBE.fits'', ''src_ltcube.fits'', ''src_BinnedExpMap.fits'', ''src_SC.fits''}))) a = pars (world0 {''src_CCUBE.fits'', ''src_ltcube.fits'', ''src_BinnedExpMap.fits'', ''src_SC.fits''}) a)"
    by blast
  from p_em have q_em: "trace (snd (runExpMap idle_env (qA_src True) True (world0 {''src_CCUBE.fits'', ''src_ltcube.fits'', ''src_BinnedExpMap.fits'', ''src_SC.fits''}))) = trace (world0 {''src_CCUBE.fits'', ''src_ltcube.fits'', ''src_BinnedExpMap.fits'', ''src_SC.fits''}) @ [Run expMap (pars (snd (runExpMap idle_env (qA_src True) True (world0 {''src_CCUBE.fits'', ''src_ltcube.fits'', ''src_BinnedExpMap.fits'', ''src_SC.fits''}))) expMap)]"
    by blast
  have "srcMaps \<noteq> expMap"
    by simp
  with p_em have f_em: "pars (snd (runExpMap idle_env (qA_src True) True (world0 {''src_CCUBE.fits'', ''src_ltcube.fits'', ''src_BinnedExpMap.fits'', ''src_SC.fits''}))) srcMaps = pars (world0 {''src_CCUBE.fits'', ''src_ltcube.fits'', ''src_BinnedExpMap.fits'', ''src_SC.fits''}) srcMaps"
    by blast
  have "fst (runCCUBE idle_env (qA_src True) True None None (world0 {''src_CCUBE.fits'', ''src_ltcube.fits'', ''src_BinnedExpMap.fits'', ''src_SC.fits''})) = Inr ()"
    by (simp add: eval_defs)
  then have r_cc: "runCCUBE idle_env (qA_src True) True None None (world0 {''src_CCUBE.fits'', ''src_ltcube.fits'', ''src_BinnedExpMap.fits'', ''src_SC.fits''}) =
      (Inr (), snd (runCCUBE idle_env (qA_src True) True None None (world0 {''src_CCUBE.fits'', ''src_ltcube.fits'', ''src_BinnedExpMap.fits'', ''src_SC.fits''})))"
    by (rule returnsI)
  from T [where w' = "snd (runCCUBE idle_env (qA_src True) True None None (world0 {''src_CCUBE.fits'', ''src_ltcube.fits'', ''src_BinnedExpMap.fits'', ''src_SC.fits''}))" and bin_size = None and nbins = None] r_cc
  have p_cc: "trace (snd (runCCUBE idle_env (qA_src True) True None None (world0 {''src_CCUBE.fits'', ''src_ltcube.fits'', ''src_BinnedExpMap.fits'', ''src_SC.fits''}))) = trace (world0 {''src_CCUBE.fits'', ''src_ltcube.fits'', ''src_BinnedExpMap.fits'', ''src_SC.fits''}) @ [Run evtbin (pars (snd (runCCUBE idle_env (qA_src True) True None None (world0 {''src_CCUBE.fits'', ''src_ltcube.fits'', ''src_BinnedExpMap.fits'', ''src_SC.fits''}))) evtbin)] \<and>
      (\<forall>a. a \<noteq> evtbin \<longrightarrow> pars (snd (runCCUBE idle_env (qA_src True) True None None (world0 {''src_CCUBE.fits'', ''src_ltcube.fits'', ''src_BinnedExpMap.fits'', ''src_SC.fits''}))) a = pars (world0 {''src_CCUBE.fits'', ''src_ltcube.fits'', ''src_BinnedExpMap.fits'', ''src_SC.fits''}) a)"
    by blast
  from p_cc have q_cc: "trace (snd (runCCUBE idle_env (qA_src True) True None None (world0 {''src_CCUBE.fits'', ''src_ltcube.fits'', ''src_BinnedExpMap.fits'', ''src_SC.fits''}))) = trace (world0 {''src_CCUBE.fits'', ''src_ltcube.fits'', ''src_BinnedExpMap.fits'', ''src_SC.fits''}) @ [Run evtbin (pars (snd (runCCUBE idle_env (qA_src True) True None None (world0 {''src_CCUBE.fits'', ''src_ltcube.fits'', ''src_BinnedExpMap.fits'', ''src_SC.fits''}))) evtbin)]"
    by blast
  have "srcMaps \<noteq> evtbin"
    by simp
  with p_cc have f_cc: "pars (snd (runCCUBE idle_env (qA_src True) True None None (world0 {''src_CCUBE.fits'', ''src_ltcube.fits'', ''src_BinnedExpMap.fits'', ''src_SC.fits''}))) srcMaps = pars (world0 {''src_CCUBE.fits'', ''src_ltcube.fits'', ''src_BinnedExpMap.fits'', ''src_SC.fits''}) srcMaps"
    by blast
  have "fst (runCMAP idle_env (qA_src True) True None (world0 {''src_CCUBE.fits'', ''src_ltcube.fits'', ''src_BinnedExpMap.fits'', ''src_SC.fits''})) = Inr ()"
    by (simp add: eval_defs)
  then have r_cm: "runCMAP idle_env (qA_src True) True None (world0 {''src_CCUBE.fits'', ''src_ltcube.fits'', ''src_BinnedExpMap.fits'', ''src_SC.fits''}) =
      (Inr (), snd (runCMAP idle_env (qA_src True) True None (world0 {''src_CCUBE.fits'', ''src_ltcube.fits'', ''src_BinnedExpMap.fits'', ''src_SC.fits''})))"
    by (rule returnsI)
  from T [where w' = "snd (runCMAP idle_env (qA_src True) True None (world0 {''src_CCUBE.fits'', ''src_ltcube.fits'', ''src_BinnedExpMap.fits'', ''src_SC.fits''}))" and bin_size = None] r_cm
  have p_cm: "trace (snd (runCMAP idle_env (qA_src True) True None (world0 {''src_CCUBE.fits'', ''src_ltcube.fits'', ''src_BinnedExpMap.fits'', ''src_SC.fits''}))) = trace (world0 {''src_CCUBE.fits'', ''src_ltcube.fits'', ''src_BinnedExpMap.fits'', ''src_SC.fits''}) @ [Run evtbin (pars (snd (runCMAP idle_env (qA_src True) True None (world0 {''src_CCUBE.fits'', ''src_ltcube.fits'', ''src_BinnedExpMap.fits'', ''src_SC.fits''}))) evtbin)] \<and>
      (\<forall>a. a \<noteq> evtbin \<longrightarrow> pars (snd (runCMAP idle_env (qA_src True) True None (world0 {''src_CCUBE.fits'', ''src_ltcube.fits'', ''src_BinnedExpMap.fits'', ''src_SC.fits''}))) a = pars (world0 {''src_CCUBE.fits'', ''src_ltcube.fits'', ''src_BinnedExpMap.fits'', ''src_SC.fits''}) a)"
    by blast
  from p_cm have q_cm: "trace (snd (runCMAP idle_env (qA_src True) True None (world0 {''src_CCUBE.fits'', ''src_ltcube.fits'', ''src_BinnedExpMap.fits'', ''src_SC.fits''}))) = trace (world0 {''src_CCUBE.fits'', ''src_ltcube.fits'', ''src_BinnedExpMap.fits'', ''src_SC.fits''}) @ [Run evtbin (pars (snd (runCMAP idle_env (qA_src True) True None (world0 {''src_CCUBE.fits'', ''src_ltcube.fits'', ''src_BinnedExpMap.fits'', ''src_SC.fits''}))) evtbin)]"
    by blast
  have "srcMaps \<noteq> evtbin"
    by simp
  with p_cm have f_cm: "pars (snd (runCMAP idle_env (qA_src True) True None (world0 {''src_CCUBE.fits'', ''src_ltcube.fits'', ''src_BinnedExpMap.fits'', ''src_SC.fits''}))) srcMaps = pars (world0 {''src_CCUBE.fits'', ''src_ltcube.fits'', ''src_BinnedExpMap.fits'', ''src_SC.fits''}) srcMaps"
    by blast
  have "fst (runExpCube idle_env (qA_src True) True None None (world0 {''src_CCUBE.fits'', ''src_ltcube.fits'', ''src_BinnedExpMap.fits'', ''src_SC.fits''})) = Inr ()"
    by (simp add: eval_defs)
  then have r_ec: "runExpCube idle_env (qA_src True) True None None (world0 {''src_CCUBE.fits'', ''src_ltcube.fits'', ''src_BinnedExpMap.fits'', ''src_SC.fits''}) =
      (Inr (), snd (runExpCube idle_env (qA_src True) True None None (world0 {''src_CCUBE.fits'', ''src_ltcube.fits'', ''src_BinnedExpMap.fits'', ''src_SC.fits''})))"
    by (rule returnsI)
  from T [where w' = "snd (runExpCube idle_env (qA_src True) True None None (world0 {''src_CCUBE.fits'', ''src_ltcube.fits'', ''src_BinnedExpMap.fits'', ''src_SC.fits''}))" and bin_size = None and nbins = None] r_ec
  have p_ec: "pars (snd (runExpCube idle_env (qA_src True) True None None (world0 {''src_CCUBE.fits'', ''src_ltcube.fits'', ''src_BinnedExpMap.fits'', ''src_SC.fits''}))) = pars (world0 {''src_CCUBE.fits'', ''src_ltcube.fits'', ''src_BinnedExpMap.fits'', ''src_SC.fits''}) \<and>
   tools_invoked (trace (snd (runExpCube idle_env (qA_src True) True None None (world0 {''src_CCUBE.fits'', ''src_ltcube.fits'', ''src_BinnedExpMap.fits'', ''src_SC.fits''})))) = tools_invoked (trace (world0 {''src_CCUBE.fits'', ''src_ltcube.fits'', ''src_BinnedExpMap.fits'', ''src_SC.fits''})) @ [''gtexpcube2'']"
    by blast
  have "fst (runSrcMaps idle_env (qA_src True) True (world0 {''src_CCUBE.fits'', ''src_ltcube.fits'', ''src_BinnedExpMap.fits'', ''src_SC.fits''})) = Inr ()"
    by (simp add: eval_defs)
  then have r_sm: "runSrcMaps idle_env (qA_src True) True (world0 {''src_CCUBE.fits'', ''src_ltcube.fits'', ''src_BinnedExpMap.fits'', ''src_SC.fits''}) =
      (Inr (), snd (runSrcMaps idle_env (qA_src True) True (world0 {''src_CCUBE.fits'', ''src_ltcube.fits'', ''src_BinnedExpMap.fits'', ''src_SC.fits''})))"
    by (rule returnsI)
  have p_sm: "trace (snd (runSrcMaps idle_env (qA_src True) True (world0 {''src_CCUBE.fits'', ''src_ltcube.fits'', ''src_BinnedExpMap.fits'', ''src_SC.fits''}))) = trace (world0 {''src_CCUBE.fits'', ''src_ltcube.fits'', ''src_BinnedExpMap.fits'', ''src_SC.fits''}) @ [Run srcMaps (pars (snd (runSrcMaps idle_env (qA_src True) True (world0 {''src_CCUBE.fits'', ''src_ltcube.fits'', ''src_BinnedExpMap.fits'', ''src_SC.fits''}))) srcMaps)] \<and>
      (\<forall>a. a \<noteq> srcMaps \<longrightarrow> pars (snd (runSrcMaps idle_env (qA_src True) True (world0 {''src_CCUBE.fits'', ''src_ltcube.fits'', ''src_BinnedExpMap.fits'', ''src_SC.fits''}))) a = pars (world0 {''src_CCUBE.fits'', ''src_ltcube.fits'', ''src_BinnedExpMap.fits'', ''src_SC.fits''}) a) \<and>
      tools_invoked (trace (snd (runSrcMaps idle_env (qA_src True) True (world0 {''src_CCUBE.fits'', ''src_ltcube.fits'', ''src_BinnedExpMap.fits'', ''src_SC.fits''})))) = tools_invoked (trace (world0 {''src_CCUBE.fits'', ''src_ltcube.fits'', ''src_BinnedExpMap.fits'', ''src_SC.fits''})) @ [''gtsrcmaps'']"
  proof -
    have gx: "generateXMLmodel idle_env (qA_src True) (world0 {''src_CCUBE.fits'', ''src_ltcube.fits'', ''src_BinnedExpMap.fits'', ''src_SC.fits''}) = (Inr (), world0 {''src_CCUBE.fits'', ''src_ltcube.fits'', ''src_BinnedExpMap.fits'', ''src_SC.fits''})"
      by (simp add: eval_defs)
    note t = run_methods_one_command [where E = idle_env and self = "qA_src True" and w = "world0 {''src_CCUBE.fits'', ''src_ltcube.fits'', ''src_BinnedExpMap.fits'', ''src_SC.fits''}"
        and w' = "snd (runSrcMaps idle_env (qA_src True) True (world0 {''src_CCUBE.fits'', ''src_ltcube.fits'', ''src_BinnedExpMap.fits'', ''src_SC.fits''}))",
        THEN conjunct2, THEN conjunct2, THEN conjunct2, THEN conjunct2, THEN conjunct2,
        THEN conjunct2, THEN conjunct2, THEN mp, OF r_sm]
    from t gx show ?thesis
      by (clarsimp simp: qA_src_def world0_def)
  qed
  have "evtbin \<noteq> srcMaps"
    by simp
  with p_sm have f_sm: "pars (snd (runSrcMaps idle_env (qA_src True) True (world0 {''src_CCUBE.fits'', ''src_ltcube.fits'', ''src_BinnedExpMap.fits'', ''src_SC.fits''}))) evtbin = pars (world0 {''src_CCUBE.fits'', ''src_ltcube.fits'', ''src_BinnedExpMap.fits'', ''src_SC.fits''}) evtbin"
    by blast
  from p_sm have q_sm: "trace (snd (runSrcMaps idle_env (qA_src True) True (world0 {''src_CCUBE.fits'', ''src_ltcube.fits'', ''src_BinnedExpMap.fits'', ''src_SC.fits''}))) = trace (world0 {''src_CCUBE.fits'', ''src_ltcube.fits'', ''src_BinnedExpMap.fits'', ''src_SC.fits''}) @ [Run srcMaps (pars (snd (runSrcMaps idle_env (qA_src True) True (world0 {''src_CCUBE.fits'', ''src_ltcube.fits'', ''src_BinnedExpMap.fits'', ''src_SC.fits''}))) srcMaps)]"
    and t_sm: "tools_invoked (trace (snd (runSrcMaps idle_env (qA_src True) True (world0 {''src_CCUBE.fits'', ''src_ltcube.fits'', ''src_BinnedExpMap.fits'', ''src_SC.fits''})))) = tools_invoked (trace (world0 {''src_CCUBE.fits'', ''src_ltcube.fits'', ''src_BinnedExpMap.fits'', ''src_SC.fits''})) @ [''gtsrcmaps'']"
    by blast+
  have "fst (runSrcMaps idle_env (qA_src True) True (world0 {})) = Inr ()"
    by (simp add: eval_defs)
  then have r_s0: "runSrcMaps idle_env (qA_src True) True (world0 {}) =
      (Inr (), snd (runSrcMaps idle_env (qA_src True) True (world0 {})))"
    by (rule returnsI)
  have p_s0: "trace (snd (runSrcMaps idle_env (qA_src True) True (world0 {}))) = trace (world0 {}) @ [Log Critical ''One or more needed files do not exist''] \<and>
      pars (snd (runSrcMaps idle_env (qA_src True) True (world0 {}))) = pars (world0 {}) \<and>
      tools_invoked (trace (snd (runSrcMaps idle_env (qA_src True) True (world0 {})))) = tools_invoked (trace (world0 {}))"
  proof -
    have gx: "generateXMLmodel idle_env (qA_src True) (world0 {}) = (Inr (), world0 {})"
      by (simp add: eval_defs)
    note t = run_methods_one_command [where E = idle_env and self = "qA_src True" and w = "world0 {}"
        and w' = "snd (runSrcMaps idle_env (qA_src True) True (world0 {}))",
        THEN conjunct2, THEN conjunct2, THEN conjunct2, THEN conjunct2, THEN conjunct2,
        THEN conjunct2, THEN conjunct2, THEN mp, OF r_s0]
    from t gx show ?thesis
      by (clarsimp simp: qA_src_def world0_def)
  qed
  from r_sel q_sel f_sel r_gti q_gti f_gti r_lt q_lt f_lt r_em q_em f_em r_cc q_cc f_cc r_cm q_cm f_cm r_ec p_ec r_sm q_sm f_sm t_sm r_s0 p_s0 show ?thesis
    by blast
qed



text \<open>
  C7. \<^verbatim>\<open>runSrcMaps\<close> checks for \<^verbatim>\<open><base>_CCUBE.fits\<close>, \<^verbatim>\<open><base>_ltcube.fits\<close>,
  \<^verbatim>\<open><base>_BinnedExpMap.fits\<close> and \<^verbatim>\<open><base>_SC.fits\<close> before it touches the \<^verbatim>\<open>srcMaps\<close>
  parameters. When one of them is missing once the model step is done, the call returns
  normally: no dictionary entry has changed, no tool has been invoked, and the only new
  events are critical log lines.
\<close>

theorem runSrcMaps_required_files_missing:
  assumes "commonConf self = Some cc" and "cc ''base'' = Some (PStr b)"
    and "generateXMLmodel E self w = (Inr (), wx)"
    and "b @ ''_CCUBE.fits'' \<notin> files wx \<or> b @ ''_ltcube.fits'' \<notin> files wx \<or>
         b @ ''_BinnedExpMap.fits'' \<notin> files wx \<or> b @ ''_SC.fits'' \<notin> files wx"
  shows "\<exists>w'. runSrcMaps E self run w = (Inr (), w') \<and>
           pars w' = pars w \<and>
           tools_invoked (trace w') = tools_invoked (trace w) \<and>
           (\<exists>logs. trace w' = trace w @ logs \<and>
              (\<forall>ev \<in> set logs. ev = Log Critical ''One or more needed files do not exist''))"
proof -
  let ?w' = "wx\<lparr>trace := trace wx @ [Log Critical ''One or more needed files do not exist'']\<rparr>"
  from assms(4) have "\<not> {b @ ''_CCUBE.fits'', b @ ''_ltcube.fits'', b @ ''_BinnedExpMap.fits'',
      b @ ''_SC.fits''} \<subseteq> files wx"
    by auto
  then have chk: "py_bind (expr (eval_list [
          py_plus E (self_commonConf self ''base'') (lit ''_CCUBE.fits''),
          py_plus E (self_commonConf self ''base'') (lit ''_ltcube.fits''),
          py_plus E (self_commonConf self ''base'') (lit ''_BinnedExpMap.fits''),
          py_plus E (self_commonConf self ''base'') (lit ''_SC.fits'')])) checkForFiles wx =
        (Inl FileNotFound, wx)"
    by (simp only: srcMaps_check [OF assms(1,2)] if_False)
  have run: "runSrcMaps E self run w = (Inr (), ?w')"
    unfolding runSrcMaps_def
    by (simp only:
          py_bind_eval [where m = "generateXMLmodel E self" and w = w and v = "()"
            and ?w1.0 = wx, OF assms(3)]
          try_except_handled [where w = wx and x = FileNotFound and ?w1.0 = wx
            and body = "py_bind (expr (eval_list [
              py_plus E (self_commonConf self ''base'') (lit ''_CCUBE.fits''),
              py_plus E (self_commonConf self ''base'') (lit ''_ltcube.fits''),
              py_plus E (self_commonConf self ''base'') (lit ''_BinnedExpMap.fits''),
              py_plus E (self_commonConf self ''base'') (lit ''_SC.fits'')])) checkForFiles",
            OF chk])
       (simp add: logger_critical_def emit_def)
  from generateXMLmodel_frame [OF assms(3)] have px: "pars wx = pars w"
    and tx: "trace wx = trace w \<or>
          trace wx = trace w @ [Log Critical ''One or more needed files do not exist'']"
    by simp_all
  from tx have "\<exists>logs. trace ?w' = trace w @ logs \<and>
              (\<forall>ev \<in> set logs. ev = Log Critical ''One or more needed files do not exist'')"
  proof
    assume a: "trace wx = trace w"
    show ?thesis
      by (rule exI [where x = "[Log Critical ''One or more needed files do not exist'']"])
         (simp add: a)
  next
    assume a: "trace wx = trace w @ [Log Critical ''One or more needed files do not exist'']"
    show ?thesis
      by (rule exI [where x = "[Log Critical ''One or more needed files do not exist'',
            Log Critical ''One or more needed files do not exist'']"])
         (simp add: a)
  qed
  moreover from tx have "tools_invoked (trace ?w') = tools_invoked (trace w)"
    by (auto simp: tools_invoked_append tools_invoked_Log)
  ultimately show ?thesis
    using run px by (intro exI [where x = ?w'] conjI) simp_all
qed

theorem runSrcMaps_required_files_missing_witness:
  "commonConf (qA_src True) =
     Some (default_commonConfig(''base'' \<mapsto> PStr ''src'', ''binned'' \<mapsto> PBool True)) \<and>
   generateXMLmodel idle_env (qA_src True) (world0 {''src_SC.fits''}) =
     (Inr (), world0 {''src_SC.fits''}) \<and>
   ''src'' @ ''_CCUBE.fits'' \<notin> files (world0 {''src_SC.fits''}) \<and>
   (\<exists>w'. runSrcMaps idle_env (qA_src True) True (world0 {''src_SC.fits''}) = (Inr (), w') \<and>
      pars w' = pars (world0 {''src_SC.fits''}) \<and>
      tools_invoked (trace w') = tools_invoked (trace (world0 {''src_SC.fits''})))"
proof -
  have c: "commonConf (qA_src True) =
      Some (default_commonConfig(''base'' \<mapsto> PStr ''src'', ''binned'' \<mapsto> PBool True))"
    by (simp add: qA_src_def)
  have b: "(default_commonConfig(''base'' \<mapsto> PStr ''src'', ''binned'' \<mapsto> PBool True)) ''base'' =
      Some (PStr ''src'')"
    by simp
  have g: "generateXMLmodel idle_env (qA_src True) (world0 {''src_SC.fits''}) =
      (Inr (), world0 {''src_SC.fits''})"
    by (simp add: eval_defs)
  have n: "''src'' @ ''_CCUBE.fits'' \<notin> files (world0 {''src_SC.fits''})"
    by (simp add: world0_def)
  then have m: "''src'' @ ''_CCUBE.fits'' \<notin> files (world0 {''src_SC.fits''}) \<or>
      ''src'' @ ''_ltcube.fits'' \<notin> files (world0 {''src_SC.fits''}) \<or>
      ''src'' @ ''_BinnedExpMap.fits'' \<notin> files (world0 {''src_SC.fits''}) \<or>
      ''src'' @ ''_SC.fits'' \<notin> files (world0 {''src_SC.fits''})"
    by (rule disjI1)
  from runSrcMaps_required_files_missing [OF c b g m, of True] c g n show ?thesis
    by blast
qed


text \<open>
  C9. Constructed with \<^verbatim>\<open>configFile=True\<close>: when reading the configuration raises
  FileNotFound, or \<^verbatim>\<open>checkConfig\<close> raises KeyError for the common or for the analysis
  dictionary, the constructor returns early and the object has neither \<^verbatim>\<open>commonConf\<close> nor
  \<^verbatim>\<open>analysisConf\<close>; every run-method called on such an object raises AttributeError; and
  an object that has one of the attributes has both, the configuration having been read
  and both dictionaries checked without error.
\<close>

theorem constructor_early_return:
  "(readConfig E base (files w) = Inl FileNotFound \<longrightarrow>
      quickAnalysis_init E base True analysisConfig commonConfig w =
        (Inr unset,
         w\<lparr>trace := trace w @ [Log Critical ''One or more needed files do not exist'']\<rparr>)) \<and>
   (readConfig E base (files w) = Inr (commonConfigRead, analysisConfigRead) \<and>
    checkConfig E (commonConfig(''base'' \<mapsto> base)) commonConfigRead = Inl (KeyError k) \<longrightarrow>
      quickAnalysis_init E base True analysisConfig commonConfig w = (Inr unset, w)) \<and>
   (readConfig E base (files w) = Inr (commonConfigRead, analysisConfigRead) \<and>
    checkConfig E (commonConfig(''base'' \<mapsto> base)) commonConfigRead = Inr checked \<and>
    checkConfig E analysisConfig analysisConfigRead = Inl (KeyError k) \<longrightarrow>
      quickAnalysis_init E base True analysisConfig commonConfig w = (Inr unset, w)) \<and>
   commonConf unset = None \<and> analysisConf unset = None \<and>
   fst (runSelect E unset run convtype w1) = Inl (AttributeError ''analysisConf'') \<and>
   fst (runGTI E unset run filterString roi w1) = Inl (AttributeError ''commonConf'') \<and>
   fst (runLTCube E unset run zmax w1) = Inl (AttributeError ''commonConf'') \<and>
   fst (runExpMap E unset run w1) = Inl (AttributeError ''commonConf'') \<and>
   fst (runCCUBE E unset run bin_size nbins w1) = Inl (AttributeError ''analysisConf'') \<and>
   fst (runCMAP E unset run bin_size w1) = Inl (AttributeError ''analysisConf'') \<and>
   fst (runExpCube E unset run bin_size nbins w1) = Inl (AttributeError ''analysisConf'') \<and>
   fst (runSrcMaps E unset run w1) = Inl (AttributeError ''commonConf'') \<and>
   fst (runModel E unset run w1) = Inl (AttributeError ''commonConf'') \<and>
   fst (runAll E unset run w1) = Inl (AttributeError ''commonConf'') \<and>
   (quickAnalysis_init E base True analysisConfig commonConfig w = (Inr qA, w') \<and>
    (commonConf qA \<noteq> None \<or> analysisConf qA \<noteq> None) \<longrightarrow>
      (\<exists>ccr acr cc ac.
          readConfig E base (files w) = Inr (ccr, acr) \<and>
          checkConfig E (commonConfig(''base'' \<mapsto> base)) ccr = Inr cc \<and>
          checkConfig E analysisConfig acr = Inr ac \<and>
          commonConf qA = Some cc \<and> analysisConf qA = Some ac))"
proof -
  have u: "commonConf unset = None" "analysisConf unset = None"
    by (simp_all add: unset_def)
  have p1: "(readConfig E base (files w) = Inl FileNotFound \<longrightarrow>
      quickAnalysis_init E base True analysisConfig commonConfig w =
        (Inr unset,
         w\<lparr>trace := trace w @ [Log Critical ''One or more needed files do not exist'']\<rparr>))"
    by (simp add: quickAnalysis_init_def Let_def py_bind_def logger_critical_def emit_def ret_def)
  have p2: "(readConfig E base (files w) = Inr (commonConfigRead, analysisConfigRead) \<and>
    checkConfig E (commonConfig(''base'' \<mapsto> base)) commonConfigRead = Inl (KeyError k) \<longrightarrow>
      quickAnalysis_init E base True analysisConfig commonConfig w = (Inr unset, w))"
    by (simp add: quickAnalysis_init_def Let_def is_KeyError_def)
  have p3: "(readConfig E base (files w) = Inr (commonConfigRead, analysisConfigRead) \<and>
    checkConfig E (commonConfig(''base'' \<mapsto> base)) commonConfigRead = Inr checked \<and>
    checkConfig E analysisConfig analysisConfigRead = Inl (KeyError k) \<longrightarrow>
      quickAnalysis_init E base True analysisConfig commonConfig w = (Inr unset, w))"
    by (simp add: quickAnalysis_init_def Let_def is_KeyError_def)
  have p5: "fst (runSelect E unset run convtype w1) = Inl (AttributeError ''analysisConf'') \<and>
   fst (runGTI E unset run filterString roi w1) = Inl (AttributeError ''commonConf'') \<and>
   fst (runLTCube E unset run zmax w1) = Inl (AttributeError ''commonConf'') \<and>
   fst (runExpMap E unset run w1) = Inl (AttributeError ''commonConf'') \<and>
   fst (runCCUBE E unset run bin_size nbins w1) = Inl (AttributeError ''analysisConf'') \<and>
   fst (runCMAP E unset run bin_size w1) = Inl (AttributeError ''analysisConf'') \<and>
   fst (runExpCube E unset run bin_size nbins w1) = Inl (AttributeError ''analysisConf'') \<and>
   fst (runSrcMaps E unset run w1) = Inl (AttributeError ''commonConf'') \<and>
   fst (runModel E unset run w1) = Inl (AttributeError ''commonConf'') \<and>
   fst (runAll E unset run w1) = Inl (AttributeError ''commonConf'')"
    by (simp add: u runSelect_unset runGTI_unset runLTCube_unset runExpMap_unset runCCUBE_unset
        runCMAP_unset runExpCube_unset runSrcMaps_unset runModel_unset runAll_unset)
  have p6: "(quickAnalysis_init E base True analysisConfig commonConfig w = (Inr qA, w') \<and>
    (commonConf qA \<noteq> None \<or> analysisConf qA \<noteq> None) \<longrightarrow>
      (\<exists>ccr acr cc ac.
          readConfig E base (files w) = Inr (ccr, acr) \<and>
          checkConfig E (commonConfig(''base'' \<mapsto> base)) ccr = Inr cc \<and>
          checkConfig E analysisConfig acr = Inr ac \<and>
          commonConf qA = Some cc \<and> analysisConf qA = Some ac))"
    by (auto simp: quickAnalysis_init_def Let_def init_finish_def py_bind_def logger_critical_def
        logger_info_def emit_def ret_def unset_def split: sum.splits prod.splits if_splits)
  from p1 p2 p3 u p5 p6 show ?thesis
    by blast
qed

theorem constructor_early_return_witness:
  "quickAnalysis_init no_config_env (PStr ''src'') True default_analysisConfig default_commonConfig (world0 {}) =
     (Inr unset, (world0 {})\<lparr>trace := trace (world0 {}) @ [Log Critical ''One or more needed files do not exist'']\<rparr>) \<and>
   quickAnalysis_init bad_common_env (PStr ''src'') True default_analysisConfig default_commonConfig (world0 {}) = (Inr unset, world0 {}) \<and>
   quickAnalysis_init bad_analysis_env (PStr ''src'') True default_analysisConfig default_commonConfig (world0 {}) = (Inr unset, world0 {}) \<and>
   fst (runSelect idle_env unset True None (world0 {})) = Inl (AttributeError ''analysisConf'') \<and>
   fst (runSrcMaps idle_env unset True (world0 {})) = Inl (AttributeError ''commonConf'') \<and>
   fst (runAll idle_env unset True (world0 {})) = Inl (AttributeError ''commonConf'') \<and>
   quickAnalysis_init idle_env (PStr ''src'') True default_analysisConfig default_commonConfig (world0 {}) =
     (Inr \<lparr>commonConf = Some (default_commonConfig(''base'' \<mapsto> PStr ''src'')), analysisConf = Some default_analysisConfig\<rparr>,
      (world0 {})\<lparr>trace := [Log Info ''Created quickAnalysis object: '']\<rparr>) \<and>
   (\<exists>ccr acr cc ac.
      readConfig idle_env (PStr ''src'') (files (world0 {})) = Inr (ccr, acr) \<and>
      checkConfig idle_env (default_commonConfig(''base'' \<mapsto> PStr ''src'')) ccr = Inr cc \<and>
      checkConfig idle_env default_analysisConfig acr = Inr ac \<and>
      commonConf \<lparr>commonConf = Some (default_commonConfig(''base'' \<mapsto> PStr ''src'')), analysisConf = Some default_analysisConfig\<rparr> = Some cc \<and>
      analysisConf \<lparr>commonConf = Some (default_commonConfig(''base'' \<mapsto> PStr ''src'')), analysisConf = Some default_analysisConfig\<rparr> = Some ac)"
proof -
  have h1: "readConfig no_config_env (PStr ''src'') (files (world0 {})) = Inl FileNotFound"
    by (simp add: no_config_env_def)
  from constructor_early_return [where E = no_config_env and base = "PStr ''src''" and analysisConfig = default_analysisConfig and commonConfig = default_commonConfig and w = "world0 {}"] h1
  have c1: "quickAnalysis_init no_config_env (PStr ''src'') True default_analysisConfig default_commonConfig (world0 {}) =
     (Inr unset, (world0 {})\<lparr>trace := trace (world0 {}) @ [Log Critical ''One or more needed files do not exist'']\<rparr>)"
    by blast
  have h2: "readConfig bad_common_env (PStr ''src'') (files (world0 {})) = Inr (Map.empty, Map.empty) \<and>
      checkConfig bad_common_env (default_commonConfig(''base'' \<mapsto> PStr ''src'')) Map.empty =
        Inl (KeyError ''irfs'')"
    by (simp add: bad_common_env_def idle_env_def)
  from constructor_early_return [where E = bad_common_env and base = "PStr ''src''" and analysisConfig = default_analysisConfig and commonConfig = default_commonConfig and w = "world0 {}"
      and commonConfigRead = Map.empty and analysisConfigRead = Map.empty and k = "''irfs''"] h2
  have c2: "quickAnalysis_init bad_common_env (PStr ''src'') True default_analysisConfig default_commonConfig (world0 {}) = (Inr unset, world0 {})"
    by blast
  have h3: "readConfig bad_analysis_env (PStr ''src'') (files (world0 {})) = Inr (Map.empty, Map.empty) \<and>
      checkConfig bad_analysis_env (default_commonConfig(''base'' \<mapsto> PStr ''src'')) Map.empty =
        Inr (default_commonConfig(''base'' \<mapsto> PStr ''src'')) \<and>
      checkConfig bad_analysis_env default_analysisConfig Map.empty = Inl (KeyError ''rad'')"
    by (simp add: bad_analysis_env_def idle_env_def default_commonConfig_def
        default_analysisConfig_def)
  from constructor_early_return [where E = bad_analysis_env and base = "PStr ''src''" and analysisConfig = default_analysisConfig and commonConfig = default_commonConfig and w = "world0 {}"
      and commonConfigRead = Map.empty and analysisConfigRead = Map.empty and k = "''rad''"
      and checked = "default_commonConfig(''base'' \<mapsto> PStr ''src'')"] h3
  have c3: "quickAnalysis_init bad_analysis_env (PStr ''src'') True default_analysisConfig default_commonConfig (world0 {}) = (Inr unset, world0 {})"
    by blast
  from constructor_early_return [where E = idle_env and run = True and convtype = None
      and ?w1.0 = "world0 {}"]
  have c5: "fst (runSelect idle_env unset True None (world0 {})) = Inl (AttributeError ''analysisConf'') \<and>
   fst (runSrcMaps idle_env unset True (world0 {})) = Inl (AttributeError ''commonConf'') \<and>
   fst (runAll idle_env unset True (world0 {})) = Inl (AttributeError ''commonConf'')"
    by blast
  have h6: "quickAnalysis_init idle_env (PStr ''src'') True default_analysisConfig default_commonConfig (world0 {}) =
     (Inr \<lparr>commonConf = Some (default_commonConfig(''base'' \<mapsto> PStr ''src'')), analysisConf = Some default_analysisConfig\<rparr>,
      (world0 {})\<lparr>trace := [Log Info ''Created quickAnalysis object: '']\<rparr>)"
    by (simp add: quickAnalysis_init_def Let_def init_finish_def py_bind_def logger_info_def
        emit_def ret_def idle_env_def items_str_def world0_def)
  have n6: "commonConf \<lparr>commonConf = Some (default_commonConfig(''base'' \<mapsto> PStr ''src'')), analysisConf = Some default_analysisConfig\<rparr> \<noteq> None"
    by simp
  from constructor_early_return [where E = idle_env and base = "PStr ''src''" and analysisConfig = default_analysisConfig and commonConfig = default_commonConfig and w = "world0 {}"
      and qA = "\<lparr>commonConf = Some (default_commonConfig(''base'' \<mapsto> PStr ''src'')), analysisConf = Some default_analysisConfig\<rparr>"
      and w' = "(world0 {})\<lparr>trace := [Log Info ''Created quickAnalysis object: '']\<rparr>"] h6 n6
  have c6: "\<exists>ccr acr cc ac.
      readConfig idle_env (PStr ''src'') (files (world0 {})) = Inr (ccr, acr) \<and>
      checkConfig idle_env (default_commonConfig(''base'' \<mapsto> PStr ''src'')) ccr = Inr cc \<and>
      checkConfig idle_env default_analysisConfig acr = Inr ac \<and>
      commonConf \<lparr>commonConf = Some (default_commonConfig(''base'' \<mapsto> PStr ''src'')), analysisConf = Some default_analysisConfig\<rparr> = Some cc \<and>
      analysisConf \<lparr>commonConf = Some (default_commonConfig(''base'' \<mapsto> PStr ''src'')), analysisConf = Some default_analysisConfig\<rparr> = Some ac"
    by blast
  from c1 c2 c3 c5 h6 c6 show ?thesis
    by blast
qed


text \<open>
  C8, as stated, fails: an argument vector can contain \<^verbatim>\<open>-M\<close> without getopt raising an
  error. After the base name \<^verbatim>\<open>src\<close> the scan for options is over; \<^verbatim>\<open>-M\<close> is handed on as
  a second base name, and \<^verbatim>\<open>cli\<close> returns normally after trying both.
\<close>

theorem getopt_refuses_M_counterexample:
  "''-M'' \<in> set [''quickAnalysis.py'', ''src'', ''-M''] \<and>
   getopt (drop 1 [''quickAnalysis.py'', ''src'', ''-M'']) ''cm'' = Inr ([], [''src'', ''-M'']) \<and>
   fst (cli idle_env [''quickAnalysis.py'', ''src'', ''-M''] (world0 {})) = Inr ()"
  by (simp add: getopt_def cli_def cli_body_def handled_def quickAnalysis_init_def
      init_finish_def items_str_def Let_def eval_defs)

text \<open>
  C8, amended. The branch testing \<^verbatim>\<open>opt == '-M'\<close> never executes: with the option string
  \<^verbatim>\<open>'cm'\<close> getopt returns no option but \<^verbatim>\<open>-c\<close> and \<^verbatim>\<open>-m\<close>, so for every argument vector
  \<^verbatim>\<open>cli\<close> never prints the line that opens the branch. When \<^verbatim>\<open>-M\<close> is reached by the
  scan for options (every argument before it is \<^verbatim>\<open>-c\<close> or \<^verbatim>\<open>-m\<close>), getopt raises its
  error.
\<close>

theorem modelmap_option_unreachable:
  "(getopt (drop 1 argv) ''cm'' = Inr (opts, args) \<longrightarrow>
      list_all (\<lambda>ov. fst ov = ''-c'' \<or> fst ov = ''-m'') opts) \<and>
   (Print ''Creating model map'' \<notin> set (trace w) \<longrightarrow>
      Print ''Creating model map'' \<notin> set (trace (snd (cli E argv w)))) \<and>
   (list_all (\<lambda>a. a = ''-c'' \<or> a = ''-m'') pre \<longrightarrow>
      getopt (drop 1 (prog # pre @ ''-M'' # rest)) ''cm'' =
        Inl (GetoptError ''option -M not recognized''))"
proof (intro conjI impI)
  assume "getopt (drop 1 argv) ''cm'' = Inr (opts, args)"
  from getopt_cm [OF this] show "list_all (\<lambda>ov. fst ov = ''-c'' \<or> fst ov = ''-m'') opts"
    by (simp add: list_all_iff known_opt_def)
next
  assume n: "Print ''Creating model map'' \<notin> set (trace w)"
  have "cli E argv w = (fst (cli E argv w), snd (cli E argv w))"
    by simp
  from never_emitsD [OF never_emits_cli this n]
  show "Print ''Creating model map'' \<notin> set (trace (snd (cli E argv w)))" .
next
  assume "list_all (\<lambda>a. a = ''-c'' \<or> a = ''-m'') pre"
  from getopt_loop_refuses_M [OF this]
  show "getopt (drop 1 (prog # pre @ ''-M'' # rest)) ''cm'' =
        Inl (GetoptError ''option -M not recognized'')"
    by (simp add: getopt_def)
qed

theorem modelmap_option_unreachable_witness:
  "getopt (drop 1 [''quickAnalysis.py'', ''-m'', ''src'']) ''cm'' = Inr ([(''-m'', [])], [''src'']) \<and>
   list_all (\<lambda>ov. fst ov = ''-c'' \<or> fst ov = ''-m'') [(''-m'', [] :: string)] \<and>
   Print ''Creating model map'' \<notin> set (trace (world0 {})) \<and>
   Print ''Creating model map'' \<notin>
     set (trace (snd (cli idle_env [''quickAnalysis.py'', ''-M'', ''src''] (world0 {})))) \<and>
   list_all (\<lambda>a. a = ''-c'' \<or> a = ''-m'') [''-c''] \<and>
   getopt (drop 1 (''quickAnalysis.py'' # [''-c''] @ ''-M'' # [''src''])) ''cm'' =
     Inl (GetoptError ''option -M not recognized'')"
proof -
  have g: "getopt (drop 1 [''quickAnalysis.py'', ''-m'', ''src'']) ''cm'' =
      Inr ([(''-m'', [])], [''src''])"
    by (simp add: getopt_def)
  have n: "Print ''Creating model map'' \<notin> set (trace (world0 {}))"
    by (simp add: world0_def)
  have p: "list_all (\<lambda>a. a = ''-c'' \<or> a = ''-m'') [''-c'']"
    by simp
  from modelmap_option_unreachable [where argv = "[''quickAnalysis.py'', ''-m'', ''src'']"
      and opts = "[(''-m'', [])]" and args = "[''src'']" and E = idle_env and w = "world0 {}"
      and pre = "[''-c'']" and prog = "''quickAnalysis.py''" and rest = "[''src'']"] g
  have c1: "list_all (\<lambda>ov. fst ov = ''-c'' \<or> fst ov = ''-m'') [(''-m'', [] :: string)]"
    by blast
  from modelmap_option_unreachable [where argv = "[''quickAnalysis.py'', ''-M'', ''src'']"
      and opts = "[(''-m'', [])]" and args = "[''src'']" and E = idle_env and w = "world0 {}"
      and pre = "[''-c'']" and prog = "''quickAnalysis.py''" and rest = "[''src'']"] n
  have c2: "Print ''Creating model map'' \<notin>
     set (trace (snd (cli idle_env [''quickAnalysis.py'', ''-M'', ''src''] (world0 {}))))"
    by blast
  from modelmap_option_unreachable [where argv = "[''quickAnalysis.py'', ''-m'', ''src'']"
      and opts = "[(''-m'', [])]" and args = "[''src'']" and E = idle_env and w = "world0 {}"
      and pre = "[''-c'']" and prog = "''quickAnalysis.py''" and rest = "[''src'']"] p
  have c3: "getopt (drop 1 (''quickAnalysis.py'' # [''-c''] @ ''-M'' # [''src''])) ''cm'' =
     Inl (GetoptError ''option -M not recognized'')"
    by blast
  from g c1 n c2 p c3 show ?thesis
    by (intro conjI)
qed


end
